theory Spec2Isabelle
  imports Main "HOL-Library.AList" "HOL-Library.Log_Nat"
begin

section \<open>Python values used by the two scripts\<close>

text \<open>
  Strings are byte strings (UTF-8); \<open>str.lower\<close> is modelled on the ASCII letters,
  which is what operator and layer type names consist of.  A Python \<open>dict\<close> keeps its
  keys in insertion order and overwrites in place, which is what \<open>AList.update\<close> does
  on an association list.
\<close>

definition lower_char :: "char \<Rightarrow> char" where
  "lower_char c =
     (case map_of (zip ''ABCDEFGHIJKLMNOPQRSTUVWXYZ'' ''abcdefghijklmnopqrstuvwxyz'') c of
        Some l \<Rightarrow> l
      | None \<Rightarrow> c)"

definition lower :: "string \<Rightarrow> string" where
  "lower s = map lower_char s"

text \<open>\<open>s.startswith(p)\<close> and the substring test \<open>sub in s\<close>.\<close>

fun startswith :: "string \<Rightarrow> string \<Rightarrow> bool" where
  "startswith s [] = True"
| "startswith [] (p # ps) = False"
| "startswith (c # cs) (p # ps) = (c = p \<and> startswith cs ps)"

fun str_in :: "string \<Rightarrow> string \<Rightarrow> bool" where
  "str_in sub [] = (sub = [])"
| "str_in sub (c # cs) = (startswith (c # cs) sub \<or> str_in sub cs)"

text \<open>\<open>str(n)\<close> for an integer, as an f-string prints it.\<close>

definition digit_char :: "nat \<Rightarrow> char" where
  "digit_char d = ''0123456789'' ! d"

function str_nat :: "nat \<Rightarrow> string" where
  "str_nat n = (if n < 10 then [digit_char n] else str_nat (n div 10) @ [digit_char (n mod 10)])"
  by pat_completeness auto
termination
  by (relation "measure id") auto

definition str_int :: "int \<Rightarrow> string" where
  "str_int i = (if i < 0 then CHR ''-'' # str_nat (nat (- i)) else str_nat (nat i))"

text \<open>The exceptions that can leave a function of the scripts.\<close>

datatype error =
    LibraryError string
  | AttributeError string
  | ZeroDivisionError
  | ValueError string

text \<open>\<open>str(e)\<close>: a library error carries its message, an attribute error names the attribute
  that \<open>None\<close> does not have.\<close>

fun str_error :: "error \<Rightarrow> string" where
  "str_error (LibraryError msg) = msg"
| "str_error (AttributeError a) =
     [CHR 0x27] @ ''NoneType'' @ [CHR 0x27] @ '' object has no attribute '' @ [CHR 0x27] @ a @ [CHR 0x27]"
| "str_error ZeroDivisionError = ''float division by zero''"
| "str_error (ValueError msg) = msg"

section \<open>The compatibility analyzer (analyze\_ane.py)\<close>

subsection \<open>Static tables\<close>

definition ANE_PROBLEMATIC_OPS :: "string set" where
  "ANE_PROBLEMATIC_OPS =
     {''custom'', ''customLayer'',
      ''reshape_dynamic'', ''slice_dynamic'', ''gather_nd'',
      ''einsum''}"

definition ANE_OPTIMIZED_OPS :: "string set" where
  "ANE_OPTIMIZED_OPS =
     {''conv'', ''conv2d'', ''depthwise_conv2d'', ''conv_transpose'',
      ''linear'', ''matmul'', ''batch_matmul'',
      ''relu'', ''gelu'', ''silu'', ''sigmoid'', ''tanh'', ''leaky_relu'',
      ''add'', ''mul'', ''sub'', ''div'', ''real_div'',
      ''softmax'', ''layer_norm'', ''batch_norm'', ''instance_norm'',
      ''reshape'', ''transpose'', ''squeeze'', ''expand_dims'', ''flatten'',
      ''concat'', ''split'', ''slice_by_index'', ''gather'',
      ''reduce_mean'', ''reduce_sum'', ''reduce_max'',
      ''embedding'', ''pad'', ''upsample_nearest_neighbor''}"

definition ANE_CONSTRAINTS :: "(string \<times> int) list" where
  "ANE_CONSTRAINTS =
     [(''max_tensor_size_mb'', 256),
      (''max_batch_size'', 32),
      (''preferred_channel_alignment'', 16),
      (''max_sequence_length'', 2048)]"

definition max_sequence_length :: int where
  "max_sequence_length = the (map_of ANE_CONSTRAINTS ''max_sequence_length'')"

subsection \<open>The loaded model, by the attributes the analyzer reads\<close>

text \<open>
  An operation of a program is read through \<open>op.type\<close> only, a layer of a network through
  \<open>layer.name\<close> and \<open>layer.WhichOneof('layer')\<close> (which is \<open>None\<close> when the oneof is unset).
  \<open>hasattr(desc, 'type')\<close> and \<open>hasattr(desc.type, 'multiArrayType')\<close> are the presence of
  an optional attribute.
\<close>

record mil_function =
  fn_name :: string
  block_specializations :: "string list list"

record layer =
  layer_name :: string
  layer_which :: "string option"

record model_spec =
  which_type :: "string option"
  mlProgram :: "mil_function list"
  neuralNetwork :: "layer list"

datatype feature_type = FeatureType (multiArrayType: "int list option")

record feature_desc =
  desc_name :: string
  desc_type :: "feature_type option"

record mlmodel =
  get_spec :: model_spec
  input_description :: "feature_desc list"
  output_description :: "feature_desc list"

subsection \<open>The analysis result record\<close>

record results =
  model_path :: string
  format :: string
  ane_compatible :: bool
  warnings :: "string list"
  blocking_issues :: "string list"
  operations :: "(string \<times> int) list"
  input_shapes :: "(string \<times> int list) list"
  output_shapes :: "(string \<times> int list) list"
  recommendations :: "string list"

definition init_results :: "string \<Rightarrow> results" where
  "init_results path =
     \<lparr>model_path = path, format = ''unknown'', ane_compatible = True,
      warnings = [], blocking_issues = [], operations = [],
      input_shapes = [], output_shapes = [], recommendations = []\<rparr>"

text \<open>\<open>d[k] = d.get(k, 0) + 1\<close>\<close>

definition count_op :: "'k \<Rightarrow> ('k \<times> int) list \<Rightarrow> ('k \<times> int) list" where
  "count_op k d = AList.update k ((case map_of d k of None \<Rightarrow> 0 | Some c \<Rightarrow> c) + 1) d"

subsection \<open>analyze\_mlprogram\_ops\<close>

definition op_warning :: "string \<Rightarrow> string" where
  "op_warning op_type = ''Operation '' @ [CHR 0x27] @ op_type @ [CHR 0x27] @ '' may cause ANE fallback''"

definition custom_issue :: "string \<Rightarrow> string" where
  "custom_issue nm = ''Custom layer '' @ [CHR 0x27] @ nm @ [CHR 0x27] @ '' not supported on ANE''"

text \<open>The body of the innermost loop, for one operation.\<close>

definition mlprogram_op :: "results \<Rightarrow> string \<Rightarrow> results" where
  "mlprogram_op r op_type =
     (let r1 = r\<lparr>operations := count_op op_type (operations r)\<rparr>;
          op_lower = lower op_type;
          r2 = (if op_lower \<in> ANE_PROBLEMATIC_OPS
                then r1\<lparr>warnings := warnings r1 @ [op_warning op_type]\<rparr> else r1)
      in if str_in ''custom'' op_lower
         then r2\<lparr>blocking_issues := blocking_issues r2 @ [custom_issue op_type],
                 ane_compatible := False\<rparr>
         else r2)"

definition analyze_mlprogram_ops :: "model_spec \<Rightarrow> results \<Rightarrow> results" where
  "analyze_mlprogram_ops spec r =
     foldl (\<lambda>r f. foldl (\<lambda>r block. foldl mlprogram_op r block) r (block_specializations f))
       r (mlProgram spec)"

subsection \<open>analyze\_neural\_network\_ops\<close>

definition layer_warning :: "string \<Rightarrow> string \<Rightarrow> string" where
  "layer_warning nm layer_type =
     ''Layer '' @ [CHR 0x27] @ nm @ [CHR 0x27] @ '' ('' @ layer_type @ '') may cause ANE fallback''"

text \<open>
  The body of the loop for one layer.  When the oneof is unset, \<open>layer_type\<close> is \<open>None\<close>
  and \<open>layer_type.lower()\<close> raises; the dictionary update before it is lost with the
  exception, which nothing catches.
\<close>

definition neural_network_layer :: "results \<Rightarrow> layer \<Rightarrow> error + results" where
  "neural_network_layer r l =
     (case layer_which l of
        None \<Rightarrow> Inl (AttributeError ''lower'')
      | Some layer_type \<Rightarrow>
          (let r1 = r\<lparr>operations := count_op layer_type (operations r)\<rparr>;
               r2 = (if layer_type = ''custom''
                     then r1\<lparr>blocking_issues := blocking_issues r1 @ [custom_issue (layer_name l)],
                             ane_compatible := False\<rparr>
                     else r1)
           in Inr (if lower layer_type \<in> ANE_PROBLEMATIC_OPS
                   then r2\<lparr>warnings := warnings r2 @ [layer_warning (layer_name l) layer_type]\<rparr>
                   else r2)))"

fun nn_layers :: "results \<Rightarrow> layer list \<Rightarrow> error + results" where
  "nn_layers r [] = Inr r"
| "nn_layers r (l # ls) =
     (case neural_network_layer r l of Inl e \<Rightarrow> Inl e | Inr r' \<Rightarrow> nn_layers r' ls)"

definition analyze_neural_network_ops :: "model_spec \<Rightarrow> results \<Rightarrow> error + results" where
  "analyze_neural_network_ops spec r = nn_layers r (neuralNetwork spec)"

subsection \<open>generate\_recommendations\<close>

definition rec_blocking :: string where
  "rec_blocking = [CHR 0xE2, CHR 0x9D, CHR 0x8C] @
     '' Model contains blocking issues. Custom layers must be replaced with supported operations or the model must be re-exported.''"

definition rec_warnings :: string where
  "rec_warnings = [CHR 0xE2, CHR 0x9A, CHR 0xA0, CHR 0xEF, CHR 0xB8, CHR 0x8F] @
     '' Some operations may cause partial ANE fallback. Profile with Instruments to measure actual ANE utilization.''"

definition rec_float16 :: string where
  "rec_float16 = [CHR 0xF0, CHR 0x9F, CHR 0x92, CHR 0xA1] @
     '' Consider Float16 precision for compute-heavy operations. Use '' @ [CHR 0x60] @
     ''compute_precision=ct.precision.FLOAT16'' @ [CHR 0x60] @ '' during conversion.''"

definition rec_conv :: string where
  "rec_conv = [CHR 0xF0, CHR 0x9F, CHR 0x92, CHR 0xA1] @
     '' Ensure convolution channel dimensions are multiples of 16 for optimal ANE tile processing.''"

definition rec_seq_len :: "int \<Rightarrow> string" where
  "rec_seq_len seq_len = [CHR 0xE2, CHR 0x9A, CHR 0xA0, CHR 0xEF, CHR 0xB8, CHR 0x8F] @
     '' Sequence length '' @ str_int seq_len @
     '' may exceed ANE limits. Consider chunking input for very long sequences.''"

definition rec_well_optimized :: string where
  "rec_well_optimized = [CHR 0xE2, CHR 0x9C, CHR 0x85] @
     '' Model appears well-optimized for ANE execution.''"

text \<open>
  The body of the loop over \<open>input_shapes.items()\<close>: the guard \<open>shape and len(shape) >= 2\<close>
  is the pattern of a list with two elements at least, and \<open>max(shape)\<close> is then defined.
\<close>

fun seq_len_recs :: "string \<times> int list \<Rightarrow> string list" where
  "seq_len_recs (nm, x # y # rest) =
     (let seq_len = foldl max x (y # rest)
      in if seq_len > max_sequence_length then [rec_seq_len seq_len] else [])"
| "seq_len_recs (nm, shape) = []"

definition generate_recommendations :: "results \<Rightarrow> string list" where
  "generate_recommendations r =
     (let recs1 = (if \<not> ane_compatible r then [rec_blocking] else []);
          recs2 = recs1 @ (if warnings r \<noteq> [] then [rec_warnings] else []);
          ops = map fst (operations r);
          has_compute_ops =
            list_ex (\<lambda>op. lower op \<in> {''matmul'', ''linear'', ''conv'', ''conv2d''}) ops;
          recs3 = recs2 @ (if has_compute_ops then [rec_float16] else []);
          recs4 = recs3 @ (if list_ex (\<lambda>op. str_in ''conv'' (lower op)) ops then [rec_conv] else []);
          recs5 = recs4 @
            (if list_ex (\<lambda>op. str_in ''attention'' (lower op) \<or> str_in ''softmax'' (lower op)) ops
             then concat (map seq_len_recs (input_shapes r)) else [])
      in if recs5 = [] then [rec_well_optimized] else recs5)"

subsection \<open>analyze\_ml\_program\<close>

text \<open>The body of the two loops over the declared inputs and outputs.\<close>

definition record_shape ::
  "(string \<times> int list) list \<Rightarrow> feature_desc \<Rightarrow> (string \<times> int list) list" where
  "record_shape shapes d =
     (case desc_type d of
        None \<Rightarrow> shapes
      | Some t \<Rightarrow>
          (case multiArrayType t of
             None \<Rightarrow> shapes
           | Some shape \<Rightarrow> AList.update (desc_name d) shape shapes))"

text \<open>
  \<open>MLModel\<close> stands for the library call \<open>ct.models.MLModel(model_path)\<close>, which loads the
  model or raises.  The line the function prints first is no part of its result and is
  left out.
\<close>

definition analyze_ml_program :: "(string \<Rightarrow> error + mlmodel) \<Rightarrow> string \<Rightarrow> error + results" where
  "analyze_ml_program MLModel path =
     (case MLModel path of
        Inl e \<Rightarrow> Inl e
      | Inr model \<Rightarrow>
          (let spec = get_spec model;
               r0 = init_results path;
               model_type = which_type spec
           in case (if model_type = Some ''mlProgram''
                    then Inr (analyze_mlprogram_ops spec (r0\<lparr>format := ''mlprogram''\<rparr>))
                    else if model_type = Some ''neuralNetwork''
                    then analyze_neural_network_ops spec (r0\<lparr>format := ''neuralNetwork''\<rparr>)
                    else Inr (r0\<lparr>format :=
                           (case model_type of
                              None \<Rightarrow> ''unknown''
                            | Some t \<Rightarrow> if t = [] then ''unknown'' else t)\<rparr>)) of
                Inl e \<Rightarrow> Inl e
              | Inr r1 \<Rightarrow>
                  (let r2 = r1\<lparr>input_shapes :=
                              foldl record_shape (input_shapes r1) (input_description model)\<rparr>;
                       r3 = r2\<lparr>output_shapes :=
                              foldl record_shape (output_shapes r2) (output_description model)\<rparr>
                   in Inr (r3\<lparr>recommendations := generate_recommendations r3\<rparr>))))"

subsection \<open>The JSON report of main\<close>

text \<open>
  With \<open>--json\<close>, \<open>main\<close> prints \<open>json.dumps(results, indent=2)\<close>.  The standard library's
  \<open>json\<close> is modelled on values, not on the text of the document: \<open>json.dumps\<close> turns a
  Python value into a JSON value (a dictionary into an object whose keys are strings: a
  string key is kept, an integer, a boolean or \<open>None\<close> is written out, any other key is a
  \<open>TypeError\<close>; a list or a tuple into an array), and \<open>json.loads\<close> turns the JSON value
  back (an object into a dictionary filled key by key, an array into a list).
\<close>

datatype pyval =
    PNone
  | PBool bool
  | PInt int
  | PStr string
  | PList "pyval list"
  | PTuple "pyval list"
  | PDict "(pyval \<times> pyval) list"

datatype json =
    JNull
  | JBool bool
  | JNumber int
  | JString string
  | JArray "json list"
  | JObject "(string \<times> json) list"

fun dumps_key :: "pyval \<Rightarrow> string option" where
  "dumps_key (PStr s) = Some s"
| "dumps_key (PInt i) = Some (str_int i)"
| "dumps_key (PBool b) = Some (if b then ''true'' else ''false'')"
| "dumps_key PNone = Some ''null''"
| "dumps_key v = None"

fun to_json :: "pyval \<Rightarrow> json option"
  and to_json_list :: "pyval list \<Rightarrow> json list option"
  and to_json_items :: "(pyval \<times> pyval) list \<Rightarrow> (string \<times> json) list option" where
  "to_json PNone = Some JNull"
| "to_json (PBool b) = Some (JBool b)"
| "to_json (PInt i) = Some (JNumber i)"
| "to_json (PStr s) = Some (JString s)"
| "to_json (PList xs) = map_option JArray (to_json_list xs)"
| "to_json (PTuple xs) = map_option JArray (to_json_list xs)"
| "to_json (PDict kvs) = map_option JObject (to_json_items kvs)"
| "to_json_list [] = Some []"
| "to_json_list (x # xs) =
     (case to_json x of
        None \<Rightarrow> None
      | Some j \<Rightarrow> map_option ((#) j) (to_json_list xs))"
| "to_json_items [] = Some []"
| "to_json_items ((k, v) # kvs) =
     (case dumps_key k of
        None \<Rightarrow> None
      | Some s \<Rightarrow>
          (case to_json v of
             None \<Rightarrow> None
           | Some j \<Rightarrow> map_option ((#) (s, j)) (to_json_items kvs)))"

fun of_json :: "json \<Rightarrow> pyval"
  and of_json_list :: "json list \<Rightarrow> pyval list"
  and of_json_items :: "(pyval \<times> pyval) list \<Rightarrow> (string \<times> json) list \<Rightarrow> (pyval \<times> pyval) list" where
  "of_json JNull = PNone"
| "of_json (JBool b) = PBool b"
| "of_json (JNumber i) = PInt i"
| "of_json (JString s) = PStr s"
| "of_json (JArray xs) = PList (of_json_list xs)"
| "of_json (JObject kvs) = PDict (of_json_items [] kvs)"
| "of_json_list [] = []"
| "of_json_list (x # xs) = of_json x # of_json_list xs"
| "of_json_items d [] = d"
| "of_json_items d ((k, v) # kvs) = of_json_items (AList.update (PStr k) (of_json v) d) kvs"

text \<open>\<open>json.loads(json.dumps(v))\<close>; \<open>None\<close> when \<open>json.dumps\<close> raises.\<close>

definition json_roundtrip :: "pyval \<Rightarrow> pyval option" where
  "json_roundtrip v = map_option of_json (to_json v)"

text \<open>The dictionary \<open>analyze_ml_program\<close> returns, with its keys in the order of lines 71-81.\<close>

definition results_dict :: "results \<Rightarrow> pyval" where
  "results_dict r =
     PDict
       [(PStr ''model_path'', PStr (model_path r)),
        (PStr ''format'', PStr (format r)),
        (PStr ''ane_compatible'', PBool (ane_compatible r)),
        (PStr ''warnings'', PList (map PStr (warnings r))),
        (PStr ''blocking_issues'', PList (map PStr (blocking_issues r))),
        (PStr ''operations'', PDict (map (\<lambda>(k, n). (PStr k, PInt n)) (operations r))),
        (PStr ''input_shapes'',
           PDict (map (\<lambda>(k, shape). (PStr k, PList (map PInt shape))) (input_shapes r))),
        (PStr ''output_shapes'',
           PDict (map (\<lambda>(k, shape). (PStr k, PList (map PInt shape))) (output_shapes r))),
        (PStr ''recommendations'', PList (map PStr (recommendations r)))]"

section \<open>The precision reducer (quantize\_kokoro.py)\<close>

subsection \<open>The platform\<close>

text \<open>
  The script drives the conversion library, the file system, numpy and the device
  compiler.  They are the platform: a record of the outcomes of the calls the script
  makes, over a world \<open>'w\<close> (the file system and whatever else a call reads or changes),
  the Python floats \<open>'f\<close>, the values \<open>'a\<close> a prediction returns for an output, and the
  numbers \<open>'n\<close> of numpy (the samples of an audio array and the scalars computed from
  them).  A call that can raise returns a sum, a call that writes returns the new world.
  The fields, by the source line that makes the call:
  \<^item> \<open>ct_MLModel\<close>: \<open>ct.models.MLModel(path)\<close>;
  \<^item> \<open>walk_sizes\<close>: \<open>os.path.getsize\<close> of the regular files \<open>os.walk(path)\<close> finds, in order;
  \<^item> \<open>linear_quantize_weights\<close>, \<open>palettize_weights\<close>: the two \<open>ct.optimize.coreml\<close> calls
    with the configuration built for them (mode and dtype, mode and nbits);
  \<^item> \<open>quantize_weights\<close>: \<open>quantization_utils.quantize_weights(model, nbits, mode)\<close>;
  \<^item> \<open>model_save\<close>: \<open>model.save(path)\<close>;
  \<^item> \<open>ct_convert\<close>: \<open>ct.convert\<close> on the four input tensors of lines 188-193;
  \<^item> \<open>model_predict\<close>: \<open>model.predict(test_input)\<close> on the test input of lines 220-225;
  \<^item> \<open>np_flatten\<close>: \<open>np.array(x).flatten()\<close>, the samples of an output in order;
  \<^item> \<open>np_sub\<close>, \<open>np_square\<close>, \<open>np_abs\<close>: what \<open>a - b\<close>, \<open>a ** 2\<close> and \<open>np.abs(a)\<close> compute at
    each sample of arrays of the same length;
  \<^item> \<open>np_mean\<close>, \<open>np_max\<close>: \<open>np.mean\<close> and \<open>np.max\<close> of an array (\<open>np.max\<close> raises on an
    array without samples);
  \<^item> \<open>np_truediv\<close>, \<open>np_log10\<close>, \<open>int_mul_np\<close>, \<open>np_gt_int\<close>: \<open>x / y\<close>, \<open>np.log10(x)\<close>,
    \<open>10 * x\<close> and \<open>x > 0\<close> on numpy scalars; \<open>float_inf\<close>: \<open>float('inf')\<close>, reported in the
    place of a numpy scalar; \<open>np_format\<close>: the format \<open>{x:.kf}\<close> of such a value;
  \<^item> \<open>coremlcompiler\<close>: \<open>subprocess.run\<close> of \<open>xcrun coremlcompiler compile\<close>, giving the
    return code and the standard error text;
  \<^item> the operations on Python floats the script itself performs on the sizes, the
    format \<open>{x:.kf}\<close> of a float and the text of the layer count dictionary.
\<close>

datatype target = iOS15 | iOS16 | iOS17

record 'f metrics =
  original_size_mb :: 'f
  quantized_size_mb :: 'f
  reduction_percent :: 'f

record 'n quality =
  snr_db :: 'n
  max_error :: 'n
  mean_error :: 'n

record ('w, 'f, 'n, 'a) platform =
  ct_MLModel :: "'w \<Rightarrow> string \<Rightarrow> error + mlmodel"
  walk_sizes :: "'w \<Rightarrow> string \<Rightarrow> nat list"
  linear_quantize_weights :: "mlmodel \<Rightarrow> string \<Rightarrow> string \<Rightarrow> error + mlmodel"
  palettize_weights :: "mlmodel \<Rightarrow> string \<Rightarrow> nat \<Rightarrow> error + mlmodel"
  quantize_weights :: "mlmodel \<Rightarrow> nat \<Rightarrow> string \<Rightarrow> error + mlmodel"
  model_save :: "'w \<Rightarrow> mlmodel \<Rightarrow> string \<Rightarrow> (error + unit) \<times> 'w"
  ct_convert :: "'w \<Rightarrow> string \<Rightarrow> target \<Rightarrow> error + mlmodel"
  model_predict :: "'w \<Rightarrow> mlmodel \<Rightarrow> error + (string \<times> 'a) list"
  np_flatten :: "'a \<Rightarrow> error + 'n list"
  np_sub :: "'n \<Rightarrow> 'n \<Rightarrow> 'n"
  np_square :: "'n \<Rightarrow> 'n"
  np_abs :: "'n \<Rightarrow> 'n"
  np_mean :: "'n list \<Rightarrow> 'n"
  np_max :: "'n list \<Rightarrow> error + 'n"
  np_truediv :: "'n \<Rightarrow> 'n \<Rightarrow> 'n"
  np_log10 :: "'n \<Rightarrow> 'n"
  int_mul_np :: "int \<Rightarrow> 'n \<Rightarrow> 'n"
  np_gt_int :: "'n \<Rightarrow> int \<Rightarrow> bool"
  float_inf :: "'n"
  np_format :: "nat \<Rightarrow> 'n \<Rightarrow> string"
  coremlcompiler :: "'w \<Rightarrow> string \<Rightarrow> string \<Rightarrow> (error + int \<times> string) \<times> 'w"
  int_truediv :: "int \<Rightarrow> int \<Rightarrow> 'f"
  float_sub :: "'f \<Rightarrow> 'f \<Rightarrow> 'f"
  float_truediv :: "'f \<Rightarrow> 'f \<Rightarrow> error + 'f"
  float_mul_int :: "'f \<Rightarrow> int \<Rightarrow> 'f"
  float_format :: "nat \<Rightarrow> 'f \<Rightarrow> string"
  repr_counts :: "(string option \<times> int) list \<Rightarrow> string"

text \<open>
  The state of a run: the world and the lines printed so far.  A function of the script
  takes the state and returns its result, or the exception that leaves it, with the state
  it has reached.
\<close>

record 'w state =
  world :: 'w
  stdout :: "string list"

definition py_print :: "string \<Rightarrow> 'w state \<Rightarrow> 'w state" where
  "py_print line s = s\<lparr>stdout := stdout s @ [line]\<rparr>"

definition endswith :: "string \<Rightarrow> string \<Rightarrow> bool" where
  "endswith s suffix = startswith (rev s) (rev suffix)"

text \<open>\<open>os.path.dirname\<close>: the path up to its last slash, without trailing slashes unless
  it consists of slashes only.\<close>

definition dirname :: "string \<Rightarrow> string" where
  "dirname p =
     (let head = rev (dropWhile (\<lambda>c. c \<noteq> CHR ''/'') (rev p))
      in if head \<noteq> [] \<and> head \<noteq> replicate (length head) (CHR ''/'')
         then rev (dropWhile (\<lambda>c. c = CHR ''/'') (rev head))
         else head)"

subsection \<open>get\_model\_size\_mb and analyze\_model\<close>

definition get_model_size_mb :: "('w, 'f, 'n, 'a) platform \<Rightarrow> 'w \<Rightarrow> string \<Rightarrow> 'f" where
  "get_model_size_mb P w path =
     (let total = sum_list (walk_sizes P w path)
      in int_truediv P (int total) (1024 * 1024))"

definition analyze_model ::
  "('w, 'f, 'n, 'a) platform \<Rightarrow> string \<Rightarrow> 'w state \<Rightarrow> (error + mlmodel) \<times> 'w state" where
  "analyze_model P path s =
     (let s1 = py_print ([CHR 0x0A, CHR 0xF0, CHR 0x9F, CHR 0x93, CHR 0x8A] @
                  '' Analyzing model: '' @ path) s
      in case ct_MLModel P (world s1) path of
           Inl e \<Rightarrow> (Inl e, s1)
         | Inr model \<Rightarrow>
             (let spec = get_spec model;
                  layer_types =
                    (if which_type spec = Some ''neuralNetwork''
                     then foldl (\<lambda>d l. count_op (layer_which l) d) [] (neuralNetwork spec)
                     else []);
                  s2 = (if which_type spec = Some ''neuralNetwork''
                        then py_print ''  Model type: Neural Network'' s1
                        else if which_type spec = Some ''mlProgram''
                        then py_print ''  Model type: ML Program (MIL-based)'' s1
                        else s1);
                  s3 = (if layer_types \<noteq> []
                        then py_print (''  Layer breakdown: '' @ repr_counts P layer_types) s2
                        else s2);
                  s4 = py_print (''  Model size: '' @
                         float_format P 2 (get_model_size_mb P (world s3) path) @ '' MB'') s3
              in (Inr model, s4)))"

subsection \<open>quantize\_to\_float16 and quantize\_to\_int8\<close>

text \<open>
  The tail the two functions share: save the quantized model, measure it, compute the
  reduction (the division raises when the original size is zero), print the summary under
  the given title.
\<close>

definition save_and_measure ::
  "('w, 'f, 'n, 'a) platform \<Rightarrow> string \<Rightarrow> string \<Rightarrow> 'f \<Rightarrow> mlmodel \<Rightarrow> string \<Rightarrow> 'w state \<Rightarrow>
     (error + 'f metrics) \<times> 'w state" where
  "save_and_measure P saving title original_size quantized_model output_path s =
     (let s1 = py_print ([CHR 0x0A, CHR 0xF0, CHR 0x9F, CHR 0x92, CHR 0xBE] @ saving @ output_path) s
      in case model_save P (world s1) quantized_model output_path of
           (Inl e, w) \<Rightarrow> (Inl e, s1\<lparr>world := w\<rparr>)
         | (Inr u, w) \<Rightarrow>
             (let s2 = s1\<lparr>world := w\<rparr>;
                  quantized_size = get_model_size_mb P (world s2) output_path
              in case float_truediv P (float_sub P original_size quantized_size) original_size of
                   Inl e \<Rightarrow> (Inl e, s2)
                 | Inr ratio \<Rightarrow>
                     (let reduction = float_mul_int P ratio 100;
                          metrics = \<lparr>original_size_mb = original_size,
                                     quantized_size_mb = quantized_size,
                                     reduction_percent = reduction\<rparr>;
                          s3 = py_print ([CHR 0x0A, CHR 0xE2, CHR 0x9C, CHR 0x85] @ title) s2;
                          s4 = py_print (''  Original:  '' @ float_format P 2 original_size @ '' MB'') s3;
                          s5 = py_print (''  Quantized: '' @ float_format P 2 quantized_size @ '' MB'') s4;
                          s6 = py_print (''  Reduction: '' @ float_format P 1 reduction @ ''%'') s5
                      in (Inr metrics, s6))))"

definition quantize_to_float16 ::
  "('w, 'f, 'n, 'a) platform \<Rightarrow> string \<Rightarrow> string \<Rightarrow> 'w state \<Rightarrow> (error + 'f metrics) \<times> 'w state" where
  "quantize_to_float16 P input_path output_path s =
     (let s1 = py_print ([CHR 0x0A, CHR 0xF0, CHR 0x9F, CHR 0x94, CHR 0x84] @
                  '' Loading model from: '' @ input_path) s
      in case ct_MLModel P (world s1) input_path of
           Inl e \<Rightarrow> (Inl e, s1)
         | Inr model \<Rightarrow>
             (let original_size = get_model_size_mb P (world s1) input_path;
                  s2 = py_print (''  Original size: '' @ float_format P 2 original_size @ '' MB'') s1;
                  spec = get_spec model;
                  s3 = (if which_type spec = Some ''mlProgram''
                        then py_print ([CHR 0x0A, CHR 0xF0, CHR 0x9F, CHR 0x94, CHR 0xA7] @
                               '' Quantizing ML Program to Float16...'') s2
                        else py_print ([CHR 0x0A, CHR 0xF0, CHR 0x9F, CHR 0x94, CHR 0xA7] @
                               '' Quantizing Neural Network to Float16...'') s2)
              in case (if which_type spec = Some ''mlProgram''
                       then linear_quantize_weights P model ''linear_symmetric'' ''float16''
                       else quantize_weights P model 16 ''linear'') of
                   Inl e \<Rightarrow> (Inl e, s3)
                 | Inr quantized_model \<Rightarrow>
                     save_and_measure P '' Saving quantized model to: '' '' Quantization complete!''
                       original_size quantized_model output_path s3))"

definition quantize_to_int8 ::
  "('w, 'f, 'n, 'a) platform \<Rightarrow> string \<Rightarrow> string \<Rightarrow> 'w state \<Rightarrow> (error + 'f metrics) \<times> 'w state" where
  "quantize_to_int8 P input_path output_path s =
     (let s1 = py_print ([CHR 0x0A, CHR 0xF0, CHR 0x9F, CHR 0x94, CHR 0x84] @
                  '' Loading model for Int8 quantization: '' @ input_path) s
      in case ct_MLModel P (world s1) input_path of
           Inl e \<Rightarrow> (Inl e, s1)
         | Inr model \<Rightarrow>
             (let original_size = get_model_size_mb P (world s1) input_path;
                  spec = get_spec model;
                  s2 = (if which_type spec = Some ''mlProgram''
                        then py_print ([CHR 0x0A, CHR 0xF0, CHR 0x9F, CHR 0x94, CHR 0xA7] @
                               '' Applying Int8 palettization to ML Program...'') s1
                        else py_print ([CHR 0x0A, CHR 0xF0, CHR 0x9F, CHR 0x94, CHR 0xA7] @
                               '' Applying 8-bit quantization to Neural Network...'') s1)
              in case (if which_type spec = Some ''mlProgram''
                       then palettize_weights P model ''kmeans'' 8
                       else quantize_weights P model 8 ''kmeans'') of
                   Inl e \<Rightarrow> (Inl e, s2)
                 | Inr quantized_model \<Rightarrow>
                     save_and_measure P '' Saving Int8 model to: '' '' Int8 quantization complete!''
                       original_size quantized_model output_path s2))"

subsection \<open>convert\_onnx\_to\_coreml\_fp16\<close>

definition target_map :: "(string \<times> target) list" where
  "target_map = [(''ios15'', iOS15), (''ios16'', iOS16), (''ios17'', iOS17)]"

definition converting_line :: "string \<Rightarrow> string" where
  "converting_line onnx_path =
     [CHR 0x0A, CHR 0xF0, CHR 0x9F, CHR 0x94, CHR 0x84] @
     '' Converting ONNX to CoreML (Float16): '' @ onnx_path"

definition saved_line :: "string \<Rightarrow> string" where
  "saved_line output_path = [CHR 0xE2, CHR 0x9C, CHR 0x85] @ '' Saved to: '' @ output_path"

definition convert_onnx_to_coreml_fp16 ::
  "('w, 'f, 'n, 'a) platform \<Rightarrow> string \<Rightarrow> string \<Rightarrow> string \<Rightarrow> 'w state \<Rightarrow>
     (error + mlmodel) \<times> 'w state" where
  "convert_onnx_to_coreml_fp16 P onnx_path output_path min_target s =
     (let s1 = py_print (converting_line onnx_path) s;
          tgt = (case map_of target_map min_target of None \<Rightarrow> iOS16 | Some t \<Rightarrow> t)
      in case ct_convert P (world s1) onnx_path tgt of
           Inl e \<Rightarrow> (Inl e, s1)
         | Inr model \<Rightarrow>
             (case model_save P (world s1) model output_path of
                (Inl e, w) \<Rightarrow> (Inl e, s1\<lparr>world := w\<rparr>)
              | (Inr u, w) \<Rightarrow>
                  (Inr model, py_print (saved_line output_path) (s1\<lparr>world := w\<rparr>))))"

subsection \<open>validate\_quantized\_model\<close>

text \<open>
  The comparison of the two \<open>audio\<close> outputs (lines 233-263, the body of the \<open>if\<close>): both
  are flattened and cut to the shorter length, the noise is their difference sample by
  sample, the signal-to-noise ratio is computed when the noise power is positive and is
  \<open>float('inf')\<close> otherwise, the three numbers are printed with the quality they stand
  for and returned.  The four lines printed are defined first.
\<close>

definition snr_line :: "('w, 'f, 'n, 'a) platform \<Rightarrow> 'n \<Rightarrow> string" where
  "snr_line P snr = ''  Signal-to-Noise Ratio: '' @ np_format P 2 snr @ '' dB''"

definition max_error_line :: "('w, 'f, 'n, 'a) platform \<Rightarrow> 'n \<Rightarrow> string" where
  "max_error_line P max_err = ''  Max Absolute Error: '' @ np_format P 6 max_err"

definition mean_error_line :: "('w, 'f, 'n, 'a) platform \<Rightarrow> 'n \<Rightarrow> string" where
  "mean_error_line P mean_err = ''  Mean Absolute Error: '' @ np_format P 6 mean_err"

definition quality_line :: "('w, 'f, 'n, 'a) platform \<Rightarrow> 'n \<Rightarrow> string" where
  "quality_line P snr =
     (if np_gt_int P snr 40
      then [CHR 0x20, CHR 0x20, CHR 0xE2, CHR 0x9C, CHR 0x85] @
           '' Quality: Excellent (degradation likely inaudible)''
      else if np_gt_int P snr 30
      then [CHR 0x20, CHR 0x20, CHR 0xE2, CHR 0x9A, CHR 0xA0, CHR 0xEF, CHR 0xB8, CHR 0x8F] @
           '' Quality: Good (minor degradation possible)''
      else [CHR 0x20, CHR 0x20, CHR 0xE2, CHR 0x9D, CHR 0x8C] @
           '' Quality: Fair (audible degradation likely)'')"

definition compare_audio ::
  "('w, 'f, 'n, 'a) platform \<Rightarrow> 'a \<Rightarrow> 'a \<Rightarrow> 'w state \<Rightarrow>
     (error + 'n quality option) \<times> 'w state" where
  "compare_audio P orig_out quant_out s =
     (case np_flatten P orig_out of
        Inl e \<Rightarrow> (Inl e, s)
      | Inr orig_flat \<Rightarrow>
          (case np_flatten P quant_out of
             Inl e \<Rightarrow> (Inl e, s)
           | Inr quant_flat \<Rightarrow>
               (let min_len = min (length orig_flat) (length quant_flat);
                    orig_audio = take min_len orig_flat;
                    quant_audio = take min_len quant_flat;
                    noise = map2 (np_sub P) orig_audio quant_audio;
                    signal_power = np_mean P (map (np_square P) orig_audio);
                    noise_power = np_mean P (map (np_square P) noise);
                    snr = (if np_gt_int P noise_power 0
                           then int_mul_np P 10 (np_log10 P (np_truediv P signal_power noise_power))
                           else float_inf P)
                in case np_max P (map (np_abs P) noise) of
                     Inl e \<Rightarrow> (Inl e, s)
                   | Inr max_err \<Rightarrow>
                       (let mean_err = np_mean P (map (np_abs P) noise);
                            s1 = py_print (snr_line P snr) s;
                            s2 = py_print (max_error_line P max_err) s1;
                            s3 = py_print (mean_error_line P mean_err) s2;
                            s4 = py_print (quality_line P snr) s3
                        in (Inr (Some \<lparr>snr_db = snr, max_error = max_err,
                                       mean_error = mean_err\<rparr>), s4)))))"

text \<open>
  The body of the \<open>try\<close> block.  It ends with the quality record, with \<open>None\<close> when it falls
  through the \<open>if\<close> (one of the outputs has no \<open>audio\<close>), or with an exception.
\<close>

definition validate_try ::
  "('w, 'f, 'n, 'a) platform \<Rightarrow> mlmodel \<Rightarrow> mlmodel \<Rightarrow> 'w state \<Rightarrow>
     (error + 'n quality option) \<times> 'w state" where
  "validate_try P original quantized s =
     (case model_predict P (world s) original of
        Inl e \<Rightarrow> (Inl e, s)
      | Inr orig_output \<Rightarrow>
          (case model_predict P (world s) quantized of
             Inl e \<Rightarrow> (Inl e, s)
           | Inr quant_output \<Rightarrow>
               (case (map_of orig_output ''audio'', map_of quant_output ''audio'') of
                  (Some orig_out, Some quant_out) \<Rightarrow> compare_audio P orig_out quant_out s
                | _ \<Rightarrow> (Inr None, s))))"

definition validating_line :: string where
  "validating_line =
     [CHR 0x0A, CHR 0xF0, CHR 0x9F, CHR 0xA7, CHR 0xAA] @ '' Validating quantized model...''"

definition validation_warning :: "error \<Rightarrow> string" where
  "validation_warning e =
     [CHR 0x20, CHR 0x20, CHR 0xE2, CHR 0x9A, CHR 0xA0, CHR 0xEF, CHR 0xB8, CHR 0x8F] @
     '' Validation failed: '' @ str_error e"

definition validate_quantized_model ::
  "('w, 'f, 'n, 'a) platform \<Rightarrow> string \<Rightarrow> string \<Rightarrow> 'w state \<Rightarrow>
     (error + 'n quality option) \<times> 'w state" where
  "validate_quantized_model P original_path quantized_path s =
     (let s1 = py_print validating_line s
      in case ct_MLModel P (world s1) original_path of
           Inl e \<Rightarrow> (Inl e, s1)
         | Inr original \<Rightarrow>
             (case ct_MLModel P (world s1) quantized_path of
                Inl e \<Rightarrow> (Inl e, s1)
              | Inr quantized \<Rightarrow>
                  (case validate_try P original quantized s1 of
                     (Inl e, s2) \<Rightarrow> (Inr None, py_print (validation_warning e) s2)
                   | (Inr r, s2) \<Rightarrow> (Inr r, s2))))"

subsection \<open>compile\_for\_device\<close>

definition compile_for_device ::
  "('w, 'f, 'n, 'a) platform \<Rightarrow> string \<Rightarrow> string \<Rightarrow> 'w state \<Rightarrow> (error + bool) \<times> 'w state" where
  "compile_for_device P mlpackage_path output_dir s =
     (let s1 = py_print ([CHR 0x0A, CHR 0xF0, CHR 0x9F, CHR 0x93, CHR 0xA6] @
                  '' Compiling to .mlmodelc: '' @ mlpackage_path) s
      in case coremlcompiler P (world s1) mlpackage_path output_dir of
           (Inl e, w) \<Rightarrow> (Inl e, s1\<lparr>world := w\<rparr>)
         | (Inr (returncode, stderr), w) \<Rightarrow>
             (if returncode = 0
              then (Inr True,
                    py_print ([CHR 0x20, CHR 0x20, CHR 0xE2, CHR 0x9C, CHR 0x85] @
                      '' Compiled to: '' @ output_dir) (s1\<lparr>world := w\<rparr>))
              else (Inr False,
                    py_print ([CHR 0x20, CHR 0x20, CHR 0xE2, CHR 0x9D, CHR 0x8C] @
                      '' Compilation failed: '' @ stderr) (s1\<lparr>world := w\<rparr>))))"

subsection \<open>main\<close>

record args =
  args_input :: string
  args_output :: string
  args_precision :: string
  args_from_onnx :: bool
  args_validate :: bool
  args_compile :: bool
  args_target :: string

text \<open>
  \<open>main\<close> returns nothing; the model returns the metrics record \<open>main\<close> holds in its local
  variable when it returns (\<open>None\<close> when it never computed one), or the exception that ends
  the process.
\<close>

definition done_line :: string where
  "done_line = [CHR 0x0A, CHR 0xF0, CHR 0x9F, CHR 0x8E, CHR 0x89] @ '' Done!''"

definition onnx_done_line :: string where
  "onnx_done_line = [CHR 0x0A, CHR 0xF0, CHR 0x9F, CHR 0x8E, CHR 0x89] @ '' ONNX conversion complete!''"

definition main ::
  "('w, 'f, 'n, 'a) platform \<Rightarrow> args \<Rightarrow> 'w state \<Rightarrow> (error + 'f metrics option) \<times> 'w state" where
  "main P a s =
     (if args_from_onnx a
      then (case convert_onnx_to_coreml_fp16 P (args_input a) (args_output a) (args_target a) s of
              (Inl e, s1) \<Rightarrow> (Inl e, s1)
            | (Inr model, s1) \<Rightarrow> (Inr None, py_print onnx_done_line s1))
      else
        (case analyze_model P (args_input a) s of
           (Inl e, s1) \<Rightarrow> (Inl e, s1)
         | (Inr model, s1) \<Rightarrow>
             (case (if args_precision a = ''float16''
                    then quantize_to_float16 P (args_input a) (args_output a) s1
                    else quantize_to_int8 P (args_input a) (args_output a) s1) of
                (Inl e, s2) \<Rightarrow> (Inl e, s2)
              | (Inr metrics, s2) \<Rightarrow>
                  (case (if args_validate a
                         then validate_quantized_model P (args_input a) (args_output a) s2
                         else (Inr None, s2)) of
                     (Inl e, s3) \<Rightarrow> (Inl e, s3)
                   | (Inr q, s3) \<Rightarrow>
                       (case (if args_compile a \<and> endswith (args_output a) ''.mlpackage''
                              then compile_for_device P (args_output a) (dirname (args_output a)) s3
                              else (Inr False, s3)) of
                          (Inl e, s4) \<Rightarrow> (Inl e, s4)
                        | (Inr c, s4) \<Rightarrow> (Inr (Some metrics), py_print done_line s4))))))"

section \<open>Notions used to state the properties\<close>

text \<open>
  The operations of a program in the order the three nested loops visit them, the
  operators a model has for the analyzer (by the format it dispatches on), the shape a
  declared input or output carries when the multi-array variant is present, and a model
  stripped of its declared inputs and outputs.
\<close>

definition program_ops :: "model_spec \<Rightarrow> string list" where
  "program_ops spec = concat (map (\<lambda>f. concat (block_specializations f)) (mlProgram spec))"

definition model_operators :: "model_spec \<Rightarrow> string option list" where
  "model_operators spec =
     (if which_type spec = Some ''mlProgram'' then map Some (program_ops spec)
      else if which_type spec = Some ''neuralNetwork'' then map layer_which (neuralNetwork spec)
      else [])"

definition declared_shape :: "feature_desc \<Rightarrow> (string \<times> int list) option" where
  "declared_shape d =
     (case desc_type d of
        Some (FeatureType (Some shape)) \<Rightarrow> Some (desc_name d, shape)
      | _ \<Rightarrow> None)"

definition without_io :: "mlmodel \<Rightarrow> mlmodel" where
  "without_io model = model\<lparr>input_description := [], output_description := []\<rparr>"

text \<open>
  The library call that quantizes a loaded model, as \<open>quantize_to_float16\<close> and
  \<open>quantize_to_int8\<close> choose it from the precision argument and the model's format.
\<close>

definition library_quantize :: "('w, 'f, 'n, 'a) platform \<Rightarrow> string \<Rightarrow> mlmodel \<Rightarrow> error + mlmodel" where
  "library_quantize P prec model =
     (if prec = ''float16''
      then (if which_type (get_spec model) = Some ''mlProgram''
            then linear_quantize_weights P model ''linear_symmetric'' ''float16''
            else quantize_weights P model 16 ''linear'')
      else (if which_type (get_spec model) = Some ''mlProgram''
            then palettize_weights P model ''kmeans'' 8
            else quantize_weights P model 8 ''kmeans''))"

subsection \<open>Python floats\<close>

text \<open>
  A Python float is an IEEE 754 binary64 number.  The finite ones are the rationals
  with a significand of 53 bits; an arithmetic operation returns the exact result rounded
  to the nearest of them, ties to the even significand.  \<open>fl\<close> is that rounding, with the
  exponent left unbounded: overflow and subnormal numbers are not modelled (sizes in
  megabytes and percentages stay far from both).  \<open>ilog2 x\<close> is the exponent of the
  binade of a positive \<open>x\<close>.
\<close>

definition round_half_even :: "rat \<Rightarrow> int" where
  "round_half_even q =
     (let n = \<lfloor>q\<rfloor>; r = q - of_int n
      in if r < 1 / 2 then n else if 1 / 2 < r then n + 1 else if even n then n else n + 1)"

definition ilog2 :: "rat \<Rightarrow> int" where
  "ilog2 x =
     (let (p, q) = quotient_of x; d = bitlen p - bitlen q
      in if 2 powi d \<le> x then d else d - 1)"

definition fl :: "rat \<Rightarrow> rat" where
  "fl x =
     (if x = 0 then 0
      else (let e = ilog2 \<bar>x\<bar>; u = 2 powi (e - 52)
            in of_int (round_half_even (x / u)) * u))"

text \<open>
  \<open>a / b\<close> on integers (with \<open>b\<close> not zero), \<open>x - y\<close>, \<open>x / y\<close> (which raises on a zero
  divisor), \<open>x * n\<close> for an integer \<open>n\<close>, and the format \<open>{x:.kf}\<close>.
\<close>

definition b64_int_truediv :: "int \<Rightarrow> int \<Rightarrow> rat" where
  "b64_int_truediv a b = fl (of_int a / of_int b)"

definition b64_sub :: "rat \<Rightarrow> rat \<Rightarrow> rat" where
  "b64_sub x y = fl (x - y)"

definition b64_truediv :: "rat \<Rightarrow> rat \<Rightarrow> error + rat" where
  "b64_truediv x y = (if y = 0 then Inl ZeroDivisionError else Inr (fl (x / y)))"

definition b64_mul_int :: "rat \<Rightarrow> int \<Rightarrow> rat" where
  "b64_mul_int x n = fl (x * fl (of_int n))"

definition b64_format :: "nat \<Rightarrow> rat \<Rightarrow> string" where
  "b64_format k x =
     (let n = nat (round_half_even (\<bar>x\<bar> * 10 ^ k));
          digits = str_nat (n mod 10 ^ k)
      in (if x < 0 then ''-'' else []) @ str_nat (n div 10 ^ k) @
         (if k = 0 then [] else ''.'' @ replicate (k - length digits) (CHR ''0'') @ digits))"

text \<open>A platform whose floats are Python's.\<close>

definition binary64_floats :: "('w, rat, 'n, 'a) platform \<Rightarrow> bool" where
  "binary64_floats P =
     (int_truediv P = b64_int_truediv \<and> float_sub P = b64_sub \<and>
      float_truediv P = b64_truediv \<and> float_mul_int P = b64_mul_int)"

section \<open>Example inputs\<close>

definition mixed_spec :: model_spec where
  "mixed_spec =
     \<lparr>which_type = None,
      mlProgram = [\<lparr>fn_name = ''main'',
                    block_specializations = [[''conv2d'', ''Einsum''], [''Custom_Attention'']]\<rparr>],
      neuralNetwork = [\<lparr>layer_name = ''l0'', layer_which = Some ''custom''\<rparr>,
                       \<lparr>layer_name = ''l1'', layer_which = Some ''einsum''\<rparr>]\<rparr>"

definition relu_model :: mlmodel where
  "relu_model =
     \<lparr>get_spec = \<lparr>which_type = Some ''mlProgram'',
                  mlProgram = [\<lparr>fn_name = ''main'', block_specializations = [[''relu'', ''add'', ''relu'']]\<rparr>],
                  neuralNetwork = []\<rparr>,
      input_description = [\<lparr>desc_name = ''x'', desc_type = Some (FeatureType (Some [1, 4096]))\<rparr>],
      output_description = [\<lparr>desc_name = ''y'', desc_type = Some (FeatureType None)\<rparr>]\<rparr>"

definition conv_model :: mlmodel where
  "conv_model =
     \<lparr>get_spec = \<lparr>which_type = Some ''mlProgram'',
                  mlProgram = [\<lparr>fn_name = ''main'', block_specializations = [[''conv2d'', ''relu'']]\<rparr>],
                  neuralNetwork = []\<rparr>,
      input_description = [], output_description = []\<rparr>"

definition softmax_model :: mlmodel where
  "softmax_model =
     \<lparr>get_spec = \<lparr>which_type = Some ''mlProgram'',
                  mlProgram = [\<lparr>fn_name = ''main'', block_specializations = [[''softmax'']]\<rparr>],
                  neuralNetwork = []\<rparr>,
      input_description =
        [\<lparr>desc_name = ''input_ids'', desc_type = Some (FeatureType (Some [1, 4096]))\<rparr>],
      output_description = []\<rparr>"

definition blocked_results :: results where
  "blocked_results =
     (init_results ''m.mlpackage'')
       \<lparr>blocking_issues := [custom_issue ''my_custom_op''], ane_compatible := False\<rparr>"

definition einsum_layer :: layer where
  "einsum_layer = \<lparr>layer_name = ''l1'', layer_which = Some ''einsum''\<rparr>"

definition custom_model :: mlmodel where
  "custom_model =
     \<lparr>get_spec = \<lparr>which_type = Some ''neuralNetwork'', mlProgram = [],
                  neuralNetwork = [\<lparr>layer_name = ''l0'', layer_which = Some ''custom''\<rparr>,
                                   einsum_layer]\<rparr>,
      input_description = [], output_description = []\<rparr>"

subsection \<open>An example platform\<close>

text \<open>
  The numbers of the example are those of numpy on arrays of 64-bit floats: the finite
  ones (rounded by \<open>fl\<close>), the two infinities and NaN; the sign of a zero is left out.
  An operation on them raises nothing: a division by zero or an operation on NaN returns
  an infinity or NaN.  The mean is the sum from left to right divided by the length (NaN
  for an array without samples), the maximum is NaN when a sample is, and raises on an
  array without samples.  The logarithm is given on 1, 10, 100 and 1000, where it is
  exact, on zero, on the negative numbers, on the infinities and on NaN; the examples
  need it nowhere else (there it stands as NaN).
\<close>

datatype npfloat = Finite rat | PosInf | NegInf | NaN

fun np64_neg :: "npfloat \<Rightarrow> npfloat" where
  "np64_neg (Finite x) = Finite (- x)"
| "np64_neg PosInf = NegInf"
| "np64_neg NegInf = PosInf"
| "np64_neg NaN = NaN"

fun np64_add :: "npfloat \<Rightarrow> npfloat \<Rightarrow> npfloat" where
  "np64_add (Finite x) (Finite y) = Finite (fl (x + y))"
| "np64_add NaN y = NaN"
| "np64_add x NaN = NaN"
| "np64_add PosInf NegInf = NaN"
| "np64_add NegInf PosInf = NaN"
| "np64_add PosInf y = PosInf"
| "np64_add NegInf y = NegInf"
| "np64_add (Finite x) y = y"

definition np64_sub :: "npfloat \<Rightarrow> npfloat \<Rightarrow> npfloat" where
  "np64_sub x y = np64_add x (np64_neg y)"

fun np64_abs :: "npfloat \<Rightarrow> npfloat" where
  "np64_abs (Finite x) = Finite \<bar>x\<bar>"
| "np64_abs NaN = NaN"
| "np64_abs x = PosInf"

fun np64_square :: "npfloat \<Rightarrow> npfloat" where
  "np64_square (Finite x) = Finite (fl (x * x))"
| "np64_square NaN = NaN"
| "np64_square x = PosInf"

fun np64_gt :: "npfloat \<Rightarrow> npfloat \<Rightarrow> bool" where
  "np64_gt (Finite x) (Finite y) = (y < x)"
| "np64_gt NaN y = False"
| "np64_gt x NaN = False"
| "np64_gt PosInf y = (y \<noteq> PosInf)"
| "np64_gt x NegInf = (x \<noteq> NegInf)"
| "np64_gt x y = False"

definition np64_gt_int :: "npfloat \<Rightarrow> int \<Rightarrow> bool" where
  "np64_gt_int x n = np64_gt x (Finite (of_int n))"

fun np64_truediv :: "npfloat \<Rightarrow> npfloat \<Rightarrow> npfloat" where
  "np64_truediv (Finite x) (Finite y) =
     (if y \<noteq> 0 then Finite (fl (x / y))
      else if 0 < x then PosInf else if x < 0 then NegInf else NaN)"
| "np64_truediv NaN y = NaN"
| "np64_truediv x NaN = NaN"
| "np64_truediv (Finite x) y = Finite 0"
| "np64_truediv x (Finite y) = (if 0 \<le> y then x else np64_neg x)"
| "np64_truediv x y = NaN"

fun int_mul_np64 :: "int \<Rightarrow> npfloat \<Rightarrow> npfloat" where
  "int_mul_np64 n (Finite x) = Finite (fl (fl (of_int n) * x))"
| "int_mul_np64 n NaN = NaN"
| "int_mul_np64 n x = (if 0 < n then x else if n < 0 then np64_neg x else NaN)"

fun np64_log10 :: "npfloat \<Rightarrow> npfloat" where
  "np64_log10 (Finite x) =
     (if x < 0 then NaN else if x = 0 then NegInf
      else if x = 1 then Finite 0 else if x = 10 then Finite 1
      else if x = 100 then Finite 2 else if x = 1000 then Finite 3 else NaN)"
| "np64_log10 PosInf = PosInf"
| "np64_log10 x = NaN"

definition np64_mean :: "npfloat list \<Rightarrow> npfloat" where
  "np64_mean xs =
     (if xs = [] then NaN
      else np64_truediv (foldl np64_add (Finite 0) xs) (Finite (of_nat (length xs))))"

definition np64_maximum :: "npfloat \<Rightarrow> npfloat \<Rightarrow> npfloat" where
  "np64_maximum x y = (if x = NaN \<or> y = NaN then NaN else if np64_gt y x then y else x)"

definition np64_max :: "npfloat list \<Rightarrow> error + npfloat" where
  "np64_max xs =
     (if xs = []
      then Inl (ValueError ''zero-size array to reduction operation maximum which has no identity'')
      else Inr (foldl np64_maximum (hd xs) (tl xs)))"

fun np64_format :: "nat \<Rightarrow> npfloat \<Rightarrow> string" where
  "np64_format k (Finite x) = b64_format k x"
| "np64_format k PosInf = ''inf''"
| "np64_format k NegInf = ''-inf''"
| "np64_format k NaN = ''nan''"

text \<open>
  A platform to run the reducer on: the world maps a path to the sizes of the files below
  it, a path without files cannot be loaded or converted, quantizing and compiling
  succeed, saving writes 52 MB, and a prediction returns a short audio array.
\<close>

definition example_world :: "string \<Rightarrow> nat list" where
  "example_world p =
     (if p = ''kokoro.mlpackage'' then [104857600]
      else if p = ''kokoro.onnx'' then [326000000]
      else [])"

definition example_platform :: "(string \<Rightarrow> nat list, rat, npfloat, npfloat list) platform" where
  "example_platform =
     \<lparr>ct_MLModel = (\<lambda>w p. if w p = [] then Inl (LibraryError ''model not found'') else Inr relu_model),
      walk_sizes = (\<lambda>w p. w p),
      linear_quantize_weights = (\<lambda>m mode dtype. Inr m),
      palettize_weights = (\<lambda>m mode nbits. Inr m),
      quantize_weights = (\<lambda>m nbits mode. Inr m),
      model_save = (\<lambda>w m p. (Inr (), w(p := [54525952]))),
      ct_convert = (\<lambda>w p t. if w p = [] then Inl (LibraryError ''cannot read the ONNX file'')
                              else Inr relu_model),
      model_predict = (\<lambda>w m. Inr [(''audio'', [Finite 0, Finite (1 / 2), Finite (- 1 / 4)])]),
      np_flatten = Inr,
      np_sub = np64_sub,
      np_square = np64_square,
      np_abs = np64_abs,
      np_mean = np64_mean,
      np_max = np64_max,
      np_truediv = np64_truediv,
      np_log10 = np64_log10,
      int_mul_np = int_mul_np64,
      np_gt_int = np64_gt_int,
      float_inf = PosInf,
      np_format = np64_format,
      coremlcompiler = (\<lambda>w p d. ((Inr (0, [])), w)),
      int_truediv = b64_int_truediv,
      float_sub = b64_sub,
      float_truediv = b64_truediv,
      float_mul_int = b64_mul_int,
      float_format = b64_format,
      repr_counts = (\<lambda>d. ''{}'')\<rparr>"

definition example_state :: "(string \<Rightarrow> nat list) state" where
  "example_state = \<lparr>world = example_world, stdout = []\<rparr>"

definition example_args :: args where
  "example_args =
     \<lparr>args_input = ''kokoro.mlpackage'', args_output = ''kokoro_fp16.mlpackage'',
      args_precision = ''float16'', args_from_onnx = False, args_validate = True,
      args_compile = False, args_target = ''ios16''\<rparr>"

definition onnx_args :: args where
  "onnx_args =
     \<lparr>args_input = ''kokoro.onnx'', args_output = ''kokoro_fp16.mlpackage'',
      args_precision = ''float16'', args_from_onnx = True, args_validate = True,
      args_compile = True, args_target = ''ios17''\<rparr>"

text \<open>
  Variants of the platform: the prediction has no \<open>audio\<close> output; the prediction raises;
  the quantized model cannot be loaded back; the quantization raises; the save raises.
\<close>

definition no_audio_platform :: "(string \<Rightarrow> nat list, rat, npfloat, npfloat list) platform" where
  "no_audio_platform =
     example_platform\<lparr>model_predict := (\<lambda>w m. Inr [(''mel'', [Finite 0, Finite (1 / 2)])])\<rparr>"

definition predict_fails_platform :: "(string \<Rightarrow> nat list, rat, npfloat, npfloat list) platform" where
  "predict_fails_platform =
     example_platform\<lparr>model_predict := (\<lambda>w m. Inl (LibraryError ''prediction failed''))\<rparr>"

definition unloadable_platform :: "(string \<Rightarrow> nat list, rat, npfloat, npfloat list) platform" where
  "unloadable_platform =
     example_platform\<lparr>ct_MLModel :=
       (\<lambda>w p. if p = ''kokoro_fp16.mlpackage''
              then Inl (LibraryError ''cannot load the quantized model'')
              else Inr relu_model)\<rparr>"

definition quantize_fails_platform :: "(string \<Rightarrow> nat list, rat, npfloat, npfloat list) platform" where
  "quantize_fails_platform =
     example_platform\<lparr>linear_quantize_weights :=
       (\<lambda>m mode dtype. Inl (ValueError ''unsupported dtype''))\<rparr>"

definition save_fails_platform :: "(string \<Rightarrow> nat list, rat, npfloat, npfloat list) platform" where
  "save_fails_platform =
     example_platform\<lparr>model_save := (\<lambda>w m p. (Inl (LibraryError ''disk full''), w))\<rparr>"

text \<open>
  A model that is a single file: it loads, and \<open>os.walk\<close> finds no file below its path.
  A larger model: two files of 150 MB and 50 MB, which the save halves.
\<close>

definition single_file_platform :: "(string \<Rightarrow> nat list, rat, npfloat, npfloat list) platform" where
  "single_file_platform = example_platform\<lparr>ct_MLModel := (\<lambda>w p. Inr relu_model)\<rparr>"

definition big_state :: "(string \<Rightarrow> nat list) state" where
  "big_state =
     \<lparr>world = (\<lambda>p. if p = ''kokoro.mlpackage'' then [157286400, 52428800] else []),
      stdout = []\<rparr>"

definition halving_platform :: "(string \<Rightarrow> nat list, rat, npfloat, npfloat list) platform" where
  "halving_platform =
     example_platform\<lparr>model_save := (\<lambda>w m p. (Inr (), w(p := [104857600])))\<rparr>"

section \<open>The analyzer: auxiliary definitions and lemmas\<close>

text \<open>
  One layer of a network whose type is set, the two phases of \<open>analyze_ml_program\<close>
  (operators, then shapes), and the invariant that links the verdict to the list of
  blocking issues.
\<close>

definition layer_step :: "results \<Rightarrow> layer \<Rightarrow> string \<Rightarrow> results" where
  "layer_step r l t =
     r\<lparr>operations := count_op t (operations r),
       blocking_issues := blocking_issues r @ (if t = ''custom'' then [custom_issue (layer_name l)] else []),
       ane_compatible := (ane_compatible r \<and> t \<noteq> ''custom''),
       warnings := warnings r @ (if lower t \<in> ANE_PROBLEMATIC_OPS then [layer_warning (layer_name l) t] else [])\<rparr>"

definition ops_phase :: "model_spec \<Rightarrow> string \<Rightarrow> error + results" where
  "ops_phase spec path =
     (if which_type spec = Some ''mlProgram''
      then Inr (analyze_mlprogram_ops spec ((init_results path)\<lparr>format := ''mlprogram''\<rparr>))
      else if which_type spec = Some ''neuralNetwork''
      then analyze_neural_network_ops spec ((init_results path)\<lparr>format := ''neuralNetwork''\<rparr>)
      else Inr ((init_results path)\<lparr>format :=
             (case which_type spec of
                None \<Rightarrow> ''unknown''
              | Some t \<Rightarrow> if t = [] then ''unknown'' else t)\<rparr>))"

definition shapes_phase :: "mlmodel \<Rightarrow> results \<Rightarrow> results" where
  "shapes_phase model r1 =
     r1\<lparr>input_shapes := foldl record_shape (input_shapes r1) (input_description model),
        output_shapes := foldl record_shape (output_shapes r1) (output_description model)\<rparr>"

definition verdict_inv :: "results \<Rightarrow> bool" where
  "verdict_inv r = (ane_compatible r = (blocking_issues r = []))"

lemma foldl_concat: "foldl (\<lambda>r xs. foldl f r xs) r xss = foldl f r (concat xss)"
  by (induction xss arbitrary: r) simp_all

lemma foldl_concat_map:
  "foldl (\<lambda>r x. foldl f r (g x)) r xs = foldl f r (concat (map g xs))"
  by (induction xs arbitrary: r) simp_all

lemma analyze_mlprogram_ops_foldl:
  "analyze_mlprogram_ops spec r = foldl mlprogram_op r (program_ops spec)"
  unfolding analyze_mlprogram_ops_def program_ops_def
  by (simp add: foldl_concat foldl_concat_map)

lemma mlprogram_op_fields:
  "warnings (mlprogram_op r op) =
     warnings r @ (if lower op \<in> ANE_PROBLEMATIC_OPS then [op_warning op] else [])"
  "blocking_issues (mlprogram_op r op) =
     blocking_issues r @ (if str_in ''custom'' (lower op) then [custom_issue op] else [])"
  "ane_compatible (mlprogram_op r op) = (ane_compatible r \<and> \<not> str_in ''custom'' (lower op))"
  "operations (mlprogram_op r op) = count_op op (operations r)"
  "model_path (mlprogram_op r op) = model_path r"
  "format (mlprogram_op r op) = format r"
  "input_shapes (mlprogram_op r op) = input_shapes r"
  "output_shapes (mlprogram_op r op) = output_shapes r"
  "recommendations (mlprogram_op r op) = recommendations r"
  by (simp_all add: mlprogram_op_def Let_def)

lemma foldl_mlprogram_op_fields:
  "warnings (foldl mlprogram_op r ops) =
     warnings r @ map op_warning (filter (\<lambda>op. lower op \<in> ANE_PROBLEMATIC_OPS) ops)"
  "blocking_issues (foldl mlprogram_op r ops) =
     blocking_issues r @ map custom_issue (filter (\<lambda>op. str_in ''custom'' (lower op)) ops)"
  "ane_compatible (foldl mlprogram_op r ops) =
     (ane_compatible r \<and> \<not> list_ex (\<lambda>op. str_in ''custom'' (lower op)) ops)"
  "operations (foldl mlprogram_op r ops) = foldl (\<lambda>d op. count_op op d) (operations r) ops"
  "model_path (foldl mlprogram_op r ops) = model_path r"
  "format (foldl mlprogram_op r ops) = format r"
  "input_shapes (foldl mlprogram_op r ops) = input_shapes r"
  "output_shapes (foldl mlprogram_op r ops) = output_shapes r"
  "recommendations (foldl mlprogram_op r ops) = recommendations r"
  by (induction ops arbitrary: r; simp add: mlprogram_op_fields; blast?)+

lemma neural_network_layer_Some:
  "layer_which l = Some t \<Longrightarrow> neural_network_layer r l = Inr (layer_step r l t)"
  by (simp add: neural_network_layer_def layer_step_def Let_def)

lemma neural_network_layer_None:
  "layer_which l = None \<Longrightarrow> neural_network_layer r l = Inl (AttributeError ''lower'')"
  by (simp add: neural_network_layer_def)

lemma nn_layers_typed:
  "map layer_which ls = map Some ts \<Longrightarrow>
   \<exists>r'. nn_layers r ls = Inr r' \<and>
     warnings r' = warnings r @
        map (\<lambda>(l, t). layer_warning (layer_name l) t)
          (filter (\<lambda>(l, t). lower t \<in> ANE_PROBLEMATIC_OPS) (zip ls ts)) \<and>
     blocking_issues r' = blocking_issues r @
        map (\<lambda>l. custom_issue (layer_name l)) (filter (\<lambda>l. layer_which l = Some ''custom'') ls) \<and>
     ane_compatible r' = (ane_compatible r \<and> ''custom'' \<notin> set ts) \<and>
     operations r' = foldl (\<lambda>d t. count_op t d) (operations r) ts \<and>
     model_path r' = model_path r \<and> format r' = format r \<and>
     input_shapes r' = input_shapes r \<and> output_shapes r' = output_shapes r \<and>
     recommendations r' = recommendations r"
proof (induction ls arbitrary: r ts)
  case Nil
  then show ?case by simp
next
  case (Cons l ls)
  then obtain t ts' where ts: "ts = t # ts'" "layer_which l = Some t"
    "map layer_which ls = map Some ts'"
    by (cases ts) auto
  from Cons.IH [OF ts(3), of "layer_step r l t"] obtain r' where
    r': "nn_layers (layer_step r l t) ls = Inr r'"
      "warnings r' = warnings (layer_step r l t) @
        map (\<lambda>(l, t). layer_warning (layer_name l) t)
          (filter (\<lambda>(l, t). lower t \<in> ANE_PROBLEMATIC_OPS) (zip ls ts'))"
      "blocking_issues r' = blocking_issues (layer_step r l t) @
        map (\<lambda>l. custom_issue (layer_name l)) (filter (\<lambda>l. layer_which l = Some ''custom'') ls)"
      "ane_compatible r' = (ane_compatible (layer_step r l t) \<and> ''custom'' \<notin> set ts')"
      "operations r' = foldl (\<lambda>d t. count_op t d) (operations (layer_step r l t)) ts'"
      "model_path r' = model_path (layer_step r l t)" "format r' = format (layer_step r l t)"
      "input_shapes r' = input_shapes (layer_step r l t)"
      "output_shapes r' = output_shapes (layer_step r l t)"
      "recommendations r' = recommendations (layer_step r l t)"
    by blast
  have "nn_layers r (l # ls) = Inr r'"
    using r'(1) ts(2) by (simp add: neural_network_layer_Some)
  then show ?case
    using r'(2-) ts(1,2) by (auto simp add: layer_step_def)
qed

lemma nn_layers_untyped:
  "None \<in> set (map layer_which ls) \<Longrightarrow> nn_layers r ls = Inl (AttributeError ''lower'')"
proof (induction ls arbitrary: r)
  case Nil
  then show ?case by simp
next
  case (Cons l ls)
  show ?case
  proof (cases "layer_which l")
    case None
    then show ?thesis by (simp add: neural_network_layer_None)
  next
    case (Some t)
    with Cons.prems have "None \<in> set (map layer_which ls)" by auto
    then show ?thesis using Some Cons.IH by (simp add: neural_network_layer_Some)
  qed
qed

lemma map_Some_ex: "None \<notin> set xs \<Longrightarrow> \<exists>ys. xs = map Some ys"
proof (induction xs)
  case Nil
  then show ?case by simp
next
  case (Cons x xs)
  then obtain ys where "xs = map Some ys" by auto
  moreover from Cons.prems obtain y where "x = Some y" by (cases x) auto
  ultimately have "x # xs = map Some (y # ys)" by simp
  then show ?case by (rule exI)
qed

lemma analyze_ml_program_phases:
  "analyze_ml_program MLModel path =
     (case MLModel path of
        Inl e \<Rightarrow> Inl e
      | Inr model \<Rightarrow>
          (case ops_phase (get_spec model) path of
             Inl e \<Rightarrow> Inl e
           | Inr r1 \<Rightarrow>
               Inr ((shapes_phase model r1)
                 \<lparr>recommendations := generate_recommendations (shapes_phase model r1)\<rparr>)))"
  by (simp add: analyze_ml_program_def ops_phase_def shapes_phase_def Let_def
      split: sum.splits)

lemma generate_recommendations_cong:
  assumes "ane_compatible r = ane_compatible r'" "warnings r = warnings r'"
    "operations r = operations r'" "input_shapes r = input_shapes r'"
  shows "generate_recommendations r = generate_recommendations r'"
  unfolding generate_recommendations_def assms by (rule refl)

lemma verdict_inv_mlprogram_op: "verdict_inv r \<Longrightarrow> verdict_inv (mlprogram_op r op)"
  by (auto simp add: verdict_inv_def mlprogram_op_fields)

lemma verdict_inv_foldl: "verdict_inv r \<Longrightarrow> verdict_inv (foldl mlprogram_op r ops)"
  by (induction ops arbitrary: r) (simp_all add: verdict_inv_mlprogram_op)

lemma verdict_inv_layer:
  "verdict_inv r \<Longrightarrow> neural_network_layer r l = Inr r' \<Longrightarrow> verdict_inv r'"
  by (cases "layer_which l")
     (auto simp add: verdict_inv_def neural_network_layer_Some neural_network_layer_None
        layer_step_def)

lemma verdict_inv_nn_layers:
  "verdict_inv r \<Longrightarrow> nn_layers r ls = Inr r' \<Longrightarrow> verdict_inv r'"
proof (induction ls arbitrary: r)
  case Nil
  then show ?case by simp
next
  case (Cons l ls)
  then show ?case
    by (cases "neural_network_layer r l") (auto dest: verdict_inv_layer)
qed

lemma verdict_inv_ops_phase: "ops_phase spec path = Inr r1 \<Longrightarrow> verdict_inv r1"
proof -
  assume a: "ops_phase spec path = Inr r1"
  have i: "verdict_inv ((init_results path)\<lparr>format := f\<rparr>)" for f
    by (simp add: verdict_inv_def init_results_def)
  show ?thesis
    using a i verdict_inv_foldl [OF i] verdict_inv_nn_layers [OF i]
    by (auto simp add: ops_phase_def analyze_mlprogram_ops_foldl analyze_neural_network_ops_def
        split: if_splits)
qed

lemma monotone_layer:
  "\<not> ane_compatible r \<Longrightarrow> neural_network_layer r l = Inr r' \<Longrightarrow> \<not> ane_compatible r'"
  by (cases "layer_which l")
     (auto simp add: neural_network_layer_Some neural_network_layer_None layer_step_def)

lemma monotone_nn_layers:
  "\<not> ane_compatible r \<Longrightarrow> nn_layers r ls = Inr r' \<Longrightarrow> \<not> ane_compatible r'"
proof (induction ls arbitrary: r)
  case Nil
  then show ?case by simp
next
  case (Cons l ls)
  then show ?case
    by (cases "neural_network_layer r l") (auto dest: monotone_layer)
qed

lemma map_of_foldl_record_shape:
  "map_of (foldl record_shape shapes ds) =
     map_of (rev (List.map_filter declared_shape ds) @ shapes)"
proof (induction ds arbitrary: shapes)
  case Nil
  then show ?case by (simp add: List.map_filter_simps)
next
  case (Cons d ds)
  show ?case
  proof (cases "declared_shape d")
    case None
    then have "record_shape shapes d = shapes"
      by (auto simp add: record_shape_def declared_shape_def
          split: option.splits feature_type.splits)
    with None Cons.IH show ?thesis by (simp add: List.map_filter_simps)
  next
    case (Some e)
    then have "record_shape shapes d = AList.update (fst e) (snd e) shapes"
      by (auto simp add: record_shape_def declared_shape_def
          split: option.splits feature_type.splits)
    with Some Cons.IH [of "AList.update (fst e) (snd e) shapes"] show ?thesis
      by (simp add: List.map_filter_simps AList.update_conv' map_add_def fun_eq_iff
          split: option.splits)
  qed
qed

lemma ops_phase_shapes:
  "ops_phase spec path = Inr r1 \<Longrightarrow> input_shapes r1 = [] \<and> output_shapes r1 = []"
proof (cases "None \<in> set (map layer_which (neuralNetwork spec))")
  case True
  assume "ops_phase spec path = Inr r1"
  with True show ?thesis
    by (auto simp add: ops_phase_def analyze_mlprogram_ops_foldl foldl_mlprogram_op_fields
        init_results_def analyze_neural_network_ops_def nn_layers_untyped split: if_splits)
next
  case False
  assume a: "ops_phase spec path = Inr r1"
  from False obtain ts where ts: "map layer_which (neuralNetwork spec) = map Some ts"
    using map_Some_ex by blast
  show ?thesis
    using a nn_layers_typed [OF ts, of "(init_results path)\<lparr>format := ''neuralNetwork''\<rparr>"]
    by (auto simp add: ops_phase_def analyze_mlprogram_ops_foldl foldl_mlprogram_op_fields
        init_results_def analyze_neural_network_ops_def split: if_splits)
qed

lemma optimized_table:
  "\<forall>op\<in>ANE_OPTIMIZED_OPS. lower op = op"
  "\<forall>op\<in>ANE_OPTIMIZED_OPS. op \<notin> ANE_PROBLEMATIC_OPS"
  "\<forall>op\<in>ANE_OPTIMIZED_OPS. op \<noteq> ''custom''"
  "\<forall>op\<in>ANE_OPTIMIZED_OPS. \<not> str_in ''custom'' op"
  "\<forall>op\<in>ANE_OPTIMIZED_OPS. \<not> str_in ''attention'' op"
  "\<forall>op\<in>ANE_OPTIMIZED_OPS. str_in ''softmax'' op = (op = ''softmax'')"
  "\<forall>op\<in>ANE_OPTIMIZED_OPS. str_in ''conv'' op =
      (op \<in> {''conv'', ''conv2d'', ''depthwise_conv2d'', ''conv_transpose''})"
  "\<forall>op\<in>ANE_OPTIMIZED_OPS. (op \<in> {''matmul'', ''linear'', ''conv'', ''conv2d''}) =
      (op \<in> {''linear'', ''matmul'', ''conv'', ''conv2d''})"
  by (simp_all add: ANE_OPTIMIZED_OPS_def ANE_PROBLEMATIC_OPS_def lower_def lower_char_def)

lemma keys_count_op: "fst ` set (count_op k d) = insert k (fst ` set d)"
  by (simp add: count_op_def AList.dom_update)

lemma keys_foldl_count_op:
  "fst ` set (foldl (\<lambda>d op. count_op op d) d ops) = fst ` set d \<union> set ops"
  by (induction ops arbitrary: d) (auto simp add: keys_count_op)

lemma ops_phase_optimized:
  assumes "set (model_operators spec) \<subseteq> Some ` ANE_OPTIMIZED_OPS"
  shows "\<exists>r1. ops_phase spec path = Inr r1 \<and> warnings r1 = [] \<and> blocking_issues r1 = [] \<and>
           ane_compatible r1 \<and> input_shapes r1 = [] \<and> output_shapes r1 = [] \<and>
           Some ` fst ` set (operations r1) = set (model_operators spec)"
proof -
  consider (prog) "which_type spec = Some ''mlProgram''"
    | (nn) "which_type spec \<noteq> Some ''mlProgram''" "which_type spec = Some ''neuralNetwork''"
    | (other) "which_type spec \<noteq> Some ''mlProgram''" "which_type spec \<noteq> Some ''neuralNetwork''"
    by blast
  then show ?thesis
  proof cases
    case prog
    with assms have sub: "set (program_ops spec) \<subseteq> ANE_OPTIMIZED_OPS"
      by (auto simp add: model_operators_def)
    have "filter (\<lambda>op. lower op \<in> ANE_PROBLEMATIC_OPS) (program_ops spec) = []"
      using sub optimized_table(1,2) by (auto simp add: filter_empty_conv)
    moreover have "filter (\<lambda>op. str_in ''custom'' (lower op)) (program_ops spec) = []"
      using sub optimized_table(1,4) by (auto simp add: filter_empty_conv)
    moreover have "\<not> list_ex (\<lambda>op. str_in ''custom'' (lower op)) (program_ops spec)"
      using sub optimized_table(1,4) by (auto simp add: list_ex_iff)
    ultimately show ?thesis
      using prog
      by (simp add: ops_phase_def analyze_mlprogram_ops_foldl foldl_mlprogram_op_fields
          keys_foldl_count_op model_operators_def init_results_def)
  next
    case nn
    with assms have sub: "set (map layer_which (neuralNetwork spec)) \<subseteq> Some ` ANE_OPTIMIZED_OPS"
      by (simp add: model_operators_def)
    then have "None \<notin> set (map layer_which (neuralNetwork spec))" by blast
    then obtain ts where ts: "map layer_which (neuralNetwork spec) = map Some ts"
      using map_Some_ex by blast
    with sub have tsub: "set ts \<subseteq> ANE_OPTIMIZED_OPS" by auto
    have "filter (\<lambda>(l, t). lower t \<in> ANE_PROBLEMATIC_OPS) (zip (neuralNetwork spec) ts) = []"
      using tsub optimized_table(1,2) by (auto simp add: filter_empty_conv dest!: set_zip_rightD)
    moreover have "filter (\<lambda>l. layer_which l = Some ''custom'') (neuralNetwork spec) = []"
    proof -
      have "Some ''custom'' \<notin> set (map layer_which (neuralNetwork spec))"
        using sub optimized_table(3) by blast
      then show ?thesis by (force simp add: filter_empty_conv image_iff)
    qed
    moreover have "''custom'' \<notin> set ts"
      using tsub optimized_table(3) by blast
    moreover have "Some ` set ts = set (model_operators spec)"
      using nn ts by (simp add: model_operators_def flip: set_map)
    ultimately show ?thesis
      using nn nn_layers_typed [OF ts, of "(init_results path)\<lparr>format := ''neuralNetwork''\<rparr>"]
      by (auto simp add: ops_phase_def analyze_neural_network_ops_def keys_foldl_count_op
          init_results_def)
  next
    case other
    then show ?thesis
      by (simp add: ops_phase_def model_operators_def init_results_def)
  qed
qed

lemma foldl_max_Max: "foldl max (x::int) xs = Max (set (x # xs))"
proof -
  have "(\<lambda>a s. max s a) = (max :: int \<Rightarrow> int \<Rightarrow> int)"
    by (intro ext) (simp add: max.commute)
  then show ?thesis
    by (simp add: Max.set_eq_fold foldl_conv_fold del: set_simps)
qed

lemma seq_len_recs_empty:
  "seq_len_recs (nm, shape) = [] \<longleftrightarrow> (2 \<le> length shape \<longrightarrow> Max (set shape) \<le> 2048)"
proof (cases shape)
  case Nil
  then show ?thesis by simp
next
  case (Cons x xs)
  note outer = Cons
  show ?thesis
  proof (cases xs)
    case Nil
    with outer show ?thesis by simp
  next
    case (Cons y rest)
    with outer have shape: "shape = x # y # rest" by simp
    have m: "foldl max x (y # rest) = Max (set shape)"
      unfolding shape by (rule foldl_max_Max)
    have "seq_len_recs (nm, shape) =
        (if Max (set shape) > max_sequence_length then [rec_seq_len (Max (set shape))] else [])"
      unfolding shape seq_len_recs.simps Let_def m [unfolded shape] ..
    moreover have "2 \<le> length shape" by (simp add: shape)
    moreover have "max_sequence_length = 2048"
      by (simp add: max_sequence_length_def ANE_CONSTRAINTS_def)
    ultimately show ?thesis by (simp add: not_less)
  qed
qed

lemma seq_len_recs_not_well: "rec_well_optimized \<notin> set (seq_len_recs e)"
proof (cases e)
  case (Pair nm shape)
  then show ?thesis
    by (cases "(nm, shape)" rule: seq_len_recs.cases)
       (auto simp add: rec_well_optimized_def rec_seq_len_def Let_def)
qed

lemma generate_recommendations_optimized:
  assumes "ane_compatible r" "warnings r = []" "fst ` set (operations r) \<subseteq> ANE_OPTIMIZED_OPS"
  shows "generate_recommendations r = [rec_well_optimized] \<longleftrightarrow>
           fst ` set (operations r) \<inter>
             {''conv'', ''conv2d'', ''depthwise_conv2d'', ''conv_transpose'', ''linear'', ''matmul''} = {} \<and>
           (''softmax'' \<in> fst ` set (operations r) \<longrightarrow>
              (\<forall>(nm, shape)\<in>set (input_shapes r). 2 \<le> length shape \<longrightarrow> Max (set shape) \<le> 2048))"
proof -
  define ops where "ops = map fst (operations r)"
  have sub: "set ops \<subseteq> ANE_OPTIMIZED_OPS" using assms(3) by (simp add: ops_def)
  define c where "c = list_ex (\<lambda>op. lower op \<in> {''matmul'', ''linear'', ''conv'', ''conv2d''}) ops"
  define d where "d = list_ex (\<lambda>op. str_in ''conv'' (lower op)) ops"
  define a where
    "a = list_ex (\<lambda>op. str_in ''attention'' (lower op) \<or> str_in ''softmax'' (lower op)) ops"
  define E where "E = concat (map seq_len_recs (input_shapes r))"
  have c: "c \<longleftrightarrow> set ops \<inter> {''matmul'', ''linear'', ''conv'', ''conv2d''} \<noteq> {}"
    unfolding c_def list_ex_iff using sub optimized_table(1) by auto
  have d: "d \<longleftrightarrow>
      set ops \<inter> {''conv'', ''conv2d'', ''depthwise_conv2d'', ''conv_transpose''} \<noteq> {}"
    unfolding d_def list_ex_iff using sub optimized_table(1,7) by (auto simp add: subset_iff)
  have a: "a \<longleftrightarrow> ''softmax'' \<in> set ops"
    unfolding a_def list_ex_iff using sub optimized_table(1,5,6) by (auto simp add: subset_iff)
  have E: "E = [] \<longleftrightarrow>
      (\<forall>(nm, shape)\<in>set (input_shapes r). 2 \<le> length shape \<longrightarrow> Max (set shape) \<le> 2048)"
    unfolding E_def by (auto simp add: seq_len_recs_empty)
  have Ew: "rec_well_optimized \<notin> set E"
    unfolding E_def using seq_len_recs_not_well by auto
  have g: "generate_recommendations r =
      (if ((if c then [rec_float16] else []) @ (if d then [rec_conv] else [])) @
            (if a then E else []) = []
       then [rec_well_optimized]
       else ((if c then [rec_float16] else []) @ (if d then [rec_conv] else [])) @
            (if a then E else []))"
    unfolding generate_recommendations_def Let_def c_def d_def a_def E_def ops_def
    by (simp only: assms(1,2) simp_thms if_False if_True append_Nil)
  have ne: "rec_float16 \<noteq> rec_well_optimized" "rec_conv \<noteq> rec_well_optimized"
    by (simp_all add: rec_float16_def rec_conv_def rec_well_optimized_def)
  have "generate_recommendations r = [rec_well_optimized] \<longleftrightarrow>
      \<not> c \<and> \<not> d \<and> (a \<longrightarrow> E = [])"
  proof
    assume eq: "generate_recommendations r = [rec_well_optimized]"
    let ?recs = "(if c then [rec_float16] else []) @ (if d then [rec_conv] else []) @
                  (if a then E else [])"
    have "rec_well_optimized \<notin> set ?recs" using ne Ew by auto
    then have "?recs \<noteq> [rec_well_optimized]" by (metis list.set_intros(1))
    with eq g have "?recs = []" by (simp split: if_splits)
    then show "\<not> c \<and> \<not> d \<and> (a \<longrightarrow> E = [])" by (auto split: if_splits)
  next
    assume "\<not> c \<and> \<not> d \<and> (a \<longrightarrow> E = [])"
    then show "generate_recommendations r = [rec_well_optimized]"
      using g by auto
  qed
  then show ?thesis
    unfolding c d a E ops_def by auto
qed

lemma distinct_count_op: "distinct (map fst d) \<Longrightarrow> distinct (map fst (count_op k d))"
  by (simp add: count_op_def AList.distinct_update)

lemma distinct_foldl_count_op:
  "distinct (map fst d) \<Longrightarrow> distinct (map fst (foldl (\<lambda>d k. count_op k d) d ks))"
  by (induction ks arbitrary: d) (simp_all add: distinct_count_op)

lemma distinct_record_shape:
  "distinct (map fst shapes) \<Longrightarrow> distinct (map fst (record_shape shapes d))"
  by (simp add: record_shape_def AList.distinct_update split: option.splits)

lemma distinct_foldl_record_shape:
  "distinct (map fst shapes) \<Longrightarrow> distinct (map fst (foldl record_shape shapes ds))"
  by (induction ds arbitrary: shapes) (simp_all add: distinct_record_shape)

lemma ops_phase_distinct:
  assumes "ops_phase spec path = Inr r1"
  shows "distinct (map fst (operations r1))"
proof (cases "None \<in> set (map layer_which (neuralNetwork spec))")
  case True
  with assms show ?thesis
    by (auto simp add: ops_phase_def analyze_mlprogram_ops_foldl foldl_mlprogram_op_fields
        init_results_def analyze_neural_network_ops_def nn_layers_untyped
        distinct_foldl_count_op split: if_splits)
next
  case False
  then obtain ts where ts: "map layer_which (neuralNetwork spec) = map Some ts"
    using map_Some_ex by blast
  show ?thesis
    using assms nn_layers_typed [OF ts, of "(init_results path)\<lparr>format := ''neuralNetwork''\<rparr>"]
    by (auto simp add: ops_phase_def analyze_mlprogram_ops_foldl foldl_mlprogram_op_fields
        init_results_def analyze_neural_network_ops_def distinct_foldl_count_op
        split: if_splits)
qed

lemma analysis_distinct:
  assumes "analyze_ml_program MLModel path = Inr r"
  shows "distinct (map fst (operations r))" "distinct (map fst (input_shapes r))"
    "distinct (map fst (output_shapes r))"
proof -
  from assms obtain model r1 where
    m: "MLModel path = Inr model" and r1: "ops_phase (get_spec model) path = Inr r1"
    and r: "r = (shapes_phase model r1)
        \<lparr>recommendations := generate_recommendations (shapes_phase model r1)\<rparr>"
    by (auto simp add: analyze_ml_program_phases split: sum.splits)
  from ops_phase_shapes [OF r1] have e: "input_shapes r1 = []" "output_shapes r1 = []"
    by simp_all
  show "distinct (map fst (operations r))"
    using ops_phase_distinct [OF r1] by (simp add: r shapes_phase_def)
  show "distinct (map fst (input_shapes r))"
    by (simp add: r shapes_phase_def e distinct_foldl_record_shape)
  show "distinct (map fst (output_shapes r))"
    by (simp add: r shapes_phase_def e distinct_foldl_record_shape)
qed

lemma update_fresh: "k \<notin> fst ` set al \<Longrightarrow> AList.update k v al = al @ [(k, v)]"
  by (induction al) auto

lemma of_json_items_distinct:
  "distinct (map fst kvs) \<Longrightarrow> PStr ` set (map fst kvs) \<inter> fst ` set d = {} \<Longrightarrow>
   of_json_items d kvs = d @ map (\<lambda>(k, j). (PStr k, of_json j)) kvs"
proof (induction kvs arbitrary: d)
  case Nil
  then show ?case by simp
next
  case (Cons kv kvs)
  obtain k j where kv: "kv = (k, j)" by (cases kv)
  from Cons.prems have fresh: "PStr k \<notin> fst ` set d" by (auto simp add: kv)
  have "of_json_items (d @ [(PStr k, of_json j)]) kvs =
      (d @ [(PStr k, of_json j)]) @ map (\<lambda>(k, j). (PStr k, of_json j)) kvs"
    using Cons.prems by (intro Cons.IH) (auto simp add: kv)
  then show ?case by (simp add: kv update_fresh [OF fresh])
qed

lemma str_list_roundtrip:
  "to_json_list (map PStr xs) = Some (map JString xs)"
  "of_json_list (map JString xs) = map PStr xs"
  by (induction xs) simp_all

lemma int_list_roundtrip:
  "to_json_list (map PInt xs) = Some (map JNumber xs)"
  "of_json_list (map JNumber xs) = map PInt xs"
  by (induction xs) simp_all

lemma counts_to_json:
  "to_json_items (map (\<lambda>(k, n). (PStr k, PInt n)) d) = Some (map (\<lambda>(k, n). (k, JNumber n)) d)"
  by (induction d) auto

lemma shapes_to_json:
  "to_json_items (map (\<lambda>(k, shape). (PStr k, PList (map PInt shape))) d) =
     Some (map (\<lambda>(k, shape). (k, JArray (map JNumber shape))) d)"
  by (induction d) (auto simp add: int_list_roundtrip)

lemma counts_of_json:
  assumes "distinct (map fst d)"
  shows "of_json_items [] (map (\<lambda>(k, n). (k, JNumber n)) d) = map (\<lambda>(k, n). (PStr k, PInt n)) d"
proof -
  have m: "map fst (map (\<lambda>(k, n). (k, JNumber n)) d) = map fst d"
    by (induction d) auto
  have "distinct (map fst (map (\<lambda>(k, n). (k, JNumber n)) d))"
    unfolding m by (rule assms)
  from of_json_items_distinct [OF this, of "[]"] show ?thesis
    by (simp add: case_prod_unfold comp_def)
qed

lemma shapes_of_json:
  assumes "distinct (map fst d)"
  shows "of_json_items [] (map (\<lambda>(k, shape). (k, JArray (map JNumber shape))) d) =
     map (\<lambda>(k, shape). (PStr k, PList (map PInt shape))) d"
proof -
  have m: "map fst (map (\<lambda>(k, shape). (k, JArray (map JNumber shape))) d) = map fst d"
    by (induction d) auto
  have "distinct (map fst (map (\<lambda>(k, shape). (k, JArray (map JNumber shape))) d))"
    unfolding m by (rule assms)
  from of_json_items_distinct [OF this, of "[]"] show ?thesis
    by (simp add: case_prod_unfold comp_def int_list_roundtrip)
qed

lemma results_dict_roundtrip:
  assumes "distinct (map fst (operations r))" "distinct (map fst (input_shapes r))"
    "distinct (map fst (output_shapes r))"
  shows "json_roundtrip (results_dict r) = Some (results_dict r)"
  using assms
  by (simp add: json_roundtrip_def results_dict_def str_list_roundtrip counts_to_json
      shapes_to_json counts_of_json shapes_of_json update_fresh)

lemma results_dict_inj: "results_dict r' = results_dict r \<Longrightarrow> r' = r"
proof -
  assume eq: "results_dict r' = results_dict r"
  have i1: "inj PStr" by (simp add: inj_def)
  have i2: "inj (\<lambda>(k, n). (PStr k, PInt n))" by (auto simp add: inj_def)
  have i3: "inj (\<lambda>(k, shape). (PStr k, PList (map PInt shape)))"
    by (auto simp add: inj_def inj_map_eq_map)
  from eq show ?thesis
    by (cases r; cases r')
       (simp add: results_dict_def inj_map_eq_map [OF i1] inj_map_eq_map [OF i2]
          inj_map_eq_map [OF i3])
qed

lemma none_key_not_restored:
  "json_roundtrip (PDict [(PNone, PInt 1)]) = Some (PDict [(PStr ''null'', PInt 1)])"
  by (simp add: json_roundtrip_def)

section \<open>The reducer: auxiliary definitions and lemmas\<close>

text \<open>The quantization step of \<open>main\<close>: the function the precision argument selects.\<close>

definition quantize_step ::
  "('w, 'f, 'n, 'a) platform \<Rightarrow> args \<Rightarrow> 'w state \<Rightarrow> (error + 'f metrics) \<times> 'w state" where
  "quantize_step P a s =
     (if args_precision a = ''float16''
      then quantize_to_float16 P (args_input a) (args_output a) s
      else quantize_to_int8 P (args_input a) (args_output a) s)"

text \<open>\<open>near \<epsilon> x y\<close>: \<open>y\<close> is \<open>x\<close> up to the relative error \<open>\<epsilon>\<close>.\<close>

definition near :: "rat \<Rightarrow> rat \<Rightarrow> rat \<Rightarrow> bool" where
  "near \<epsilon> x y = (\<bar>y - x\<bar> \<le> \<epsilon> * \<bar>x\<bar>)"

lemma world_py_print [simp]: "world (py_print l s) = world s"
  by (simp add: py_print_def)

lemma stdout_py_print [simp]: "stdout (py_print l s) = stdout s @ [l]"
  by (simp add: py_print_def)

lemma py_print_twice:
  "py_print l2 (py_print l1 s) = s\<lparr>stdout := stdout s @ [l1, l2]\<rparr>"
  by (simp add: py_print_def)

lemma fst_eqD: "fst p = x \<Longrightarrow> \<exists>y. p = (x, y)"
  by (cases p) simp

lemma validate_try_audio_missing:
  assumes "model_predict P (world s) original = Inr orig_output"
    and "model_predict P (world s) quantized = Inr quant_output"
    and "map_of orig_output ''audio'' = None \<or> map_of quant_output ''audio'' = None"
  shows "validate_try P original quantized s = (Inr None, s)"
  using assms by (auto simp add: validate_try_def split: option.splits)

lemma validate_try_raises:
  "model_predict P (world s) original = Inl e \<Longrightarrow>
     validate_try P original quantized s = (Inl e, s)"
  "model_predict P (world s) original = Inr orig_output \<Longrightarrow>
   model_predict P (world s) quantized = Inl e \<Longrightarrow>
     validate_try P original quantized s = (Inl e, s)"
  "model_predict P (world s) original = Inr orig_output \<Longrightarrow>
   model_predict P (world s) quantized = Inr quant_output \<Longrightarrow>
   map_of orig_output ''audio'' = Some orig_out \<Longrightarrow>
   map_of quant_output ''audio'' = Some quant_out \<Longrightarrow>
     validate_try P original quantized s = compare_audio P orig_out quant_out s"
  by (simp_all add: validate_try_def)

lemma compare_audio_raises:
  "np_flatten P orig_out = Inl e \<Longrightarrow> compare_audio P orig_out quant_out s = (Inl e, s)"
  "np_flatten P orig_out = Inr xs \<Longrightarrow> np_flatten P quant_out = Inl e \<Longrightarrow>
     compare_audio P orig_out quant_out s = (Inl e, s)"
  "np_flatten P orig_out = Inr xs \<Longrightarrow> np_flatten P quant_out = Inr ys \<Longrightarrow>
   np_max P (map (np_abs P)
     (map2 (np_sub P) (take (min (length xs) (length ys)) xs)
        (take (min (length xs) (length ys)) ys))) = Inl e \<Longrightarrow>
     compare_audio P orig_out quant_out s = (Inl e, s)"
  by (simp_all add: compare_audio_def Let_def)

lemma validate_caught:
  assumes "ct_MLModel P (world s) original_path = Inr original"
    and "ct_MLModel P (world s) quantized_path = Inr quantized"
    and "validate_try P original quantized (py_print validating_line s) =
           (Inl e, py_print validating_line s)"
  shows "validate_quantized_model P original_path quantized_path s =
           (Inr None, s\<lparr>stdout := stdout s @ [validating_line, validation_warning e]\<rparr>)"
  using assms by (simp add: validate_quantized_model_def Let_def py_print_twice)

lemma validate_load_raises:
  "ct_MLModel P (world s) original_path = Inl e \<Longrightarrow>
     validate_quantized_model P original_path quantized_path s =
       (Inl e, py_print validating_line s)"
  "ct_MLModel P (world s) original_path = Inr original \<Longrightarrow>
   ct_MLModel P (world s) quantized_path = Inl e \<Longrightarrow>
     validate_quantized_model P original_path quantized_path s =
       (Inl e, py_print validating_line s)"
  by (simp_all add: validate_quantized_model_def Let_def)

lemma convert_cases:
  "ct_convert P (world s) onnx_path
      (case map_of target_map min_target of None \<Rightarrow> iOS16 | Some t \<Rightarrow> t) = Inl e \<Longrightarrow>
     convert_onnx_to_coreml_fp16 P onnx_path output_path min_target s =
       (Inl e, py_print (converting_line onnx_path) s)"
  "ct_convert P (world s) onnx_path
      (case map_of target_map min_target of None \<Rightarrow> iOS16 | Some t \<Rightarrow> t) = Inr model \<Longrightarrow>
   model_save P (world s) model output_path = (Inl e, w) \<Longrightarrow>
     convert_onnx_to_coreml_fp16 P onnx_path output_path min_target s =
       (Inl e, (py_print (converting_line onnx_path) s)\<lparr>world := w\<rparr>)"
  "ct_convert P (world s) onnx_path
      (case map_of target_map min_target of None \<Rightarrow> iOS16 | Some t \<Rightarrow> t) = Inr model \<Longrightarrow>
   model_save P (world s) model output_path = (Inr u, w) \<Longrightarrow>
     convert_onnx_to_coreml_fp16 P onnx_path output_path min_target s =
       (Inr model,
        py_print (saved_line output_path) ((py_print (converting_line onnx_path) s)\<lparr>world := w\<rparr>))"
  by (simp_all add: convert_onnx_to_coreml_fp16_def Let_def)

lemma main_from_onnx:
  "args_from_onnx a \<Longrightarrow>
   main P a s =
     (case convert_onnx_to_coreml_fp16 P (args_input a) (args_output a) (args_target a) s of
        (Inl e, s1) \<Rightarrow> (Inl e, s1)
      | (Inr model, s1) \<Rightarrow> (Inr None, py_print onnx_done_line s1))"
  by (simp add: main_def)

lemma analyze_model_load:
  "ct_MLModel P (world s) path = Inl e \<Longrightarrow> fst (analyze_model P path s) = Inl e"
  "ct_MLModel P (world s) path = Inr model \<Longrightarrow>
     fst (analyze_model P path s) = Inr model \<and> world (snd (analyze_model P path s)) = world s"
  by (simp_all add: analyze_model_def Let_def)

lemma save_and_measure_save_fails:
  "model_save P (world s) qm output_path = (Inl e, w) \<Longrightarrow>
     fst (save_and_measure P saving title original_size qm output_path s) = Inl e"
  by (simp add: save_and_measure_def Let_def)

lemma quantize_step_raises:
  "ct_MLModel P (world s) (args_input a) = Inl e \<Longrightarrow> fst (quantize_step P a s) = Inl e"
  "ct_MLModel P (world s) (args_input a) = Inr model \<Longrightarrow>
   library_quantize P (args_precision a) model = Inl e \<Longrightarrow>
     fst (quantize_step P a s) = Inl e"
  "ct_MLModel P (world s) (args_input a) = Inr model \<Longrightarrow>
   library_quantize P (args_precision a) model = Inr qm \<Longrightarrow>
   model_save P (world s) qm (args_output a) = (Inl e, w) \<Longrightarrow>
     fst (quantize_step P a s) = Inl e"
  by (auto simp add: quantize_step_def quantize_to_float16_def quantize_to_int8_def
      library_quantize_def Let_def save_and_measure_save_fails split: if_splits)

lemma main_quantize:
  assumes "\<not> args_from_onnx a"
  shows "main P a s =
     (case analyze_model P (args_input a) s of
        (Inl e, s1) \<Rightarrow> (Inl e, s1)
      | (Inr model, s1) \<Rightarrow>
          (case quantize_step P a s1 of
             (Inl e, s2) \<Rightarrow> (Inl e, s2)
           | (Inr metrics, s2) \<Rightarrow>
               (case (if args_validate a
                      then validate_quantized_model P (args_input a) (args_output a) s2
                      else (Inr None, s2)) of
                  (Inl e, s3) \<Rightarrow> (Inl e, s3)
                | (Inr q, s3) \<Rightarrow>
                    (case (if args_compile a \<and> endswith (args_output a) ''.mlpackage''
                           then compile_for_device P (args_output a) (dirname (args_output a)) s3
                           else (Inr False, s3)) of
                       (Inl e, s4) \<Rightarrow> (Inl e, s4)
                     | (Inr c, s4) \<Rightarrow> (Inr (Some metrics), py_print done_line s4)))))"
  unfolding main_def quantize_step_def using assms by simp

lemma main_raises:
  assumes "\<not> args_from_onnx a"
  shows "ct_MLModel P (world s) (args_input a) = Inl e \<Longrightarrow> fst (main P a s) = Inl e"
    and "ct_MLModel P (world s) (args_input a) = Inr model \<Longrightarrow>
         library_quantize P (args_precision a) model = Inl e \<Longrightarrow> fst (main P a s) = Inl e"
    and "ct_MLModel P (world s) (args_input a) = Inr model \<Longrightarrow>
         library_quantize P (args_precision a) model = Inr qm \<Longrightarrow>
         model_save P (world s) qm (args_output a) = (Inl e, w) \<Longrightarrow> fst (main P a s) = Inl e"
proof -
  assume "ct_MLModel P (world s) (args_input a) = Inl e"
  then obtain s1 where "analyze_model P (args_input a) s = (Inl e, s1)"
    using analyze_model_load(1) fst_eqD by metis
  then show "fst (main P a s) = Inl e"
    by (simp add: main_quantize [OF assms])
next
  assume l: "ct_MLModel P (world s) (args_input a) = Inr model"
  obtain s1 where s1: "analyze_model P (args_input a) s = (Inr model, s1)" "world s1 = world s"
    using analyze_model_load(2) [OF l] by (cases "analyze_model P (args_input a) s") auto
  have q: "fst (quantize_step P a s1) = Inl e \<Longrightarrow> fst (main P a s) = Inl e"
  proof -
    assume "fst (quantize_step P a s1) = Inl e"
    then obtain s2 where "quantize_step P a s1 = (Inl e, s2)"
      using fst_eqD by metis
    then show ?thesis by (simp add: main_quantize [OF assms] s1(1))
  qed
  show "library_quantize P (args_precision a) model = Inl e \<Longrightarrow> fst (main P a s) = Inl e"
    using quantize_step_raises(2) [of P s1 a model e] l s1(2) q by simp
  show "library_quantize P (args_precision a) model = Inr qm \<Longrightarrow>
         model_save P (world s) qm (args_output a) = (Inl e, w) \<Longrightarrow> fst (main P a s) = Inl e"
    using quantize_step_raises(3) [of P s1 a model qm e w] l s1(2) q by simp
qed

lemma main_convert_raises:
  assumes "args_from_onnx a"
  shows "ct_convert P (world s) (args_input a)
           (case map_of target_map (args_target a) of None \<Rightarrow> iOS16 | Some t \<Rightarrow> t) = Inl e \<Longrightarrow>
         fst (main P a s) = Inl e"
    and "ct_convert P (world s) (args_input a)
           (case map_of target_map (args_target a) of None \<Rightarrow> iOS16 | Some t \<Rightarrow> t) = Inr model \<Longrightarrow>
         model_save P (world s) model (args_output a) = (Inl e, w) \<Longrightarrow>
         fst (main P a s) = Inl e"
  using assms by (simp_all add: main_from_onnx convert_cases)

lemma save_and_measure_Inr:
  assumes "save_and_measure P saving title o_size qm output_path s = (Inr m, s')"
  shows "\<exists>u ratio.
           model_save P (world s) qm output_path = (Inr u, world s') \<and>
           original_size_mb m = o_size \<and>
           quantized_size_mb m = get_model_size_mb P (world s') output_path \<and>
           float_truediv P (float_sub P (original_size_mb m) (quantized_size_mb m))
             (original_size_mb m) = Inr ratio \<and>
           reduction_percent m = float_mul_int P ratio 100"
  using assms
  by (auto simp add: save_and_measure_def Let_def split: prod.splits sum.splits)

lemma save_and_measure_ok:
  assumes "model_save P (world s) qm output_path = (Inr u, w)"
    and "float_truediv P (float_sub P o_size (get_model_size_mb P w output_path)) o_size =
           Inr ratio"
  shows "fst (save_and_measure P saving title o_size qm output_path s) =
           Inr \<lparr>original_size_mb = o_size,
                quantized_size_mb = get_model_size_mb P w output_path,
                reduction_percent = float_mul_int P ratio 100\<rparr> \<and>
         world (snd (save_and_measure P saving title o_size qm output_path s)) = w"
  using assms by (simp add: save_and_measure_def Let_def)

lemma quantize_to_float16_unfold:
  assumes "ct_MLModel P (world s) input_path = Inr model"
    and "library_quantize P ''float16'' model = Inr qm"
  shows "\<exists>s3. quantize_to_float16 P input_path output_path s =
             save_and_measure P '' Saving quantized model to: '' '' Quantization complete!''
               (get_model_size_mb P (world s) input_path) qm output_path s3 \<and>
           world s3 = world s"
proof (cases "which_type (get_spec model) = Some ''mlProgram''")
  case True
  with assms show ?thesis
    apply (simp add: quantize_to_float16_def library_quantize_def Let_def)
    apply (rule exI, rule conjI, rule refl)
    apply simp
    done
next
  case False
  with assms show ?thesis
    apply (simp add: quantize_to_float16_def library_quantize_def Let_def)
    apply (rule exI, rule conjI, rule refl)
    apply simp
    done
qed

lemma quantize_to_int8_unfold:
  assumes "ct_MLModel P (world s) input_path = Inr model"
    and "library_quantize P ''int8'' model = Inr qm"
  shows "\<exists>s2. quantize_to_int8 P input_path output_path s =
             save_and_measure P '' Saving Int8 model to: '' '' Int8 quantization complete!''
               (get_model_size_mb P (world s) input_path) qm output_path s2 \<and>
           world s2 = world s"
proof (cases "which_type (get_spec model) = Some ''mlProgram''")
  case True
  with assms show ?thesis
    apply (simp add: quantize_to_int8_def library_quantize_def Let_def)
    apply (rule exI, rule conjI, rule refl)
    apply simp
    done
next
  case False
  with assms show ?thesis
    apply (simp add: quantize_to_int8_def library_quantize_def Let_def)
    apply (rule exI, rule conjI, rule refl)
    apply simp
    done
qed

lemma quantize_raises:
  "ct_MLModel P (world s) input_path = Inl e \<Longrightarrow>
     fst (quantize_to_float16 P input_path output_path s) = Inl e \<and>
     fst (quantize_to_int8 P input_path output_path s) = Inl e"
  "ct_MLModel P (world s) input_path = Inr model \<Longrightarrow>
   library_quantize P ''float16'' model = Inl e \<Longrightarrow>
     fst (quantize_to_float16 P input_path output_path s) = Inl e"
  "ct_MLModel P (world s) input_path = Inr model \<Longrightarrow>
   library_quantize P ''int8'' model = Inl e \<Longrightarrow>
     fst (quantize_to_int8 P input_path output_path s) = Inl e"
  by (auto simp add: quantize_to_float16_def quantize_to_int8_def library_quantize_def Let_def
      split: if_splits)

lemma quantize_to_float16_Inr:
  assumes "quantize_to_float16 P input_path output_path s = (Inr m, s')"
  shows "\<exists>model qm u ratio.
           ct_MLModel P (world s) input_path = Inr model \<and>
           library_quantize P ''float16'' model = Inr qm \<and>
           model_save P (world s) qm output_path = (Inr u, world s') \<and>
           original_size_mb m = get_model_size_mb P (world s) input_path \<and>
           quantized_size_mb m = get_model_size_mb P (world s') output_path \<and>
           float_truediv P (float_sub P (original_size_mb m) (quantized_size_mb m))
             (original_size_mb m) = Inr ratio \<and>
           reduction_percent m = float_mul_int P ratio 100"
proof (cases "ct_MLModel P (world s) input_path")
  case (Inl e)
  with assms quantize_raises(1) [of P s input_path e output_path] show ?thesis by simp
next
  case (Inr model)
  show ?thesis
  proof (cases "library_quantize P ''float16'' model")
    case (Inl e)
    with assms Inr quantize_raises(2) [of P s input_path model e output_path]
    show ?thesis by simp
  next
    case q: (Inr qm)
    from quantize_to_float16_unfold [OF Inr q, of output_path] assms
    obtain s3 where "save_and_measure P '' Saving quantized model to: ''
        '' Quantization complete!'' (get_model_size_mb P (world s) input_path) qm output_path s3 =
        (Inr m, s')" and w3: "world s3 = world s"
      by auto
    from save_and_measure_Inr [OF this(1)] Inr q show ?thesis
      by (auto simp add: w3)
  qed
qed

lemma quantize_to_int8_Inr:
  assumes "quantize_to_int8 P input_path output_path s = (Inr m, s')"
  shows "\<exists>model qm u ratio.
           ct_MLModel P (world s) input_path = Inr model \<and>
           library_quantize P ''int8'' model = Inr qm \<and>
           model_save P (world s) qm output_path = (Inr u, world s') \<and>
           original_size_mb m = get_model_size_mb P (world s) input_path \<and>
           quantized_size_mb m = get_model_size_mb P (world s') output_path \<and>
           float_truediv P (float_sub P (original_size_mb m) (quantized_size_mb m))
             (original_size_mb m) = Inr ratio \<and>
           reduction_percent m = float_mul_int P ratio 100"
proof (cases "ct_MLModel P (world s) input_path")
  case (Inl e)
  with assms quantize_raises(1) [of P s input_path e output_path] show ?thesis by simp
next
  case (Inr model)
  show ?thesis
  proof (cases "library_quantize P ''int8'' model")
    case (Inl e)
    with assms Inr quantize_raises(3) [of P s input_path model e output_path]
    show ?thesis by simp
  next
    case q: (Inr qm)
    from quantize_to_int8_unfold [OF Inr q, of output_path] assms
    obtain s2 where "save_and_measure P '' Saving Int8 model to: ''
        '' Int8 quantization complete!'' (get_model_size_mb P (world s) input_path) qm output_path s2 =
        (Inr m, s')" and w2: "world s2 = world s"
      by auto
    from save_and_measure_Inr [OF this(1)] Inr q show ?thesis
      by (auto simp add: w2)
  qed
qed

lemma quantize_to_float16_ok:
  assumes "ct_MLModel P (world s) input_path = Inr model"
    and "library_quantize P ''float16'' model = Inr qm"
    and "model_save P (world s) qm output_path = (Inr u, w)"
    and "float_truediv P
           (float_sub P (get_model_size_mb P (world s) input_path)
              (get_model_size_mb P w output_path))
           (get_model_size_mb P (world s) input_path) = Inr ratio"
  shows "\<exists>s'. quantize_to_float16 P input_path output_path s =
           (Inr \<lparr>original_size_mb = get_model_size_mb P (world s) input_path,
                 quantized_size_mb = get_model_size_mb P w output_path,
                 reduction_percent = float_mul_int P ratio 100\<rparr>, s') \<and>
           world s' = w"
proof -
  from quantize_to_float16_unfold [OF assms(1,2), of output_path]
  obtain s3 where s3: "quantize_to_float16 P input_path output_path s =
      save_and_measure P '' Saving quantized model to: '' '' Quantization complete!''
        (get_model_size_mb P (world s) input_path) qm output_path s3"
    and w3: "world s3 = world s"
    by blast
  from assms(3) have sv: "model_save P (world s3) qm output_path = (Inr u, w)"
    by (simp add: w3)
  from save_and_measure_ok [OF sv assms(4), of "'' Saving quantized model to: ''"
      "'' Quantization complete!''"]
  show ?thesis
    unfolding s3 by (metis prod.collapse)
qed

lemma quantize_to_int8_ok:
  assumes "ct_MLModel P (world s) input_path = Inr model"
    and "library_quantize P ''int8'' model = Inr qm"
    and "model_save P (world s) qm output_path = (Inr u, w)"
    and "float_truediv P
           (float_sub P (get_model_size_mb P (world s) input_path)
              (get_model_size_mb P w output_path))
           (get_model_size_mb P (world s) input_path) = Inr ratio"
  shows "\<exists>s'. quantize_to_int8 P input_path output_path s =
           (Inr \<lparr>original_size_mb = get_model_size_mb P (world s) input_path,
                 quantized_size_mb = get_model_size_mb P w output_path,
                 reduction_percent = float_mul_int P ratio 100\<rparr>, s') \<and>
           world s' = w"
proof -
  from quantize_to_int8_unfold [OF assms(1,2), of output_path]
  obtain s2 where s2: "quantize_to_int8 P input_path output_path s =
      save_and_measure P '' Saving Int8 model to: '' '' Int8 quantization complete!''
        (get_model_size_mb P (world s) input_path) qm output_path s2"
    and w2: "world s2 = world s"
    by blast
  from assms(3) have sv: "model_save P (world s2) qm output_path = (Inr u, w)"
    by (simp add: w2)
  from save_and_measure_ok [OF sv assms(4), of "'' Saving Int8 model to: ''"
      "'' Int8 quantization complete!''"]
  show ?thesis
    unfolding s2 by (metis prod.collapse)
qed

lemma save_and_measure_div_raises:
  assumes "model_save P (world s) qm output_path = (Inr u, w)"
    and "float_truediv P (float_sub P o_size (get_model_size_mb P w output_path)) o_size = Inl e"
  shows "fst (save_and_measure P saving title o_size qm output_path s) = Inl e"
  using assms by (simp add: save_and_measure_def Let_def)

lemma quantize_div_raises:
  assumes "ct_MLModel P (world s) input_path = Inr model"
    and "model_save P (world s) qm output_path = (Inr u, w)"
    and "float_truediv P
           (float_sub P (get_model_size_mb P (world s) input_path)
              (get_model_size_mb P w output_path))
           (get_model_size_mb P (world s) input_path) = Inl e"
  shows "library_quantize P ''float16'' model = Inr qm \<Longrightarrow>
           fst (quantize_to_float16 P input_path output_path s) = Inl e"
    and "library_quantize P ''int8'' model = Inr qm \<Longrightarrow>
           fst (quantize_to_int8 P input_path output_path s) = Inl e"
proof -
  assume q: "library_quantize P ''float16'' model = Inr qm"
  from quantize_to_float16_unfold [OF assms(1) q, of output_path]
  obtain s3 where s3: "quantize_to_float16 P input_path output_path s =
      save_and_measure P '' Saving quantized model to: '' '' Quantization complete!''
        (get_model_size_mb P (world s) input_path) qm output_path s3"
    and w3: "world s3 = world s"
    by blast
  from assms(2) have sv: "model_save P (world s3) qm output_path = (Inr u, w)"
    by (simp add: w3)
  show "fst (quantize_to_float16 P input_path output_path s) = Inl e"
    unfolding s3 by (rule save_and_measure_div_raises [OF sv assms(3)])
next
  assume q: "library_quantize P ''int8'' model = Inr qm"
  from quantize_to_int8_unfold [OF assms(1) q, of output_path]
  obtain s2 where s2: "quantize_to_int8 P input_path output_path s =
      save_and_measure P '' Saving Int8 model to: '' '' Int8 quantization complete!''
        (get_model_size_mb P (world s) input_path) qm output_path s2"
    and w2: "world s2 = world s"
    by blast
  from assms(2) have sv: "model_save P (world s2) qm output_path = (Inr u, w)"
    by (simp add: w2)
  show "fst (quantize_to_int8 P input_path output_path s) = Inl e"
    unfolding s2 by (rule save_and_measure_div_raises [OF sv assms(3)])
qed

lemma binary64_division:
  assumes "binary64_floats P"
  shows "o_size \<noteq> 0 \<Longrightarrow> \<exists>ratio. float_truediv P (float_sub P o_size q_size) o_size = Inr ratio"
    and "float_truediv P (float_sub P 0 q_size) 0 = Inl ZeroDivisionError"
  using assms by (simp_all add: binary64_floats_def b64_truediv_def)

lemma main_validate_load_raises:
  assumes "\<not> args_from_onnx a" "args_validate a"
    and "analyze_model P (args_input a) s = (Inr model, s1)"
    and "quantize_step P a s1 = (Inr m, s2)"
    and "ct_MLModel P (world s2) (args_input a) = Inr original"
    and "ct_MLModel P (world s2) (args_output a) = Inl e"
  shows "fst (main P a s) = Inl e"
  using assms(2-4) validate_load_raises(2) [OF assms(5,6)]
  by (simp add: main_quantize [OF assms(1)])

lemma fl_examples:
  "fl 100 = 100"
  "fl (1 / 10) = 3602879701896397 / 36028797018963968"
  "fl (fl (1 / 10) + fl (2 / 10)) = 1351079888211149 / 4503599627370496"
  "fl (3 / 10) = 5404319552844595 / 18014398509481984"
  "fl (9007199254740993) = 9007199254740992"
  "fl (9007199254740995) = 9007199254740996"
  by code_simp+

lemma b64_examples:
  "b64_int_truediv 104857600 (1024 * 1024) = 100"
  "b64_int_truediv 54525952 (1024 * 1024) = 52"
  "b64_int_truediv 209715200 (1024 * 1024) = 200"
  "b64_truediv (b64_sub 100 52) 100 = Inr (1080863910568919 / 2251799813685248)"
  "b64_mul_int (1080863910568919 / 2251799813685248) 100 = 48"
  "b64_truediv (b64_sub 200 100) 200 = Inr (1 / 2)"
  "b64_mul_int (1 / 2) 100 = 50"
  by code_simp+

lemma round_half_even_error: "\<bar>of_int (round_half_even q) - q\<bar> \<le> 1 / 2"
proof -
  have "of_int \<lfloor>q\<rfloor> \<le> q" "q < of_int \<lfloor>q\<rfloor> + 1"
    by linarith+
  then show ?thesis
    by (auto simp add: round_half_even_def Let_def abs_le_iff)
qed

lemma int_pow2_bounds:
  fixes p :: int
  assumes "0 < p"
  shows "(2::rat) powi (bitlen p - 1) \<le> of_int p" "of_int p < (2::rat) powi (bitlen p)"
proof -
  from assms have b: "1 \<le> bitlen p" by (auto simp: bitlen_alt_def)
  from bitlen_bounds [OF assms] have "2 ^ nat (bitlen p - 1) \<le> p" "p < 2 ^ nat (bitlen p)"
    by simp_all
  then have "(of_int (2 ^ nat (bitlen p - 1)) :: rat) \<le> of_int p"
    "(of_int p :: rat) < of_int (2 ^ nat (bitlen p))"
    by (simp_all only: of_int_le_iff of_int_less_iff)
  then show "(2::rat) powi (bitlen p - 1) \<le> of_int p" "of_int p < (2::rat) powi (bitlen p)"
    using b by (simp_all add: power_int_nonneg_exp)
qed

lemma ilog2_bounds:
  assumes "0 < x"
  shows "2 powi (ilog2 x) \<le> x" "x < 2 powi (ilog2 x + 1)"
proof -
  obtain p q where pq: "quotient_of x = (p, q)" by (cases "quotient_of x")
  then have q: "0 < q" and x: "x = of_int p / of_int q"
    using quotient_of_denom_pos quotient_of_div by blast+
  with assms have p: "0 < p"
    by (simp add: zero_less_divide_iff)
  define d where "d = bitlen p - bitlen q"
  have lo: "2 powi (d - 1) \<le> x"
  proof -
    have "2 powi (d - 1) = (2::rat) powi (bitlen p - 1) / 2 powi (bitlen q)"
      by (simp add: d_def power_int_diff)
    also have "\<dots> \<le> of_int p / 2 powi (bitlen q)"
      using int_pow2_bounds(1) [OF p] by (simp add: divide_right_mono)
    also have "\<dots> \<le> of_int p / of_int q"
      using int_pow2_bounds(2) [OF q] p q by (simp add: frac_le)
    finally show ?thesis by (simp add: x)
  qed
  have hi: "x < 2 powi (d + 1)"
  proof -
    have "x = of_int p / of_int q" by (rule x)
    also have "\<dots> < 2 powi (bitlen p) / of_int q"
      using int_pow2_bounds(2) [OF p] q by (simp add: divide_strict_right_mono)
    also have "\<dots> \<le> 2 powi (bitlen p) / 2 powi (bitlen q - 1)"
      using int_pow2_bounds(1) [OF q] by (simp add: frac_le)
    also have "\<dots> = 2 powi (d + 1)"
      by (simp add: d_def power_int_diff power_int_add)
    finally show ?thesis .
  qed
  have e: "ilog2 x = (if 2 powi d \<le> x then d else d - 1)"
    by (simp add: ilog2_def pq d_def Let_def)
  show "2 powi (ilog2 x) \<le> x" using lo by (simp add: e)
  show "x < 2 powi (ilog2 x + 1)" using hi by (auto simp add: e not_le)
qed

lemma fl_error: "\<bar>fl x - x\<bar> \<le> \<bar>x\<bar> / 2 ^ 53"
proof (cases "x = 0")
  case True
  then show ?thesis by (simp add: fl_def)
next
  case False
  define e where "e = ilog2 \<bar>x\<bar>"
  define u :: rat where "u = 2 powi (e - 52)"
  define n where "n = round_half_even (x / u)"
  have u: "0 < u" by (simp add: u_def)
  have f: "fl x = of_int n * u"
    using False by (simp add: fl_def Let_def e_def u_def n_def)
  have "fl x - x = (of_int n - x / u) * u"
    using u by (simp add: f field_simps)
  then have "\<bar>fl x - x\<bar> = \<bar>of_int n - x / u\<bar> * u"
    using u by (simp add: abs_mult)
  also have "\<dots> \<le> (1 / 2) * u"
    using round_half_even_error [of "x / u"] u
    by (intro mult_right_mono) (simp_all add: n_def)
  also have "(1 / 2) * u = 2 powi e / 2 ^ 53"
  proof -
    have "u = 2 powi e / 2 powi 52" by (simp add: u_def power_int_diff)
    then show ?thesis by simp
  qed
  also have "\<dots> \<le> \<bar>x\<bar> / 2 ^ 53"
    using ilog2_bounds(1) [of "\<bar>x\<bar>"] False by (simp add: e_def divide_right_mono)
  finally show ?thesis .
qed

lemma fl_representable: "\<exists>n k. fl x = of_int n * 2 powi k \<and> \<bar>n\<bar> \<le> 2 ^ 53"
proof (cases "x = 0")
  case True
  then have "fl x = of_int 0 * 2 powi 0" by (simp add: fl_def)
  then show ?thesis by (metis abs_zero zero_le_numeral zero_le_power)
next
  case False
  define e where "e = ilog2 \<bar>x\<bar>"
  define u :: rat where "u = 2 powi (e - 52)"
  define n where "n = round_half_even (x / u)"
  have u: "0 < u" by (simp add: u_def)
  have f: "fl x = of_int n * u"
    using False by (simp add: fl_def Let_def e_def u_def n_def)
  have "\<bar>x\<bar> < 2 powi (e + 1)"
    using ilog2_bounds(2) [of "\<bar>x\<bar>"] False by (simp add: e_def)
  also have "\<dots> = 2 ^ 53 * u"
  proof -
    have "e + 1 = 53 + (e - 52)" by simp
    then have "(2::rat) powi (e + 1) = 2 powi (53 + (e - 52))" by (simp only:)
    also have "\<dots> = 2 powi 53 * 2 powi (e - 52)" by (rule power_int_add) simp
    finally show ?thesis by (simp add: u_def)
  qed
  finally have "\<bar>x / u\<bar> < 2 ^ 53"
    using u by (simp add: abs_divide pos_divide_less_eq)
  moreover have "\<bar>of_int n - x / u\<bar> \<le> 1 / 2"
    unfolding n_def by (rule round_half_even_error)
  ultimately have "\<bar>(of_int n :: rat)\<bar> < 2 ^ 53 + 1"
    by linarith
  then have "(of_int \<bar>n\<bar> :: rat) < of_int (2 ^ 53 + 1)"
    by simp
  then have "\<bar>n\<bar> < 2 ^ 53 + 1"
    by (simp only: of_int_less_iff)
  then have "\<bar>n\<bar> \<le> 2 ^ 53" by simp
  with f show ?thesis unfolding u_def by blast
qed

lemma near_fl: "near (1 / 2 ^ 53) x (fl x)"
  using fl_error [of x] by (simp add: near_def)

lemma near_scale: "near \<epsilon> x y \<Longrightarrow> near \<epsilon> (x * c) (y * c)"
proof -
  assume a: "near \<epsilon> x y"
  have "\<bar>y * c - x * c\<bar> = \<bar>y - x\<bar> * \<bar>c\<bar>"
    by (simp add: abs_mult flip: left_diff_distrib)
  also have "\<dots> \<le> (\<epsilon> * \<bar>x\<bar>) * \<bar>c\<bar>"
    using a by (intro mult_right_mono) (simp_all add: near_def)
  finally show ?thesis by (simp add: near_def abs_mult mult.assoc)
qed

lemma near_trans:
  assumes "near \<epsilon>1 x y" "near \<epsilon>2 y z" "0 \<le> \<epsilon>1" "0 \<le> \<epsilon>2"
  shows "near (\<epsilon>1 + \<epsilon>2 + \<epsilon>1 * \<epsilon>2) x z"
proof -
  from assms(1) have y: "\<bar>y\<bar> \<le> (1 + \<epsilon>1) * \<bar>x\<bar>"
    unfolding near_def by (simp add: algebra_simps)
  have "\<bar>z - x\<bar> \<le> \<bar>z - y\<bar> + \<bar>y - x\<bar>" by simp
  also have "\<dots> \<le> \<epsilon>2 * \<bar>y\<bar> + \<epsilon>1 * \<bar>x\<bar>"
    using assms(1,2) by (simp add: near_def add_mono)
  also have "\<dots> \<le> \<epsilon>2 * ((1 + \<epsilon>1) * \<bar>x\<bar>) + \<epsilon>1 * \<bar>x\<bar>"
    using y assms(4) by (simp add: mult_left_mono)
  also have "\<dots> = (\<epsilon>1 + \<epsilon>2 + \<epsilon>1 * \<epsilon>2) * \<bar>x\<bar>"
    by (simp add: algebra_simps)
  finally show ?thesis by (simp add: near_def)
qed

lemma near_mono: "near \<epsilon> x y \<Longrightarrow> \<epsilon> \<le> \<epsilon>' \<Longrightarrow> near \<epsilon>' x y"
proof -
  assume a: "near \<epsilon> x y" "\<epsilon> \<le> \<epsilon>'"
  then have "\<epsilon> * \<bar>x\<bar> \<le> \<epsilon>' * \<bar>x\<bar>" by (simp add: mult_right_mono)
  with a(1) show ?thesis by (simp add: near_def)
qed

lemma reduction_error:
  assumes "o_size \<noteq> 0"
  shows "near (1 / 2 ^ 51) ((o_size - q_size) / o_size * 100)
           (fl (fl (fl (o_size - q_size) / o_size) * fl 100))"
proof -
  let ?u = "1 / 2 ^ 53 :: rat"
  have h: "fl 100 = 100" by code_simp
  have 1: "near ?u ((o_size - q_size) / o_size) (fl (o_size - q_size) / o_size)"
    using near_scale [OF near_fl, of "o_size - q_size" "1 / o_size"] by simp
  have 2: "near ?u (fl (o_size - q_size) / o_size) (fl (fl (o_size - q_size) / o_size))"
    by (rule near_fl)
  have 3: "near (?u + ?u + ?u * ?u) ((o_size - q_size) / o_size)
      (fl (fl (o_size - q_size) / o_size))"
    by (rule near_trans [OF 1 2]) simp_all
  have 4: "near (?u + ?u + ?u * ?u) ((o_size - q_size) / o_size * 100)
      (fl (fl (o_size - q_size) / o_size) * 100)"
    by (rule near_scale [OF 3])
  have 5: "near ?u (fl (fl (o_size - q_size) / o_size) * 100)
      (fl (fl (fl (o_size - q_size) / o_size) * 100))"
    by (rule near_fl)
  have 6: "near ((?u + ?u + ?u * ?u) + ?u + (?u + ?u + ?u * ?u) * ?u)
      ((o_size - q_size) / o_size * 100) (fl (fl (fl (o_size - q_size) / o_size) * 100))"
    by (rule near_trans [OF 4 5]) simp_all
  have "(?u + ?u + ?u * ?u) + ?u + (?u + ?u + ?u * ?u) * ?u \<le> 1 / 2 ^ 51"
    by simp
  from near_mono [OF 6 this] show ?thesis by (simp only: h)
qed

lemma record_reduction:
  assumes "quantize_to_float16 P input_path output_path s = (Inr m, s') \<or>
           quantize_to_int8 P input_path output_path s = (Inr m, s')"
  shows "(\<exists>ratio.
            float_truediv P (float_sub P (original_size_mb m) (quantized_size_mb m))
              (original_size_mb m) = Inr ratio \<and>
            reduction_percent m = float_mul_int P ratio 100) \<and>
         (binary64_floats P \<longrightarrow>
            (original_size_mb m = 100 \<and> quantized_size_mb m = 52 \<longrightarrow> reduction_percent m = 48) \<and>
            (original_size_mb m = 200 \<and> quantized_size_mb m = 100 \<longrightarrow>
               m = \<lparr>original_size_mb = 200, quantized_size_mb = 100, reduction_percent = 50\<rparr>) \<and>
            original_size_mb m \<noteq> 0 \<and>
            \<bar>reduction_percent m -
               (original_size_mb m - quantized_size_mb m) / original_size_mb m * 100\<bar> \<le>
            \<bar>(original_size_mb m - quantized_size_mb m) / original_size_mb m * 100\<bar> / 2 ^ 51)"
proof -
  from assms obtain ratio where
    r: "float_truediv P (float_sub P (original_size_mb m) (quantized_size_mb m))
          (original_size_mb m) = Inr ratio"
       "reduction_percent m = float_mul_int P ratio 100"
    using quantize_to_float16_Inr [of P input_path output_path s m s']
      quantize_to_int8_Inr [of P input_path output_path s m s']
    by blast
  have "reduction_percent m = 48"
    if b: "binary64_floats P" and v: "original_size_mb m = 100" "quantized_size_mb m = 52"
  proof -
    from b have ops: "float_truediv P = b64_truediv" "float_sub P = b64_sub"
      "float_mul_int P = b64_mul_int"
      by (simp_all add: binary64_floats_def)
    from r(1) have "Inr (1080863910568919 / 2251799813685248) = (Inr ratio :: error + rat)"
      unfolding ops v b64_examples(4) .
    then have "1080863910568919 / 2251799813685248 = ratio"
      by (simp only: sum.inject)
    then show ?thesis
      unfolding r(2) ops using b64_examples(5) by (simp only:)
  qed
  moreover have "m = \<lparr>original_size_mb = 200, quantized_size_mb = 100, reduction_percent = 50\<rparr>"
    if b: "binary64_floats P" and v: "original_size_mb m = 200" "quantized_size_mb m = 100"
  proof -
    from b have ops: "float_truediv P = b64_truediv" "float_sub P = b64_sub"
      "float_mul_int P = b64_mul_int"
      by (simp_all add: binary64_floats_def)
    from r(1) have "Inr (1 / 2) = (Inr ratio :: error + rat)"
      unfolding ops v b64_examples(6) .
    then have "1 / 2 = ratio"
      by (simp only: sum.inject)
    then have "reduction_percent m = 50"
      unfolding r(2) ops using b64_examples(7) by (simp only:)
    with v show ?thesis by (cases m) simp
  qed
  moreover have "original_size_mb m \<noteq> 0 \<and>
      \<bar>reduction_percent m -
         (original_size_mb m - quantized_size_mb m) / original_size_mb m * 100\<bar> \<le>
      \<bar>(original_size_mb m - quantized_size_mb m) / original_size_mb m * 100\<bar> / 2 ^ 51"
    if b: "binary64_floats P"
  proof -
    from b have ops: "float_truediv P = b64_truediv" "float_sub P = b64_sub"
      "float_mul_int P = b64_mul_int"
      by (simp_all add: binary64_floats_def)
    from r(1) have nz: "original_size_mb m \<noteq> 0"
      and ratio: "ratio = fl (fl (original_size_mb m - quantized_size_mb m) / original_size_mb m)"
      unfolding ops by (auto simp add: b64_truediv_def b64_sub_def split: if_splits)
    have "reduction_percent m =
        fl (fl (fl (original_size_mb m - quantized_size_mb m) / original_size_mb m) * fl 100)"
      unfolding r(2) ops ratio by (simp add: b64_mul_int_def)
    with reduction_error [OF nz, of "quantized_size_mb m"] nz show ?thesis
      by (simp add: near_def)
  qed
  ultimately show ?thesis using r by blast
qed

lemma example_loads:
  "ct_MLModel example_platform (world example_state) ''kokoro.mlpackage'' = Inr relu_model"
  "ct_MLModel example_platform (world example_state) ''missing.mlpackage'' =
     Inl (LibraryError ''model not found'')"
  "ct_convert example_platform (world example_state) ''missing.onnx'' iOS17 =
     Inl (LibraryError ''cannot read the ONNX file'')"
  by (simp_all add: example_platform_def example_state_def example_world_def)

lemma example_floats: "binary64_floats example_platform"
  by (simp add: binary64_floats_def example_platform_def)

lemma example_sizes:
  "get_model_size_mb example_platform example_world ''kokoro.mlpackage'' = 100"
  "get_model_size_mb example_platform (example_world(''kokoro_fp16.mlpackage'' := [54525952]))
     ''kokoro_fp16.mlpackage'' = 52"
proof -
  have "sum_list (walk_sizes example_platform example_world ''kokoro.mlpackage'') = 104857600"
    by (simp add: example_platform_def example_world_def)
  then show "get_model_size_mb example_platform example_world ''kokoro.mlpackage'' = 100"
    using b64_examples(1) by (simp add: get_model_size_mb_def example_platform_def)
  have "sum_list (walk_sizes example_platform
      (example_world(''kokoro_fp16.mlpackage'' := [54525952])) ''kokoro_fp16.mlpackage'') = 54525952"
    by (simp add: example_platform_def)
  then show "get_model_size_mb example_platform
      (example_world(''kokoro_fp16.mlpackage'' := [54525952])) ''kokoro_fp16.mlpackage'' = 52"
    using b64_examples(2) by (simp add: get_model_size_mb_def example_platform_def)
qed

lemma example_ops:
  "int_truediv example_platform = b64_int_truediv"
  "float_sub example_platform = b64_sub"
  "float_truediv example_platform = b64_truediv"
  "float_mul_int example_platform = b64_mul_int"
  "walk_sizes example_platform = (\<lambda>w p. w p)"
  "model_save example_platform = (\<lambda>w m p. (Inr (), w(p := [54525952])))"
  "library_quantize example_platform prec relu_model = Inr relu_model"
  by (simp_all add: example_platform_def library_quantize_def)

lemma halving_ops:
  "int_truediv halving_platform = b64_int_truediv"
  "float_sub halving_platform = b64_sub"
  "float_truediv halving_platform = b64_truediv"
  "float_mul_int halving_platform = b64_mul_int"
  "walk_sizes halving_platform = (\<lambda>w p. w p)"
  "model_save halving_platform = (\<lambda>w m p. (Inr (), w(p := [104857600])))"
  "library_quantize halving_platform prec relu_model = Inr relu_model"
  "ct_MLModel halving_platform =
     (\<lambda>w p. if w p = [] then Inl (LibraryError ''model not found'') else Inr relu_model)"
  by (simp_all add: halving_platform_def example_platform_def library_quantize_def)

lemma single_file_ops:
  "int_truediv single_file_platform = b64_int_truediv"
  "float_sub single_file_platform = b64_sub"
  "float_truediv single_file_platform = b64_truediv"
  "float_mul_int single_file_platform = b64_mul_int"
  "walk_sizes single_file_platform = (\<lambda>w p. w p)"
  "model_save single_file_platform = (\<lambda>w m p. (Inr (), w(p := [54525952])))"
  "library_quantize single_file_platform prec relu_model = Inr relu_model"
  "ct_MLModel single_file_platform = (\<lambda>w p. Inr relu_model)"
  by (simp_all add: single_file_platform_def example_platform_def library_quantize_def)

lemma size_mb_cases:
  assumes "int_truediv P = b64_int_truediv"
  shows "sum_list (walk_sizes P w p) = 104857600 \<Longrightarrow> get_model_size_mb P w p = 100"
    and "sum_list (walk_sizes P w p) = 54525952 \<Longrightarrow> get_model_size_mb P w p = 52"
    and "sum_list (walk_sizes P w p) = 209715200 \<Longrightarrow> get_model_size_mb P w p = 200"
    and "sum_list (walk_sizes P w p) = 0 \<Longrightarrow> get_model_size_mb P w p = 0"
  using b64_examples(1-3) by (simp_all add: get_model_size_mb_def assms b64_int_truediv_def fl_def)

lemma unloadable_loads:
  "ct_MLModel unloadable_platform w ''kokoro.mlpackage'' = Inr relu_model"
  "ct_MLModel unloadable_platform w ''kokoro_fp16.mlpackage'' =
     Inl (LibraryError ''cannot load the quantized model'')"
  by (simp_all add: unloadable_platform_def)

lemma unloadable_fields:
  "walk_sizes unloadable_platform = walk_sizes example_platform"
  "int_truediv unloadable_platform = int_truediv example_platform"
  "float_truediv unloadable_platform = b64_truediv"
  "float_sub unloadable_platform = b64_sub"
  "model_save unloadable_platform = model_save example_platform"
  "library_quantize unloadable_platform = library_quantize example_platform"
  by (simp_all add: unloadable_platform_def example_platform_def library_quantize_def fun_eq_iff)

lemma unloadable_sizes:
  "get_model_size_mb unloadable_platform = get_model_size_mb example_platform"
  by (simp add: get_model_size_mb_def unloadable_fields fun_eq_iff)

section \<open>The analyzer: properties\<close>

text \<open>
  C1 (as amended).  In the program path every operation whose lower-cased type is in the
  problematic set appends the warning naming it, and every operation whose lower-cased
  type contains \<open>custom\<close> appends the blocking issue naming it and clears the verdict.  In
  the network path (when every layer has its type set, so that the loop ends) the warning
  is appended under the same test, but the blocking issue is appended, and the verdict
  cleared, exactly for the layers whose type is the string \<open>custom\<close> itself.
\<close>

theorem C1_classification:
  "warnings (analyze_mlprogram_ops spec r) =
     warnings r @
       map op_warning (filter (\<lambda>op. lower op \<in> ANE_PROBLEMATIC_OPS) (program_ops spec)) \<and>
   blocking_issues (analyze_mlprogram_ops spec r) =
     blocking_issues r @
       map custom_issue (filter (\<lambda>op. str_in ''custom'' (lower op)) (program_ops spec)) \<and>
   ane_compatible (analyze_mlprogram_ops spec r) =
     (ane_compatible r \<and> \<not> list_ex (\<lambda>op. str_in ''custom'' (lower op)) (program_ops spec)) \<and>
   (map layer_which (neuralNetwork spec) = map Some ts \<longrightarrow>
      (\<exists>r'. analyze_neural_network_ops spec r = Inr r' \<and>
         warnings r' =
           warnings r @
             map (\<lambda>(l, t). layer_warning (layer_name l) t)
               (filter (\<lambda>(l, t). lower t \<in> ANE_PROBLEMATIC_OPS) (zip (neuralNetwork spec) ts)) \<and>
         blocking_issues r' =
           blocking_issues r @
             map (\<lambda>l. custom_issue (layer_name l))
               (filter (\<lambda>l. layer_which l = Some ''custom'') (neuralNetwork spec)) \<and>
         ane_compatible r' = (ane_compatible r \<and> ''custom'' \<notin> set ts)))"
proof -
  have "map layer_which (neuralNetwork spec) = map Some ts \<Longrightarrow>
      (\<exists>r'. analyze_neural_network_ops spec r = Inr r' \<and>
         warnings r' =
           warnings r @
             map (\<lambda>(l, t). layer_warning (layer_name l) t)
               (filter (\<lambda>(l, t). lower t \<in> ANE_PROBLEMATIC_OPS) (zip (neuralNetwork spec) ts)) \<and>
         blocking_issues r' =
           blocking_issues r @
             map (\<lambda>l. custom_issue (layer_name l))
               (filter (\<lambda>l. layer_which l = Some ''custom'') (neuralNetwork spec)) \<and>
         ane_compatible r' = (ane_compatible r \<and> ''custom'' \<notin> set ts))"
    using nn_layers_typed [of "neuralNetwork spec" ts r]
    unfolding analyze_neural_network_ops_def by blast
  then show ?thesis
    by (simp add: analyze_mlprogram_ops_foldl foldl_mlprogram_op_fields)
qed

theorem C1_classification_witness:
  "warnings (analyze_mlprogram_ops mixed_spec (init_results ''m'')) = [op_warning ''Einsum''] \<and>
   blocking_issues (analyze_mlprogram_ops mixed_spec (init_results ''m'')) =
     [custom_issue ''Custom_Attention''] \<and>
   \<not> ane_compatible (analyze_mlprogram_ops mixed_spec (init_results ''m'')) \<and>
   map layer_which (neuralNetwork mixed_spec) = map Some [''custom'', ''einsum''] \<and>
   (\<exists>r'. analyze_neural_network_ops mixed_spec (init_results ''m'') = Inr r' \<and>
      warnings r' = [layer_warning ''l0'' ''custom'', layer_warning ''l1'' ''einsum''] \<and>
      blocking_issues r' = [custom_issue ''l0''] \<and>
      \<not> ane_compatible r')"
  using C1_classification [of mixed_spec "init_results ''m''" "[''custom'', ''einsum'']"]
  by (simp add: mixed_spec_def init_results_def program_ops_def lower_def lower_char_def
      ANE_PROBLEMATIC_OPS_def)

text \<open>
  C1 as stated fails in the network path: a layer of type \<open>customLayer\<close> contains
  \<open>custom\<close> once lower-cased, yet no blocking issue is recorded and the verdict stays true.
\<close>

theorem C1_counterexample:
  "str_in ''custom'' (lower ''customLayer'') \<and>
   (\<exists>r'. analyze_neural_network_ops
           \<lparr>which_type = Some ''neuralNetwork'', mlProgram = [],
            neuralNetwork = [\<lparr>layer_name = ''l0'', layer_which = Some ''customLayer''\<rparr>]\<rparr>
           (init_results ''m'') = Inr r' \<and>
         blocking_issues r' = [] \<and> ane_compatible r')"
  by (simp add: analyze_neural_network_ops_def neural_network_layer_def init_results_def
      lower_def lower_char_def ANE_PROBLEMATIC_OPS_def Let_def)

text \<open>
  C2.  The verdict starts true; once false it stays false through every operation and
  layer and through both loops; and in the result of an analysis it is false exactly when
  the list of blocking issues is not empty.
\<close>

theorem C2_verdict:
  "ane_compatible (init_results path) \<and>
   (\<not> ane_compatible r \<longrightarrow> \<not> ane_compatible (mlprogram_op r op)) \<and>
   (\<not> ane_compatible r \<longrightarrow> \<not> ane_compatible (analyze_mlprogram_ops spec r)) \<and>
   (\<not> ane_compatible r \<longrightarrow> neural_network_layer r l = Inr r' \<longrightarrow> \<not> ane_compatible r') \<and>
   (\<not> ane_compatible r \<longrightarrow> analyze_neural_network_ops spec r = Inr r'' \<longrightarrow> \<not> ane_compatible r'') \<and>
   (analyze_ml_program MLModel path = Inr res \<longrightarrow>
      (\<not> ane_compatible res) = (blocking_issues res \<noteq> []))"
proof -
  have "analyze_ml_program MLModel path = Inr res \<Longrightarrow>
      (\<not> ane_compatible res) = (blocking_issues res \<noteq> [])"
    by (auto simp add: analyze_ml_program_phases shapes_phase_def verdict_inv_def
        split: sum.splits dest!: verdict_inv_ops_phase)
  then show ?thesis
    by (auto simp add: init_results_def mlprogram_op_fields analyze_mlprogram_ops_foldl
        foldl_mlprogram_op_fields analyze_neural_network_ops_def
        dest: monotone_layer monotone_nn_layers)
qed

theorem C2_verdict_witness:
  "ane_compatible (init_results ''m.mlpackage'') \<and>
   \<not> ane_compatible blocked_results \<and>
   \<not> ane_compatible (mlprogram_op blocked_results ''relu'') \<and>
   \<not> ane_compatible (analyze_mlprogram_ops mixed_spec blocked_results) \<and>
   (\<exists>r'. neural_network_layer blocked_results einsum_layer = Inr r' \<and> \<not> ane_compatible r') \<and>
   (\<exists>r''. analyze_neural_network_ops mixed_spec blocked_results = Inr r'' \<and> \<not> ane_compatible r'') \<and>
   (\<exists>res. analyze_ml_program (\<lambda>p. Inr custom_model) ''m.mlpackage'' = Inr res \<and>
      blocking_issues res \<noteq> [] \<and> \<not> ane_compatible res)"
proof -
  have b: "\<not> ane_compatible blocked_results"
    by (simp add: blocked_results_def)
  obtain r' where r': "neural_network_layer blocked_results einsum_layer = Inr r'"
    by (simp add: neural_network_layer_Some [of _ "''einsum''"] einsum_layer_def)
  have ts: "map layer_which (neuralNetwork mixed_spec) = map Some [''custom'', ''einsum'']"
    by (simp add: mixed_spec_def)
  obtain r'' where r'': "analyze_neural_network_ops mixed_spec blocked_results = Inr r''"
    using nn_layers_typed [OF ts, of blocked_results]
    by (auto simp add: analyze_neural_network_ops_def)
  have ts': "map layer_which (neuralNetwork (get_spec custom_model)) =
      map Some [''custom'', ''einsum'']"
    by (simp add: custom_model_def einsum_layer_def)
  obtain r1 where r1:
    "nn_layers ((init_results ''m.mlpackage'')\<lparr>format := ''neuralNetwork''\<rparr>)
       (neuralNetwork (get_spec custom_model)) = Inr r1"
    "blocking_issues r1 =
       blocking_issues ((init_results ''m.mlpackage'')\<lparr>format := ''neuralNetwork''\<rparr>) @
       map (\<lambda>l. custom_issue (layer_name l))
         (filter (\<lambda>l. layer_which l = Some ''custom'') (neuralNetwork (get_spec custom_model)))"
    using nn_layers_typed [OF ts', of "(init_results ''m.mlpackage'')\<lparr>format := ''neuralNetwork''\<rparr>"]
    by blast
  have wt: "which_type (get_spec custom_model) = Some ''neuralNetwork''"
    by (simp add: custom_model_def)
  define res where "res = (shapes_phase custom_model r1)
      \<lparr>recommendations := generate_recommendations (shapes_phase custom_model r1)\<rparr>"
  have res: "analyze_ml_program (\<lambda>p. Inr custom_model) ''m.mlpackage'' = Inr res"
    by (simp add: analyze_ml_program_phases ops_phase_def wt analyze_neural_network_ops_def
        r1(1) res_def)
  have bl: "blocking_issues res \<noteq> []"
    unfolding res_def shapes_phase_def using r1(2)
    by (simp add: custom_model_def)
  from C2_verdict [of "''m.mlpackage''" blocked_results "''relu''" mixed_spec einsum_layer r' r''
      "\<lambda>p. Inr custom_model" res] b r' r'' res bl
  show ?thesis by blast
qed

text \<open>
  C3 (as amended).  A model whose operators all come from the optimized set is analysed
  without error, with no warning, no blocking issue and a true verdict.  Its
  recommendations are the single well-optimized message exactly when it has none of
  \<open>conv\<close>, \<open>conv2d\<close>, \<open>depthwise_conv2d\<close>, \<open>conv_transpose\<close>, \<open>linear\<close>, \<open>matmul\<close> and,
  if it has \<open>softmax\<close>, no recorded input shape of two or more dimensions has a dimension
  above 2048.
\<close>

theorem C3_optimized_only:
  assumes "MLModel path = Inr model"
    and "set (model_operators (get_spec model)) \<subseteq> Some ` ANE_OPTIMIZED_OPS"
  shows "\<exists>res. analyze_ml_program MLModel path = Inr res \<and>
           warnings res = [] \<and> blocking_issues res = [] \<and> ane_compatible res \<and>
           (recommendations res = [rec_well_optimized] \<longleftrightarrow>
              set (model_operators (get_spec model)) \<inter>
                Some ` {''conv'', ''conv2d'', ''depthwise_conv2d'', ''conv_transpose'',
                        ''linear'', ''matmul''} = {} \<and>
              (Some ''softmax'' \<in> set (model_operators (get_spec model)) \<longrightarrow>
                 (\<forall>(nm, shape)\<in>set (input_shapes res).
                    2 \<le> length shape \<longrightarrow> Max (set shape) \<le> 2048)))"
proof -
  from ops_phase_optimized [OF assms(2), of path] obtain r1 where
    r1: "ops_phase (get_spec model) path = Inr r1" "warnings r1 = []" "blocking_issues r1 = []"
      "ane_compatible r1"
      "Some ` fst ` set (operations r1) = set (model_operators (get_spec model))"
    by blast
  define r3 where "r3 = shapes_phase model r1"
  define res where "res = r3\<lparr>recommendations := generate_recommendations r3\<rparr>"
  have res: "analyze_ml_program MLModel path = Inr res"
    using assms(1) r1(1) by (simp add: analyze_ml_program_phases res_def r3_def)
  have f: "warnings r3 = []" "blocking_issues r3 = []" "ane_compatible r3"
    "operations r3 = operations r1"
    using r1(2-4) by (simp_all add: r3_def shapes_phase_def)
  have keys: "Some ` fst ` set (operations r3) = set (model_operators (get_spec model))"
    using r1(5) f(4) by simp
  have sub: "fst ` set (operations r3) \<subseteq> ANE_OPTIMIZED_OPS"
    using assms(2) unfolding keys [symmetric] by (simp add: inj_image_subset_iff)
  have k1: "(fst ` set (operations r3) \<inter> S = {}) =
      (set (model_operators (get_spec model)) \<inter> Some ` S = {})" for S
    unfolding keys [symmetric] by (simp add: image_Int [symmetric])
  have k2: "(''softmax'' \<in> fst ` set (operations r3)) =
      (Some ''softmax'' \<in> set (model_operators (get_spec model)))"
    unfolding keys [symmetric] by (simp add: inj_image_mem_iff)
  have fin: "recommendations res = generate_recommendations r3"
    "input_shapes res = input_shapes r3"
    "warnings res = []" "blocking_issues res = []" "ane_compatible res"
    using f by (simp_all add: res_def)
  have iff: "recommendations res = [rec_well_optimized] \<longleftrightarrow>
      set (model_operators (get_spec model)) \<inter>
        Some ` {''conv'', ''conv2d'', ''depthwise_conv2d'', ''conv_transpose'',
                ''linear'', ''matmul''} = {} \<and>
      (Some ''softmax'' \<in> set (model_operators (get_spec model)) \<longrightarrow>
         (\<forall>(nm, shape)\<in>set (input_shapes res).
            2 \<le> length shape \<longrightarrow> Max (set shape) \<le> 2048))"
    unfolding fin(1,2) k1 [symmetric] k2 [symmetric]
    by (rule generate_recommendations_optimized [OF f(3) f(1) sub])
  show ?thesis
  proof (rule exI [of _ res], intro conjI)
    show "analyze_ml_program MLModel path = Inr res" by (fact res)
    show "warnings res = []" by (fact fin(3))
    show "blocking_issues res = []" by (fact fin(4))
    show "ane_compatible res" by (fact fin(5))
  qed (fact iff)
qed

theorem C3_optimized_only_witness:
  "set (model_operators (get_spec relu_model)) \<subseteq> Some ` ANE_OPTIMIZED_OPS \<and>
   (\<exists>res. analyze_ml_program (\<lambda>p. Inr relu_model) ''m.mlpackage'' = Inr res \<and>
      warnings res = [] \<and> blocking_issues res = [] \<and> ane_compatible res \<and>
      recommendations res = [rec_well_optimized])"
proof -
  have ops: "model_operators (get_spec relu_model) = [Some ''relu'', Some ''add'', Some ''relu'']"
    by (simp add: relu_model_def model_operators_def program_ops_def)
  have h: "set (model_operators (get_spec relu_model)) \<subseteq> Some ` ANE_OPTIMIZED_OPS"
    unfolding ops by (simp add: ANE_OPTIMIZED_OPS_def)
  show ?thesis
    using h C3_optimized_only [of "\<lambda>p. Inr relu_model" "''m.mlpackage''" relu_model, OF refl h]
    unfolding ops by auto
qed

text \<open>
  C3 as stated fails: a program of \<open>conv2d\<close> and \<open>relu\<close>, both in the optimized set, gets
  the Float16 and the channel-alignment recommendations, and a program of \<open>softmax\<close> with
  an input of shape (1, 4096) gets the sequence-length recommendation, not the
  well-optimized message.
\<close>

theorem C3_counterexample:
  "set (model_operators (get_spec conv_model)) \<subseteq> Some ` ANE_OPTIMIZED_OPS \<and>
   (\<exists>res. analyze_ml_program (\<lambda>p. Inr conv_model) ''m.mlpackage'' = Inr res \<and>
      recommendations res = [rec_float16, rec_conv] \<and>
      recommendations res \<noteq> [rec_well_optimized]) \<and>
   set (model_operators (get_spec softmax_model)) \<subseteq> Some ` ANE_OPTIMIZED_OPS \<and>
   (\<exists>res. analyze_ml_program (\<lambda>p. Inr softmax_model) ''m.mlpackage'' = Inr res \<and>
      recommendations res = [rec_seq_len 4096] \<and>
      recommendations res \<noteq> [rec_well_optimized])"
proof -
  have spec: "which_type (get_spec conv_model) = Some ''mlProgram''"
    "input_description conv_model = []" "output_description conv_model = []"
    by (simp_all add: conv_model_def)
  have ops: "program_ops (get_spec conv_model) = [''conv2d'', ''relu'']"
    by (simp add: conv_model_def program_ops_def)
  have low: "lower ''conv2d'' = ''conv2d''" "lower ''relu'' = ''relu''"
    "lower ''softmax'' = ''softmax''"
    by code_simp+
  define r1 where "r1 = analyze_mlprogram_ops (get_spec conv_model)
      ((init_results ''m.mlpackage'')\<lparr>format := ''mlprogram''\<rparr>)"
  define r3 where "r3 = shapes_phase conv_model r1"
  have f: "ane_compatible r3" "warnings r3 = []"
    "map fst (operations r3) = [''conv2d'', ''relu'']"
    unfolding r3_def r1_def analyze_mlprogram_ops_foldl ops shapes_phase_def
    by (simp_all add: mlprogram_op_fields init_results_def low ANE_PROBLEMATIC_OPS_def
        count_op_def)
  have g: "generate_recommendations r3 = [rec_float16, rec_conv]"
    unfolding generate_recommendations_def using f by (simp add: low)
  have run: "analyze_ml_program (\<lambda>p. Inr conv_model) ''m.mlpackage'' =
      Inr (r3\<lparr>recommendations := generate_recommendations r3\<rparr>)"
    by (simp add: analyze_ml_program_phases ops_phase_def spec r3_def r1_def)
  have sub: "set (model_operators (get_spec conv_model)) \<subseteq> Some ` ANE_OPTIMIZED_OPS"
    by (simp add: model_operators_def spec ops ANE_OPTIMIZED_OPS_def)
  have spec': "which_type (get_spec softmax_model) = Some ''mlProgram''"
    "input_description softmax_model =
       [\<lparr>desc_name = ''input_ids'', desc_type = Some (FeatureType (Some [1, 4096]))\<rparr>]"
    "output_description softmax_model = []"
    by (simp_all add: softmax_model_def)
  have ops': "program_ops (get_spec softmax_model) = [''softmax'']"
    by (simp add: softmax_model_def program_ops_def)
  define q1 where "q1 = analyze_mlprogram_ops (get_spec softmax_model)
      ((init_results ''m.mlpackage'')\<lparr>format := ''mlprogram''\<rparr>)"
  define q3 where "q3 = shapes_phase softmax_model q1"
  have f': "ane_compatible q3" "warnings q3 = []"
    "map fst (operations q3) = [''softmax'']"
    "input_shapes q3 = [(''input_ids'', [1, 4096])]"
    unfolding q3_def q1_def analyze_mlprogram_ops_foldl ops' shapes_phase_def spec'
    by (simp_all add: mlprogram_op_fields init_results_def low ANE_PROBLEMATIC_OPS_def
        count_op_def record_shape_def)
  have g': "generate_recommendations q3 = [rec_seq_len 4096]"
    unfolding generate_recommendations_def using f'
    by (simp add: low max_sequence_length_def ANE_CONSTRAINTS_def)
  have ne: "rec_seq_len 4096 \<noteq> rec_well_optimized"
    by (simp add: rec_seq_len_def rec_well_optimized_def)
  have run': "analyze_ml_program (\<lambda>p. Inr softmax_model) ''m.mlpackage'' =
      Inr (q3\<lparr>recommendations := generate_recommendations q3\<rparr>)"
    by (simp add: analyze_ml_program_phases ops_phase_def spec'(1) q3_def q1_def)
  have sub': "set (model_operators (get_spec softmax_model)) \<subseteq> Some ` ANE_OPTIMIZED_OPS"
    by (simp add: model_operators_def spec' ops' ANE_OPTIMIZED_OPS_def)
  have c1: "\<exists>res. analyze_ml_program (\<lambda>p. Inr conv_model) ''m.mlpackage'' = Inr res \<and>
      recommendations res = [rec_float16, rec_conv] \<and>
      recommendations res \<noteq> [rec_well_optimized]"
    by (rule exI [of _ "r3\<lparr>recommendations := generate_recommendations r3\<rparr>"])
       (simp add: run g)
  have c2: "\<exists>res. analyze_ml_program (\<lambda>p. Inr softmax_model) ''m.mlpackage'' = Inr res \<and>
      recommendations res = [rec_seq_len 4096] \<and>
      recommendations res \<noteq> [rec_well_optimized]"
    by (rule exI [of _ "q3\<lparr>recommendations := generate_recommendations q3\<rparr>"])
       (simp add: run' g' ne)
  from sub c1 sub' c2 show ?thesis by (intro conjI)
qed

text \<open>
  C8.  The input (output) shape mapping of a result holds, for each name, the shape of the
  last declared input (output) of that name whose multi-array variant is present, and
  nothing for the others.  The declared inputs and outputs change neither whether the
  analysis raises nor its warnings, blocking issues and verdict: these are those of the
  same model without any declared input or output.
\<close>

theorem C8_shapes:
  assumes "MLModel path = Inr model"
  shows "(analyze_ml_program MLModel path = Inl e \<longleftrightarrow>
            analyze_ml_program (\<lambda>p. Inr (without_io model)) path = Inl e) \<and>
         (analyze_ml_program MLModel path = Inr res \<longrightarrow>
            map_of (input_shapes res) =
              map_of (rev (List.map_filter declared_shape (input_description model))) \<and>
            map_of (output_shapes res) =
              map_of (rev (List.map_filter declared_shape (output_description model))) \<and>
            (\<exists>res0. analyze_ml_program (\<lambda>p. Inr (without_io model)) path = Inr res0 \<and>
               warnings res = warnings res0 \<and>
               blocking_issues res = blocking_issues res0 \<and>
               ane_compatible res = ane_compatible res0))"
proof -
  have "analyze_ml_program MLModel path = Inr res \<Longrightarrow>
      map_of (input_shapes res) =
        map_of (rev (List.map_filter declared_shape (input_description model))) \<and>
      map_of (output_shapes res) =
        map_of (rev (List.map_filter declared_shape (output_description model)))"
    using assms
    by (auto simp add: analyze_ml_program_phases shapes_phase_def map_of_foldl_record_shape
        split: sum.splits dest!: ops_phase_shapes)
  then show ?thesis
    using assms
    by (auto simp add: analyze_ml_program_phases shapes_phase_def without_io_def
        split: sum.splits)
qed

theorem C8_shapes_witness:
  "(\<lambda>p. Inr relu_model) ''m.mlpackage'' = Inr relu_model \<and>
   analyze_ml_program (\<lambda>p. Inr (without_io relu_model)) ''m.mlpackage'' \<noteq> Inl ZeroDivisionError \<and>
   (\<exists>res. analyze_ml_program (\<lambda>p. Inr relu_model) ''m.mlpackage'' = Inr res \<and>
      map_of (input_shapes res) = map_of [(''x'', [1, 4096])] \<and>
      map_of (output_shapes res) = map_of [] \<and>
      (\<exists>res0. analyze_ml_program (\<lambda>p. Inr (without_io relu_model)) ''m.mlpackage'' = Inr res0 \<and>
         warnings res = warnings res0 \<and>
         blocking_issues res = blocking_issues res0 \<and>
         ane_compatible res = ane_compatible res0))"
proof -
  have wt: "which_type (get_spec relu_model) = Some ''mlProgram''"
    by (simp add: relu_model_def)
  obtain res where res: "analyze_ml_program (\<lambda>p. Inr relu_model) ''m.mlpackage'' = Inr res"
    by (simp add: analyze_ml_program_phases ops_phase_def wt)
  have d: "List.map_filter declared_shape (input_description relu_model) = [(''x'', [1, 4096])]"
    "List.map_filter declared_shape (output_description relu_model) = []"
    by (simp_all add: relu_model_def List.map_filter_simps declared_shape_def)
  have "analyze_ml_program (\<lambda>p. Inr relu_model) ''m.mlpackage'' \<noteq> Inl ZeroDivisionError"
    using res by simp
  with C8_shapes [of "\<lambda>p. Inr relu_model" "''m.mlpackage''" relu_model ZeroDivisionError res,
      OF refl] res d
  show ?thesis by simp
qed

text \<open>
  C7.  The dictionary an analysis returns is read back unchanged from its JSON form: every
  key is a string, every value a string, a boolean, an integer, a list or a dictionary of
  these, and no key occurs twice in a dictionary.  The dictionary determines the result
  record, so the record read back is equal to the original in all its fields.
\<close>

theorem C7_json_roundtrip:
  assumes "analyze_ml_program MLModel path = Inr r"
  shows "json_roundtrip (results_dict r) = Some (results_dict r) \<and>
         (results_dict r' = results_dict r \<longrightarrow> r' = r)"
  using results_dict_roundtrip [OF analysis_distinct [OF assms]] results_dict_inj
  by blast

theorem C7_json_roundtrip_witness:
  "\<exists>r. analyze_ml_program (\<lambda>p. Inr relu_model) ''m.mlpackage'' = Inr r \<and>
       json_roundtrip (results_dict r) = Some (results_dict r)"
proof -
  have wt: "which_type (get_spec relu_model) = Some ''mlProgram''"
    by (simp add: relu_model_def)
  obtain r where r: "analyze_ml_program (\<lambda>p. Inr relu_model) ''m.mlpackage'' = Inr r"
    by (simp add: analyze_ml_program_phases ops_phase_def wt)
  from C7_json_roundtrip [OF r] r show ?thesis by blast
qed

section \<open>The reducer: properties\<close>

text \<open>
  C4 (as amended).  In \<open>validate_quantized_model\<close>, once both models are loaded, an
  exception raised by either prediction or by the comparison of the audio outputs (by
  flattening either of them or by the maximum of the errors) is
  caught: the function prints the warning line for it and returns \<open>None\<close>.  An exception
  raised by loading either model at the start of \<open>validate_quantized_model\<close> leaves the
  function.  In \<open>main\<close>, a failure to load the input, to quantize, to save or to convert
  leaves \<open>main\<close>, which ends the process.
\<close>

theorem C4_failures:
  "(ct_MLModel P (world s) original_path = Inr original \<longrightarrow>
    ct_MLModel P (world s) quantized_path = Inr quantized \<longrightarrow>
      (model_predict P (world s) original = Inl e \<longrightarrow>
         validate_quantized_model P original_path quantized_path s =
           (Inr None, s\<lparr>stdout := stdout s @ [validating_line, validation_warning e]\<rparr>)) \<and>
      (model_predict P (world s) original = Inr orig_output \<longrightarrow>
       model_predict P (world s) quantized = Inl e \<longrightarrow>
         validate_quantized_model P original_path quantized_path s =
           (Inr None, s\<lparr>stdout := stdout s @ [validating_line, validation_warning e]\<rparr>)) \<and>
      (model_predict P (world s) original = Inr orig_output \<longrightarrow>
       model_predict P (world s) quantized = Inr quant_output \<longrightarrow>
       map_of orig_output ''audio'' = Some orig_out \<longrightarrow>
       map_of quant_output ''audio'' = Some quant_out \<longrightarrow>
         (np_flatten P orig_out = Inl e \<longrightarrow>
            validate_quantized_model P original_path quantized_path s =
              (Inr None, s\<lparr>stdout := stdout s @ [validating_line, validation_warning e]\<rparr>)) \<and>
         (np_flatten P orig_out = Inr xs \<longrightarrow>
          np_flatten P quant_out = Inl e \<longrightarrow>
            validate_quantized_model P original_path quantized_path s =
              (Inr None, s\<lparr>stdout := stdout s @ [validating_line, validation_warning e]\<rparr>)) \<and>
         (np_flatten P orig_out = Inr xs \<longrightarrow>
          np_flatten P quant_out = Inr ys \<longrightarrow>
          np_max P (map (np_abs P)
            (map2 (np_sub P) (take (min (length xs) (length ys)) xs)
               (take (min (length xs) (length ys)) ys))) = Inl e \<longrightarrow>
            validate_quantized_model P original_path quantized_path s =
              (Inr None, s\<lparr>stdout := stdout s @ [validating_line, validation_warning e]\<rparr>)))) \<and>
   (ct_MLModel P (world s) original_path = Inl e \<longrightarrow>
      validate_quantized_model P original_path quantized_path s =
        (Inl e, s\<lparr>stdout := stdout s @ [validating_line]\<rparr>)) \<and>
   (ct_MLModel P (world s) original_path = Inr original \<longrightarrow>
    ct_MLModel P (world s) quantized_path = Inl e \<longrightarrow>
      validate_quantized_model P original_path quantized_path s =
        (Inl e, s\<lparr>stdout := stdout s @ [validating_line]\<rparr>)) \<and>
   (\<not> args_from_onnx a \<longrightarrow>
      (ct_MLModel P (world s) (args_input a) = Inl e \<longrightarrow> fst (main P a s) = Inl e) \<and>
      (ct_MLModel P (world s) (args_input a) = Inr model \<longrightarrow>
         (library_quantize P (args_precision a) model = Inl e \<longrightarrow> fst (main P a s) = Inl e) \<and>
         (library_quantize P (args_precision a) model = Inr qm \<longrightarrow>
          model_save P (world s) qm (args_output a) = (Inl e, w) \<longrightarrow>
            fst (main P a s) = Inl e))) \<and>
   (args_from_onnx a \<longrightarrow>
      (ct_convert P (world s) (args_input a)
         (case map_of target_map (args_target a) of None \<Rightarrow> iOS16 | Some t \<Rightarrow> t) = Inl e \<longrightarrow>
       fst (main P a s) = Inl e) \<and>
      (ct_convert P (world s) (args_input a)
         (case map_of target_map (args_target a) of None \<Rightarrow> iOS16 | Some t \<Rightarrow> t) = Inr model \<longrightarrow>
       model_save P (world s) model (args_output a) = (Inl e, w) \<longrightarrow>
       fst (main P a s) = Inl e))"
proof -
  have v: "ct_MLModel P (world s) original_path = Inr original \<Longrightarrow>
      ct_MLModel P (world s) quantized_path = Inr quantized \<Longrightarrow>
      validate_try P original quantized (py_print validating_line s) =
        (Inl e, py_print validating_line s) \<Longrightarrow>
      validate_quantized_model P original_path quantized_path s =
        (Inr None, s\<lparr>stdout := stdout s @ [validating_line, validation_warning e]\<rparr>)"
    by (rule validate_caught)
  have t1: "model_predict P (world s) original = Inl e \<Longrightarrow>
      validate_try P original quantized (py_print validating_line s) =
        (Inl e, py_print validating_line s)"
    by (simp add: validate_try_raises(1))
  have t2: "model_predict P (world s) original = Inr orig_output \<Longrightarrow>
      model_predict P (world s) quantized = Inl e \<Longrightarrow>
      validate_try P original quantized (py_print validating_line s) =
        (Inl e, py_print validating_line s)"
    by (simp add: validate_try_raises(2))
  have c: "model_predict P (world s) original = Inr orig_output \<Longrightarrow>
      model_predict P (world s) quantized = Inr quant_output \<Longrightarrow>
      map_of orig_output ''audio'' = Some orig_out \<Longrightarrow>
      map_of quant_output ''audio'' = Some quant_out \<Longrightarrow>
      validate_try P original quantized (py_print validating_line s) =
        compare_audio P orig_out quant_out (py_print validating_line s)"
    by (simp add: validate_try_raises(3))
  have t3: "model_predict P (world s) original = Inr orig_output \<Longrightarrow>
      model_predict P (world s) quantized = Inr quant_output \<Longrightarrow>
      map_of orig_output ''audio'' = Some orig_out \<Longrightarrow>
      map_of quant_output ''audio'' = Some quant_out \<Longrightarrow>
      np_flatten P orig_out = Inl e \<Longrightarrow>
      validate_try P original quantized (py_print validating_line s) =
        (Inl e, py_print validating_line s)"
    by (simp add: c compare_audio_raises(1))
  have t4: "model_predict P (world s) original = Inr orig_output \<Longrightarrow>
      model_predict P (world s) quantized = Inr quant_output \<Longrightarrow>
      map_of orig_output ''audio'' = Some orig_out \<Longrightarrow>
      map_of quant_output ''audio'' = Some quant_out \<Longrightarrow>
      np_flatten P orig_out = Inr xs \<Longrightarrow>
      np_flatten P quant_out = Inl e \<Longrightarrow>
      validate_try P original quantized (py_print validating_line s) =
        (Inl e, py_print validating_line s)"
    by (simp add: c compare_audio_raises(2))
  have t5: "model_predict P (world s) original = Inr orig_output \<Longrightarrow>
      model_predict P (world s) quantized = Inr quant_output \<Longrightarrow>
      map_of orig_output ''audio'' = Some orig_out \<Longrightarrow>
      map_of quant_output ''audio'' = Some quant_out \<Longrightarrow>
      np_flatten P orig_out = Inr xs \<Longrightarrow>
      np_flatten P quant_out = Inr ys \<Longrightarrow>
      np_max P (map (np_abs P)
        (map2 (np_sub P) (take (min (length xs) (length ys)) xs)
           (take (min (length xs) (length ys)) ys))) = Inl e \<Longrightarrow>
      validate_try P original quantized (py_print validating_line s) =
        (Inl e, py_print validating_line s)"
    by (simp add: c compare_audio_raises(3))
  have l1: "ct_MLModel P (world s) original_path = Inl e \<Longrightarrow>
      validate_quantized_model P original_path quantized_path s =
        (Inl e, s\<lparr>stdout := stdout s @ [validating_line]\<rparr>)"
    by (simp add: validate_load_raises(1) py_print_def)
  have l2: "ct_MLModel P (world s) original_path = Inr original \<Longrightarrow>
      ct_MLModel P (world s) quantized_path = Inl e \<Longrightarrow>
      validate_quantized_model P original_path quantized_path s =
        (Inl e, s\<lparr>stdout := stdout s @ [validating_line]\<rparr>)"
    by (simp add: validate_load_raises(2) py_print_def)
  note m = main_raises [of a P s] main_convert_raises [of a P s]
  show ?thesis
    apply (intro conjI impI)
    subgoal by (rule v) (auto intro: t1)
    subgoal by (rule v) (auto intro: t2)
    subgoal by (rule v) (auto intro: t3)
    subgoal by (rule v) (auto intro: t4)
    subgoal by (rule v) (auto intro: t5)
    subgoal by (rule l1)
    subgoal by (rule l2)
    subgoal by (rule m(1))
    subgoal by (rule m(2))
    subgoal by (rule m(3))
    subgoal by (rule m(4))
    subgoal by (rule m(5))
    done
qed

theorem C4_failures_witness:
  "validate_quantized_model predict_fails_platform ''kokoro.mlpackage'' ''kokoro.mlpackage''
     example_state =
     (Inr None,
      example_state\<lparr>stdout := [validating_line,
                                 validation_warning (LibraryError ''prediction failed'')]\<rparr>) \<and>
   validate_quantized_model example_platform ''missing.mlpackage'' ''kokoro.mlpackage''
     example_state =
     (Inl (LibraryError ''model not found''), example_state\<lparr>stdout := [validating_line]\<rparr>) \<and>
   fst (main example_platform (example_args\<lparr>args_input := ''missing.mlpackage''\<rparr>) example_state) =
     Inl (LibraryError ''model not found'') \<and>
   fst (main quantize_fails_platform example_args example_state) =
     Inl (ValueError ''unsupported dtype'') \<and>
   fst (main save_fails_platform example_args example_state) = Inl (LibraryError ''disk full'') \<and>
   fst (main example_platform (onnx_args\<lparr>args_input := ''missing.onnx''\<rparr>) example_state) =
     Inl (LibraryError ''cannot read the ONNX file'')"
proof -
  have out: "stdout example_state = []" by (simp add: example_state_def)
  have 1: "validate_quantized_model predict_fails_platform ''kokoro.mlpackage'' ''kokoro.mlpackage''
      example_state =
      (Inr None,
       example_state\<lparr>stdout := [validating_line,
                                  validation_warning (LibraryError ''prediction failed'')]\<rparr>)"
  proof -
    have l: "ct_MLModel predict_fails_platform (world example_state) ''kokoro.mlpackage'' =
        Inr relu_model"
      using example_loads(1) by (simp add: predict_fails_platform_def example_platform_def)
    have p: "model_predict predict_fails_platform (world example_state) relu_model =
        Inl (LibraryError ''prediction failed'')"
      by (simp add: predict_fails_platform_def)
    from C4_failures [where P = predict_fails_platform and s = example_state
        and original_path = "''kokoro.mlpackage''" and original = relu_model
        and quantized_path = "''kokoro.mlpackage''" and quantized = relu_model
        and e = "LibraryError ''prediction failed''"] l p out
    show ?thesis by simp
  qed
  have 2: "validate_quantized_model example_platform ''missing.mlpackage'' ''kokoro.mlpackage''
      example_state =
      (Inl (LibraryError ''model not found''), example_state\<lparr>stdout := [validating_line]\<rparr>)"
    using C4_failures [where P = example_platform and s = example_state
        and original_path = "''missing.mlpackage''" and quantized_path = "''kokoro.mlpackage''"
        and e = "LibraryError ''model not found''"] example_loads(2) out
    by simp
  have 3: "fst (main example_platform (example_args\<lparr>args_input := ''missing.mlpackage''\<rparr>)
      example_state) = Inl (LibraryError ''model not found'')"
    using C4_failures [where P = example_platform and s = example_state
        and e = "LibraryError ''model not found''"
        and a = "example_args\<lparr>args_input := ''missing.mlpackage''\<rparr>"] example_loads(2)
    by (simp add: example_args_def)
  have 4: "fst (main quantize_fails_platform example_args example_state) =
      Inl (ValueError ''unsupported dtype'')"
  proof -
    have l: "ct_MLModel quantize_fails_platform (world example_state) (args_input example_args) =
        Inr relu_model"
      using example_loads(1)
      by (simp add: quantize_fails_platform_def example_platform_def example_args_def)
    have q: "library_quantize quantize_fails_platform (args_precision example_args) relu_model =
        Inl (ValueError ''unsupported dtype'')"
      by (simp add: library_quantize_def quantize_fails_platform_def example_args_def
          relu_model_def)
    have "\<not> args_from_onnx example_args" by (simp add: example_args_def)
    with C4_failures [where P = quantize_fails_platform and s = example_state
        and e = "ValueError ''unsupported dtype''" and a = example_args and model = relu_model] l q
    show ?thesis by simp
  qed
  have 5: "fst (main save_fails_platform example_args example_state) =
      Inl (LibraryError ''disk full'')"
  proof -
    have l: "ct_MLModel save_fails_platform (world example_state) (args_input example_args) =
        Inr relu_model"
      using example_loads(1)
      by (simp add: save_fails_platform_def example_platform_def example_args_def)
    have q: "library_quantize save_fails_platform (args_precision example_args) relu_model =
        Inr relu_model"
      by (simp add: library_quantize_def save_fails_platform_def example_platform_def
          example_args_def relu_model_def)
    have sv: "model_save save_fails_platform (world example_state) relu_model
        (args_output example_args) = (Inl (LibraryError ''disk full''), world example_state)"
      by (simp add: save_fails_platform_def)
    have "\<not> args_from_onnx example_args" by (simp add: example_args_def)
    with C4_failures [where P = save_fails_platform and s = example_state
        and e = "LibraryError ''disk full''" and a = example_args and model = relu_model
        and qm = relu_model and w = "world example_state"] l q sv
    show ?thesis by simp
  qed
  have 6: "fst (main example_platform (onnx_args\<lparr>args_input := ''missing.onnx''\<rparr>) example_state) =
      Inl (LibraryError ''cannot read the ONNX file'')"
    using C4_failures [where P = example_platform and s = example_state
        and e = "LibraryError ''cannot read the ONNX file''"
        and a = "onnx_args\<lparr>args_input := ''missing.onnx''\<rparr>"] example_loads(3)
    by (simp add: onnx_args_def target_map_def)
  from 1 2 3 4 5 6 show ?thesis by simp
qed

text \<open>
  C4 as stated fails: when the quantized model cannot be loaded back, the exception is
  raised while validating, it is not caught, no warning is printed, and it ends \<open>main\<close>
  after the quantization has succeeded.
\<close>

theorem C4_counterexample:
  "validate_quantized_model unloadable_platform ''kokoro.mlpackage'' ''kokoro_fp16.mlpackage''
     example_state =
     (Inl (LibraryError ''cannot load the quantized model''),
      example_state\<lparr>stdout := [validating_line]\<rparr>) \<and>
   fst (main unloadable_platform example_args example_state) =
     Inl (LibraryError ''cannot load the quantized model'')"
proof -
  have 1: "validate_quantized_model unloadable_platform ''kokoro.mlpackage''
      ''kokoro_fp16.mlpackage'' example_state =
      (Inl (LibraryError ''cannot load the quantized model''),
       example_state\<lparr>stdout := [validating_line]\<rparr>)"
    using validate_load_raises(2) [OF unloadable_loads(1) unloadable_loads(2), of example_state]
    by (simp add: py_print_def example_state_def)
  have a: "\<not> args_from_onnx example_args" "args_validate example_args"
    "args_input example_args = ''kokoro.mlpackage''"
    "args_output example_args = ''kokoro_fp16.mlpackage''"
    "args_precision example_args = ''float16''"
    by (simp_all add: example_args_def)
  obtain s1 where s1: "analyze_model unloadable_platform ''kokoro.mlpackage'' example_state =
      (Inr relu_model, s1)" and w1: "world s1 = world example_state"
    using analyze_model_load(2) [OF unloadable_loads(1), of example_state]
    by (metis prod.collapse)
  have w: "world example_state = example_world" by (simp add: example_state_def)
  have q: "library_quantize unloadable_platform ''float16'' relu_model = Inr relu_model"
    by (simp add: unloadable_fields library_quantize_def example_platform_def relu_model_def)
  have sv: "model_save unloadable_platform (world s1) relu_model ''kokoro_fp16.mlpackage'' =
      (Inr (), example_world(''kokoro_fp16.mlpackage'' := [54525952]))"
    by (simp add: unloadable_fields example_platform_def w1 w)
  have d: "float_truediv unloadable_platform
      (float_sub unloadable_platform
        (get_model_size_mb unloadable_platform (world s1) ''kokoro.mlpackage'')
        (get_model_size_mb unloadable_platform
          (example_world(''kokoro_fp16.mlpackage'' := [54525952])) ''kokoro_fp16.mlpackage''))
      (get_model_size_mb unloadable_platform (world s1) ''kokoro.mlpackage'') =
      Inr (1080863910568919 / 2251799813685248)"
    unfolding unloadable_sizes w1 w example_sizes unloadable_fields by (rule b64_examples(4))
  from quantize_to_float16_ok [OF unloadable_loads(1) q sv d]
  obtain m s2 where s2: "quantize_to_float16 unloadable_platform ''kokoro.mlpackage''
      ''kokoro_fp16.mlpackage'' s1 = (Inr m, s2)"
    by blast
  have "fst (main unloadable_platform example_args example_state) =
      Inl (LibraryError ''cannot load the quantized model'')"
    by (rule main_validate_load_raises [of _ _ _ relu_model s1 m s2 relu_model])
       (simp_all add: a s1 s2 quantize_step_def unloadable_loads)
  with 1 show ?thesis by simp
qed

text \<open>
  C5.  The metrics record either quantization returns has, as its reduction, the float
  quotient of the float difference of its two sizes by the original size, times 100,
  whatever the float arithmetic of the platform.  With Python's binary64 floats, sizes of
  100.0 and 52.0 give the reduction 48.0 and sizes of 200.0 and 100.0 give the record
  (200.0, 100.0, 50.0), both exactly; and for all sizes the reduction differs from the
  exact value of ((original - quantized) / original) * 100 by at most that value times
  2 to the power -51.  Both functions do return that record: when the model loads, the
  library quantizes it, the save succeeds and the division does not raise, each returns
  the record of the size of the input, the size of what was saved and their reduction.
  With binary64 floats the division raises exactly when the size of the input is zero,
  and then both functions raise \<open>ZeroDivisionError\<close> after the save.
\<close>

theorem C5_reduction:
  "(quantize_to_float16 P input_path output_path s = (Inr m, s') \<or>
    quantize_to_int8 P input_path output_path s = (Inr m, s') \<longrightarrow>
      (\<exists>ratio.
         float_truediv P (float_sub P (original_size_mb m) (quantized_size_mb m))
           (original_size_mb m) = Inr ratio \<and>
         reduction_percent m = float_mul_int P ratio 100) \<and>
      (binary64_floats P \<longrightarrow>
         (original_size_mb m = 100 \<and> quantized_size_mb m = 52 \<longrightarrow> reduction_percent m = 48) \<and>
         (original_size_mb m = 200 \<and> quantized_size_mb m = 100 \<longrightarrow>
            m = \<lparr>original_size_mb = 200, quantized_size_mb = 100, reduction_percent = 50\<rparr>) \<and>
         original_size_mb m \<noteq> 0 \<and>
         \<bar>reduction_percent m -
            (original_size_mb m - quantized_size_mb m) / original_size_mb m * 100\<bar> \<le>
         \<bar>(original_size_mb m - quantized_size_mb m) / original_size_mb m * 100\<bar> / 2 ^ 51)) \<and>
   (ct_MLModel P (world s) input_path = Inr model \<longrightarrow>
    model_save P (world s) qm output_path = (Inr u, w) \<longrightarrow>
      (float_truediv P
         (float_sub P (get_model_size_mb P (world s) input_path)
            (get_model_size_mb P w output_path))
         (get_model_size_mb P (world s) input_path) = Inr ratio \<longrightarrow>
         (library_quantize P ''float16'' model = Inr qm \<longrightarrow>
            (\<exists>s1. quantize_to_float16 P input_path output_path s =
                    (Inr \<lparr>original_size_mb = get_model_size_mb P (world s) input_path,
                          quantized_size_mb = get_model_size_mb P w output_path,
                          reduction_percent = float_mul_int P ratio 100\<rparr>, s1) \<and>
                  world s1 = w)) \<and>
         (library_quantize P ''int8'' model = Inr qm \<longrightarrow>
            (\<exists>s1. quantize_to_int8 P input_path output_path s =
                    (Inr \<lparr>original_size_mb = get_model_size_mb P (world s) input_path,
                          quantized_size_mb = get_model_size_mb P w output_path,
                          reduction_percent = float_mul_int P ratio 100\<rparr>, s1) \<and>
                  world s1 = w))) \<and>
      (binary64_floats P \<longrightarrow>
         (get_model_size_mb P (world s) input_path \<noteq> 0 \<longrightarrow>
            (\<exists>r. float_truediv P
                   (float_sub P (get_model_size_mb P (world s) input_path)
                      (get_model_size_mb P w output_path))
                   (get_model_size_mb P (world s) input_path) = Inr r)) \<and>
         (get_model_size_mb P (world s) input_path = 0 \<longrightarrow>
            (library_quantize P ''float16'' model = Inr qm \<longrightarrow>
               fst (quantize_to_float16 P input_path output_path s) = Inl ZeroDivisionError) \<and>
            (library_quantize P ''int8'' model = Inr qm \<longrightarrow>
               fst (quantize_to_int8 P input_path output_path s) = Inl ZeroDivisionError))))"
proof (intro conjI)
  show "quantize_to_float16 P input_path output_path s = (Inr m, s') \<or>
    quantize_to_int8 P input_path output_path s = (Inr m, s') \<longrightarrow>
      (\<exists>ratio.
         float_truediv P (float_sub P (original_size_mb m) (quantized_size_mb m))
           (original_size_mb m) = Inr ratio \<and>
         reduction_percent m = float_mul_int P ratio 100) \<and>
      (binary64_floats P \<longrightarrow>
         (original_size_mb m = 100 \<and> quantized_size_mb m = 52 \<longrightarrow> reduction_percent m = 48) \<and>
         (original_size_mb m = 200 \<and> quantized_size_mb m = 100 \<longrightarrow>
            m = \<lparr>original_size_mb = 200, quantized_size_mb = 100, reduction_percent = 50\<rparr>) \<and>
         original_size_mb m \<noteq> 0 \<and>
         \<bar>reduction_percent m -
            (original_size_mb m - quantized_size_mb m) / original_size_mb m * 100\<bar> \<le>
         \<bar>(original_size_mb m - quantized_size_mb m) / original_size_mb m * 100\<bar> / 2 ^ 51)"
    by (rule impI) (rule record_reduction)
  show "ct_MLModel P (world s) input_path = Inr model \<longrightarrow>
    model_save P (world s) qm output_path = (Inr u, w) \<longrightarrow>
      (float_truediv P
         (float_sub P (get_model_size_mb P (world s) input_path)
            (get_model_size_mb P w output_path))
         (get_model_size_mb P (world s) input_path) = Inr ratio \<longrightarrow>
         (library_quantize P ''float16'' model = Inr qm \<longrightarrow>
            (\<exists>s1. quantize_to_float16 P input_path output_path s =
                    (Inr \<lparr>original_size_mb = get_model_size_mb P (world s) input_path,
                          quantized_size_mb = get_model_size_mb P w output_path,
                          reduction_percent = float_mul_int P ratio 100\<rparr>, s1) \<and>
                  world s1 = w)) \<and>
         (library_quantize P ''int8'' model = Inr qm \<longrightarrow>
            (\<exists>s1. quantize_to_int8 P input_path output_path s =
                    (Inr \<lparr>original_size_mb = get_model_size_mb P (world s) input_path,
                          quantized_size_mb = get_model_size_mb P w output_path,
                          reduction_percent = float_mul_int P ratio 100\<rparr>, s1) \<and>
                  world s1 = w))) \<and>
      (binary64_floats P \<longrightarrow>
         (get_model_size_mb P (world s) input_path \<noteq> 0 \<longrightarrow>
            (\<exists>r. float_truediv P
                   (float_sub P (get_model_size_mb P (world s) input_path)
                      (get_model_size_mb P w output_path))
                   (get_model_size_mb P (world s) input_path) = Inr r)) \<and>
         (get_model_size_mb P (world s) input_path = 0 \<longrightarrow>
            (library_quantize P ''float16'' model = Inr qm \<longrightarrow>
               fst (quantize_to_float16 P input_path output_path s) = Inl ZeroDivisionError) \<and>
            (library_quantize P ''int8'' model = Inr qm \<longrightarrow>
               fst (quantize_to_int8 P input_path output_path s) = Inl ZeroDivisionError)))"
  proof (intro impI conjI)
    assume l: "ct_MLModel P (world s) input_path = Inr model"
      and sv: "model_save P (world s) qm output_path = (Inr u, w)"
    {
      assume d: "float_truediv P
         (float_sub P (get_model_size_mb P (world s) input_path)
            (get_model_size_mb P w output_path))
         (get_model_size_mb P (world s) input_path) = Inr ratio"
      {
        assume q: "library_quantize P ''float16'' model = Inr qm"
        show "\<exists>s1. quantize_to_float16 P input_path output_path s =
                    (Inr \<lparr>original_size_mb = get_model_size_mb P (world s) input_path,
                          quantized_size_mb = get_model_size_mb P w output_path,
                          reduction_percent = float_mul_int P ratio 100\<rparr>, s1) \<and>
                  world s1 = w"
          by (rule quantize_to_float16_ok [OF l q sv d])
      }
      {
        assume q: "library_quantize P ''int8'' model = Inr qm"
        show "\<exists>s1. quantize_to_int8 P input_path output_path s =
                    (Inr \<lparr>original_size_mb = get_model_size_mb P (world s) input_path,
                          quantized_size_mb = get_model_size_mb P w output_path,
                          reduction_percent = float_mul_int P ratio 100\<rparr>, s1) \<and>
                  world s1 = w"
          by (rule quantize_to_int8_ok [OF l q sv d])
      }
    }
    assume b: "binary64_floats P"
    {
      assume "get_model_size_mb P (world s) input_path \<noteq> 0"
      then show "\<exists>r. float_truediv P
                   (float_sub P (get_model_size_mb P (world s) input_path)
                      (get_model_size_mb P w output_path))
                   (get_model_size_mb P (world s) input_path) = Inr r"
        by (rule binary64_division(1) [OF b])
    }
    assume z: "get_model_size_mb P (world s) input_path = 0"
    have d: "float_truediv P
         (float_sub P (get_model_size_mb P (world s) input_path)
            (get_model_size_mb P w output_path))
         (get_model_size_mb P (world s) input_path) = Inl ZeroDivisionError"
      unfolding z by (rule binary64_division(2) [OF b])
    {
      assume q: "library_quantize P ''float16'' model = Inr qm"
      then show "fst (quantize_to_float16 P input_path output_path s) = Inl ZeroDivisionError"
        by (rule quantize_div_raises(1) [OF l sv d])
    }
    {
      assume q: "library_quantize P ''int8'' model = Inr qm"
      then show "fst (quantize_to_int8 P input_path output_path s) = Inl ZeroDivisionError"
        by (rule quantize_div_raises(2) [OF l sv d])
    }
  qed
qed

theorem C5_reduction_witness:
  "binary64_floats example_platform \<and>
   (\<exists>s'. quantize_to_float16 example_platform ''kokoro.mlpackage'' ''kokoro_fp16.mlpackage''
           example_state =
           (Inr \<lparr>original_size_mb = 100, quantized_size_mb = 52, reduction_percent = 48\<rparr>, s')) \<and>
   (\<exists>s'. quantize_to_int8 example_platform ''kokoro.mlpackage'' ''kokoro_int8.mlpackage''
           example_state =
           (Inr \<lparr>original_size_mb = 100, quantized_size_mb = 52, reduction_percent = 48\<rparr>, s')) \<and>
   (\<exists>s'. quantize_to_int8 halving_platform ''kokoro.mlpackage'' ''kokoro_int8.mlpackage''
           big_state =
           (Inr \<lparr>original_size_mb = 200, quantized_size_mb = 100, reduction_percent = 50\<rparr>, s')) \<and>
   fst (quantize_to_float16 single_file_platform ''kokoro.mlmodel'' ''kokoro_fp16.mlmodel''
          example_state) = Inl ZeroDivisionError"
proof -
  have w: "world example_state = example_world" by (simp add: example_state_def)
  have o: "get_model_size_mb example_platform (world example_state) ''kokoro.mlpackage'' = 100"
    by (rule size_mb_cases(1)) (simp_all add: example_ops w example_world_def)
  have d: "b64_truediv (b64_sub 100 52) 100 = Inr (1080863910568919 / 2251799813685248)"
    by (rule b64_examples(4))
  have r: "b64_mul_int (1080863910568919 / 2251799813685248) 100 = 48"
    by (rule b64_examples(5))
  have 1: "\<exists>s'. quantize_to_float16 example_platform ''kokoro.mlpackage''
      ''kokoro_fp16.mlpackage'' example_state =
      (Inr \<lparr>original_size_mb = 100, quantized_size_mb = 52, reduction_percent = 48\<rparr>, s')"
  proof -
    have sv: "model_save example_platform (world example_state) relu_model
        ''kokoro_fp16.mlpackage'' =
        (Inr (), (world example_state)(''kokoro_fp16.mlpackage'' := [54525952]))"
      by (simp add: example_ops)
    have q: "get_model_size_mb example_platform
        ((world example_state)(''kokoro_fp16.mlpackage'' := [54525952]))
        ''kokoro_fp16.mlpackage'' = 52"
      by (rule size_mb_cases(2)) (simp_all add: example_ops)
    have dv: "float_truediv example_platform
        (float_sub example_platform
          (get_model_size_mb example_platform (world example_state) ''kokoro.mlpackage'')
          (get_model_size_mb example_platform
            ((world example_state)(''kokoro_fp16.mlpackage'' := [54525952]))
            ''kokoro_fp16.mlpackage''))
        (get_model_size_mb example_platform (world example_state) ''kokoro.mlpackage'') =
        Inr (1080863910568919 / 2251799813685248)"
      unfolding o q example_ops by (rule d)
    from C5_reduction [where P = example_platform and s = example_state
        and input_path = "''kokoro.mlpackage''" and output_path = "''kokoro_fp16.mlpackage''"
        and model = relu_model and qm = relu_model
        and ratio = "1080863910568919 / 2251799813685248",
        THEN conjunct2, THEN mp, THEN mp, THEN conjunct1, THEN mp, THEN conjunct1, THEN mp,
        OF example_loads(1) sv dv example_ops(7)]
    show ?thesis
      unfolding o q example_ops r by (elim exE conjE) (rule exI)
  qed
  have 2: "\<exists>s'. quantize_to_int8 example_platform ''kokoro.mlpackage''
      ''kokoro_int8.mlpackage'' example_state =
      (Inr \<lparr>original_size_mb = 100, quantized_size_mb = 52, reduction_percent = 48\<rparr>, s')"
  proof -
    have sv: "model_save example_platform (world example_state) relu_model
        ''kokoro_int8.mlpackage'' =
        (Inr (), (world example_state)(''kokoro_int8.mlpackage'' := [54525952]))"
      by (simp add: example_ops)
    have q: "get_model_size_mb example_platform
        ((world example_state)(''kokoro_int8.mlpackage'' := [54525952]))
        ''kokoro_int8.mlpackage'' = 52"
      by (rule size_mb_cases(2)) (simp_all add: example_ops)
    have dv: "float_truediv example_platform
        (float_sub example_platform
          (get_model_size_mb example_platform (world example_state) ''kokoro.mlpackage'')
          (get_model_size_mb example_platform
            ((world example_state)(''kokoro_int8.mlpackage'' := [54525952]))
            ''kokoro_int8.mlpackage''))
        (get_model_size_mb example_platform (world example_state) ''kokoro.mlpackage'') =
        Inr (1080863910568919 / 2251799813685248)"
      unfolding o q example_ops by (rule d)
    from C5_reduction [where P = example_platform and s = example_state
        and input_path = "''kokoro.mlpackage''" and output_path = "''kokoro_int8.mlpackage''"
        and model = relu_model and qm = relu_model
        and ratio = "1080863910568919 / 2251799813685248",
        THEN conjunct2, THEN mp, THEN mp, THEN conjunct1, THEN mp, THEN conjunct2, THEN mp,
        OF example_loads(1) sv dv example_ops(7)]
    show ?thesis
      unfolding o q example_ops r by (elim exE conjE) (rule exI)
  qed
  have 3: "\<exists>s'. quantize_to_int8 halving_platform ''kokoro.mlpackage''
      ''kokoro_int8.mlpackage'' big_state =
      (Inr \<lparr>original_size_mb = 200, quantized_size_mb = 100, reduction_percent = 50\<rparr>, s')"
  proof -
    have l: "ct_MLModel halving_platform (world big_state) ''kokoro.mlpackage'' = Inr relu_model"
      by (simp add: halving_ops big_state_def)
    have sv: "model_save halving_platform (world big_state) relu_model
        ''kokoro_int8.mlpackage'' =
        (Inr (), (world big_state)(''kokoro_int8.mlpackage'' := [104857600]))"
      by (simp add: halving_ops)
    have o: "get_model_size_mb halving_platform (world big_state) ''kokoro.mlpackage'' = 200"
      by (rule size_mb_cases(3)) (simp_all add: halving_ops big_state_def)
    have q: "get_model_size_mb halving_platform
        ((world big_state)(''kokoro_int8.mlpackage'' := [104857600]))
        ''kokoro_int8.mlpackage'' = 100"
      by (rule size_mb_cases(1)) (simp_all add: halving_ops)
    have dv: "float_truediv halving_platform
        (float_sub halving_platform
          (get_model_size_mb halving_platform (world big_state) ''kokoro.mlpackage'')
          (get_model_size_mb halving_platform
            ((world big_state)(''kokoro_int8.mlpackage'' := [104857600]))
            ''kokoro_int8.mlpackage''))
        (get_model_size_mb halving_platform (world big_state) ''kokoro.mlpackage'') =
        Inr (1 / 2)"
      unfolding o q halving_ops by (rule b64_examples(6))
    from C5_reduction [where P = halving_platform and s = big_state
        and input_path = "''kokoro.mlpackage''" and output_path = "''kokoro_int8.mlpackage''"
        and model = relu_model and qm = relu_model and ratio = "1 / 2",
        THEN conjunct2, THEN mp, THEN mp, THEN conjunct1, THEN mp, THEN conjunct2, THEN mp,
        OF l sv dv halving_ops(7)]
    show ?thesis
      unfolding o q halving_ops b64_examples(7) by (elim exE conjE) (rule exI)
  qed
  have 4: "fst (quantize_to_float16 single_file_platform ''kokoro.mlmodel''
      ''kokoro_fp16.mlmodel'' example_state) = Inl ZeroDivisionError"
  proof -
    have l: "ct_MLModel single_file_platform (world example_state) ''kokoro.mlmodel'' =
        Inr relu_model"
      by (simp add: single_file_ops)
    have sv: "model_save single_file_platform (world example_state) relu_model
        ''kokoro_fp16.mlmodel'' =
        (Inr (), (world example_state)(''kokoro_fp16.mlmodel'' := [54525952]))"
      by (simp add: single_file_ops)
    have o: "get_model_size_mb single_file_platform (world example_state) ''kokoro.mlmodel'' = 0"
      by (rule size_mb_cases(4)) (simp_all add: single_file_ops w example_world_def)
    have b: "binary64_floats single_file_platform"
      by (simp add: binary64_floats_def single_file_ops)
    from C5_reduction [where P = single_file_platform and s = example_state
        and input_path = "''kokoro.mlmodel''" and output_path = "''kokoro_fp16.mlmodel''"
        and model = relu_model and qm = relu_model,
        THEN conjunct2, THEN mp, THEN mp, THEN conjunct2, THEN mp, THEN conjunct2, THEN mp,
        THEN conjunct1, THEN mp, OF l sv b o single_file_ops(7)]
    show ?thesis .
  qed
  from example_floats 1 2 3 4 show ?thesis by (intro conjI)
qed

text \<open>
  C9.  With \<open>--from-onnx\<close>, \<open>main\<close> converts, saves, prints the three lines of the
  conversion and returns without a metrics record; a failure of the conversion or of the
  save ends it; the world changes by the save only; and the \<open>--validate\<close> and
  \<open>--compile\<close> flags change nothing.
\<close>

theorem C9_from_onnx:
  assumes "args_from_onnx a"
  shows
    "(ct_convert P (world s) (args_input a)
         (case map_of target_map (args_target a) of None \<Rightarrow> iOS16 | Some t \<Rightarrow> t) = Inl e \<longrightarrow>
        main P a s = (Inl e, s\<lparr>stdout := stdout s @ [converting_line (args_input a)]\<rparr>)) \<and>
     (ct_convert P (world s) (args_input a)
         (case map_of target_map (args_target a) of None \<Rightarrow> iOS16 | Some t \<Rightarrow> t) = Inr model \<longrightarrow>
        (model_save P (world s) model (args_output a) = (Inl e, w) \<longrightarrow>
           main P a s =
             (Inl e, s\<lparr>world := w, stdout := stdout s @ [converting_line (args_input a)]\<rparr>)) \<and>
        (model_save P (world s) model (args_output a) = (Inr (), w) \<longrightarrow>
           main P a s =
             (Inr None,
              s\<lparr>world := w,
                stdout := stdout s @ [converting_line (args_input a), saved_line (args_output a),
                                      onnx_done_line]\<rparr>))) \<and>
     fst (main P a s) \<noteq> Inr (Some m) \<and>
     main P (a\<lparr>args_validate := v, args_compile := c\<rparr>) s = main P a s"
proof -
  let ?tgt = "case map_of target_map (args_target a) of None \<Rightarrow> iOS16 | Some t \<Rightarrow> t"
  have 1: "ct_convert P (world s) (args_input a) ?tgt = Inl e \<Longrightarrow>
      main P a s = (Inl e, s\<lparr>stdout := stdout s @ [converting_line (args_input a)]\<rparr>)"
    using assms by (simp add: main_from_onnx convert_cases(1) py_print_def)
  have 2: "ct_convert P (world s) (args_input a) ?tgt = Inr model \<Longrightarrow>
      model_save P (world s) model (args_output a) = (Inl e, w) \<Longrightarrow>
      main P a s =
        (Inl e, s\<lparr>world := w, stdout := stdout s @ [converting_line (args_input a)]\<rparr>)"
    using assms by (simp add: main_from_onnx convert_cases(2) py_print_def)
  have 3: "ct_convert P (world s) (args_input a) ?tgt = Inr model \<Longrightarrow>
      model_save P (world s) model (args_output a) = (Inr (), w) \<Longrightarrow>
      main P a s =
        (Inr None,
         s\<lparr>world := w,
           stdout := stdout s @ [converting_line (args_input a), saved_line (args_output a),
                                 onnx_done_line]\<rparr>)"
    using assms by (simp add: main_from_onnx convert_cases(3) py_print_def)
  have 4: "fst (main P a s) \<noteq> Inr (Some m)"
    using assms by (simp add: main_from_onnx split: prod.splits sum.splits)
  have 5: "main P (a\<lparr>args_validate := v, args_compile := c\<rparr>) s = main P a s"
    using assms by (simp add: main_from_onnx)
  from 1 2 3 4 5 show ?thesis by blast
qed

theorem C9_from_onnx_witness:
  "args_from_onnx onnx_args \<and>
   ct_convert example_platform (world example_state) ''kokoro.onnx'' iOS17 = Inr relu_model \<and>
   model_save example_platform (world example_state) relu_model ''kokoro_fp16.mlpackage'' =
     (Inr (), example_world(''kokoro_fp16.mlpackage'' := [54525952])) \<and>
   main example_platform onnx_args example_state =
     (Inr None,
      \<lparr>world = example_world(''kokoro_fp16.mlpackage'' := [54525952]),
       stdout = [converting_line ''kokoro.onnx'', saved_line ''kokoro_fp16.mlpackage'',
                 onnx_done_line]\<rparr>) \<and>
   main example_platform (onnx_args\<lparr>args_validate := False, args_compile := False\<rparr>) example_state =
     main example_platform onnx_args example_state"
proof -
  have a: "args_from_onnx onnx_args" "args_input onnx_args = ''kokoro.onnx''"
    "args_output onnx_args = ''kokoro_fp16.mlpackage''"
    "(case map_of target_map (args_target onnx_args) of None \<Rightarrow> iOS16 | Some t \<Rightarrow> t) = iOS17"
    by (simp_all add: onnx_args_def target_map_def)
  have c: "ct_convert example_platform (world example_state) ''kokoro.onnx'' iOS17 = Inr relu_model"
    by (simp add: example_platform_def example_state_def example_world_def)
  have sv: "model_save example_platform (world example_state) relu_model ''kokoro_fp16.mlpackage'' =
      (Inr (), example_world(''kokoro_fp16.mlpackage'' := [54525952]))"
    by (simp add: example_platform_def example_state_def)
  from C9_from_onnx [OF a(1), of example_platform example_state "LibraryError []" relu_model
      "example_world(''kokoro_fp16.mlpackage'' := [54525952])"
      "\<lparr>original_size_mb = 0, quantized_size_mb = 0, reduction_percent = 0\<rparr>" False False]
  show ?thesis
    unfolding a using c sv a(1) by (simp add: example_state_def)
qed

text \<open>
  C10.  When both models load and both predictions succeed but one of the outputs has no
  \<open>audio\<close> entry, \<open>validate_quantized_model\<close> returns \<open>None\<close> without raising, and the
  only line it prints is its heading, which is not the warning line of any exception.
\<close>

theorem C10_audio_missing:
  assumes "ct_MLModel P (world s) original_path = Inr original"
    and "ct_MLModel P (world s) quantized_path = Inr quantized"
    and "model_predict P (world s) original = Inr orig_output"
    and "model_predict P (world s) quantized = Inr quant_output"
    and "map_of orig_output ''audio'' = None \<or> map_of quant_output ''audio'' = None"
  shows "validate_quantized_model P original_path quantized_path s =
           (Inr None, s\<lparr>stdout := stdout s @ [validating_line]\<rparr>) \<and>
         validating_line \<noteq> validation_warning e"
proof -
  have "validate_try P original quantized (py_print validating_line s) =
      (Inr None, py_print validating_line s)"
    using assms(3-5) by (intro validate_try_audio_missing) simp_all
  then have "validate_quantized_model P original_path quantized_path s =
           (Inr None, s\<lparr>stdout := stdout s @ [validating_line]\<rparr>)"
    using assms(1,2) by (simp add: validate_quantized_model_def Let_def py_print_def)
  moreover have "validating_line \<noteq> validation_warning e"
    by (simp add: validating_line_def validation_warning_def)
  ultimately show ?thesis by simp
qed

theorem C10_audio_missing_witness:
  "ct_MLModel no_audio_platform (world example_state) ''kokoro.mlpackage'' = Inr relu_model \<and>
   model_predict no_audio_platform (world example_state) relu_model = Inr [(''mel'', [Finite 0, Finite (1 / 2)])] \<and>
   map_of [(''mel'', [Finite 0, Finite (1 / 2)])] ''audio'' = None \<and>
   validate_quantized_model no_audio_platform ''kokoro.mlpackage'' ''kokoro.mlpackage'' example_state =
     (Inr None, example_state\<lparr>stdout := [validating_line]\<rparr>)"
proof -
  have l: "ct_MLModel no_audio_platform (world example_state) ''kokoro.mlpackage'' = Inr relu_model"
    by (simp add: no_audio_platform_def example_platform_def example_state_def example_world_def)
  have p: "model_predict no_audio_platform (world example_state) relu_model =
      Inr [(''mel'', [Finite 0, Finite (1 / 2)])]"
    by (simp add: no_audio_platform_def example_platform_def)
  have m: "map_of [(''mel'', [Finite 0, Finite (1 / 2)])] ''audio'' = None \<or>
      map_of [(''mel'', [Finite 0, Finite (1 / 2)])] ''audio'' = None"
    by simp
  have "stdout example_state = []" by (simp add: example_state_def)
  with C10_audio_missing [OF l l p p m] l p show ?thesis by simp
qed

end
